theory Spec2Isabelle
  imports Main "HOL-Library.Word"
begin

unbundle bit_operations_syntax

section \<open>The FF-A proxy of the pKVM hypervisor (arch/arm64/kvm/hyp/nvhe/ffa.c)\<close>

text \<open>
  A shallow embedding of ffa.c. Every C function of the file is a HOL function of the
  same name that takes the hypervisor state and returns the new one. The statics of the
  file and the state of its external collaborators (secure side, stage-2 ownership
  tracking, allocator) are the fields of one record. C's \<open>int\<close> is a 32-bit word read
  with \<open>sint\<close>, \<open>u32\<close> and \<open>u64\<close> are words, registers are 64-bit words.
  The buffer lock is taken and released inside each operation; a state of this model is
  a state in which the lock is not held.
\<close>

type_synonym u64 = "64 word"
type_synonym u32 = "32 word"
type_synonym u16 = "16 word"
type_synonym u8 = "8 word"
type_synonym s32 = "32 word"

subsection \<open>Constants of the headers\<close>

text \<open>
  The function identifiers, status codes and structure sizes come from
  include/linux/arm_ffa.h and the SMCCC headers, which declare what the Arm specification
  DEN0077 (named at the top of ffa.c) fixes. The configuration is the common one:
  4KiB pages, a one-page message box.
\<close>

definition FFA_ERROR :: u64 where "FFA_ERROR = 0x84000060"
definition FFA_SUCCESS :: u64 where "FFA_SUCCESS = 0x84000061"
definition FFA_VERSION :: u64 where "FFA_VERSION = 0x84000063"
definition FFA_FEATURES :: u64 where "FFA_FEATURES = 0x84000064"
definition FFA_RX_RELEASE :: u64 where "FFA_RX_RELEASE = 0x84000065"
definition FFA_RXTX_MAP :: u64 where "FFA_RXTX_MAP = 0x84000066"
definition FFA_FN64_RXTX_MAP :: u64 where "FFA_FN64_RXTX_MAP = 0xC4000066"
definition FFA_RXTX_UNMAP :: u64 where "FFA_RXTX_UNMAP = 0x84000067"
definition FFA_PARTITION_INFO_GET :: u64 where "FFA_PARTITION_INFO_GET = 0x84000068"
definition FFA_ID_GET :: u64 where "FFA_ID_GET = 0x84000069"
definition FFA_MSG_POLL :: u64 where "FFA_MSG_POLL = 0x8400006A"
definition FFA_MSG_WAIT :: u64 where "FFA_MSG_WAIT = 0x8400006B"
definition FFA_MSG_SEND :: u64 where "FFA_MSG_SEND = 0x8400006E"
definition FFA_MSG_SEND_DIRECT_REQ :: u64 where "FFA_MSG_SEND_DIRECT_REQ = 0x8400006F"
definition FFA_MSG_SEND_DIRECT_RESP :: u64 where "FFA_MSG_SEND_DIRECT_RESP = 0x84000070"
definition FFA_MEM_DONATE :: u64 where "FFA_MEM_DONATE = 0x84000071"
definition FFA_FN64_MEM_DONATE :: u64 where "FFA_FN64_MEM_DONATE = 0xC4000071"
definition FFA_MEM_LEND :: u64 where "FFA_MEM_LEND = 0x84000072"
definition FFA_FN64_MEM_LEND :: u64 where "FFA_FN64_MEM_LEND = 0xC4000072"
definition FFA_MEM_SHARE :: u64 where "FFA_MEM_SHARE = 0x84000073"
definition FFA_FN64_MEM_SHARE :: u64 where "FFA_FN64_MEM_SHARE = 0xC4000073"
definition FFA_MEM_RETRIEVE_REQ :: u64 where "FFA_MEM_RETRIEVE_REQ = 0x84000074"
definition FFA_FN64_MEM_RETRIEVE_REQ :: u64 where "FFA_FN64_MEM_RETRIEVE_REQ = 0xC4000074"
definition FFA_MEM_RETRIEVE_RESP :: u64 where "FFA_MEM_RETRIEVE_RESP = 0x84000075"
definition FFA_MEM_RELINQUISH :: u64 where "FFA_MEM_RELINQUISH = 0x84000076"
definition FFA_MEM_RECLAIM :: u64 where "FFA_MEM_RECLAIM = 0x84000077"
definition FFA_MEM_OP_PAUSE :: u64 where "FFA_MEM_OP_PAUSE = 0x84000078"
definition FFA_MEM_OP_RESUME :: u64 where "FFA_MEM_OP_RESUME = 0x84000079"
definition FFA_MEM_FRAG_RX :: u64 where "FFA_MEM_FRAG_RX = 0x8400007A"
definition FFA_MEM_FRAG_TX :: u64 where "FFA_MEM_FRAG_TX = 0x8400007B"

lemmas ffa_func_ids =
  FFA_ERROR_def FFA_SUCCESS_def FFA_VERSION_def FFA_FEATURES_def FFA_RX_RELEASE_def
  FFA_RXTX_MAP_def FFA_FN64_RXTX_MAP_def FFA_RXTX_UNMAP_def FFA_PARTITION_INFO_GET_def
  FFA_ID_GET_def FFA_MSG_POLL_def FFA_MSG_WAIT_def FFA_MSG_SEND_def
  FFA_MSG_SEND_DIRECT_REQ_def FFA_MSG_SEND_DIRECT_RESP_def FFA_MEM_DONATE_def
  FFA_FN64_MEM_DONATE_def FFA_MEM_LEND_def FFA_FN64_MEM_LEND_def FFA_MEM_SHARE_def
  FFA_FN64_MEM_SHARE_def FFA_MEM_RETRIEVE_REQ_def FFA_FN64_MEM_RETRIEVE_REQ_def
  FFA_MEM_RETRIEVE_RESP_def FFA_MEM_RELINQUISH_def FFA_MEM_RECLAIM_def
  FFA_MEM_OP_PAUSE_def FFA_MEM_OP_RESUME_def FFA_MEM_FRAG_RX_def FFA_MEM_FRAG_TX_def

definition FFA_RET_SUCCESS :: s32 where "FFA_RET_SUCCESS = 0"
definition FFA_RET_NOT_SUPPORTED :: s32 where "FFA_RET_NOT_SUPPORTED = - 1"
definition FFA_RET_INVALID_PARAMETERS :: s32 where "FFA_RET_INVALID_PARAMETERS = - 2"
definition FFA_RET_NO_MEMORY :: s32 where "FFA_RET_NO_MEMORY = - 3"
definition FFA_RET_BUSY :: s32 where "FFA_RET_BUSY = - 4"
definition FFA_RET_DENIED :: s32 where "FFA_RET_DENIED = - 6"
definition FFA_RET_ABORTED :: s32 where "FFA_RET_ABORTED = - 8"

lemmas ffa_ret_codes =
  FFA_RET_SUCCESS_def FFA_RET_NOT_SUPPORTED_def FFA_RET_INVALID_PARAMETERS_def
  FFA_RET_NO_MEMORY_def FFA_RET_BUSY_def FFA_RET_DENIED_def FFA_RET_ABORTED_def

definition EPERM :: s32 where "EPERM = 1"
definition ENOMEM :: s32 where "ENOMEM = 12"
definition EFAULT :: s32 where "EFAULT = 14"
definition EBUSY :: s32 where "EBUSY = 16"
definition EINVAL :: s32 where "EINVAL = 22"
definition EOPNOTSUPP :: s32 where "EOPNOTSUPP = 95"

lemmas errno_codes = EPERM_def ENOMEM_def EFAULT_def EBUSY_def EINVAL_def EOPNOTSUPP_def

definition HOST_FFA_ID :: nat where "HOST_FFA_ID = 0"
definition FFA_MAX_REGISTERED_SP_IDS :: nat where "FFA_MAX_REGISTERED_SP_IDS = 8"
definition KVM_MAX_PVMS :: nat where "KVM_MAX_PVMS = 255"
definition HANDLE_OFFSET :: u32 where "HANDLE_OFFSET = 0x1000"
definition USHRT_MAX :: u16 where "USHRT_MAX = 0xFFFF"
definition PAGE_SHIFT :: nat where "PAGE_SHIFT = 12"
definition PAGE_SIZE :: nat where "PAGE_SIZE = 4096"
definition FFA_PAGE_SIZE :: nat where "FFA_PAGE_SIZE = 4096"
definition KVM_FFA_MBOX_NR_PAGES :: nat where "KVM_FFA_MBOX_NR_PAGES = 1"
definition FFA_VERSION_1_0 :: u32 where "FFA_VERSION_1_0 = 0x10000"
definition FFA_VERSION_1_1 :: u32 where "FFA_VERSION_1_1 = 0x10001"
definition FFA_FEAT_RXTX_MIN_SZ_4K :: u64 where "FFA_FEAT_RXTX_MIN_SZ_4K = 0"
definition FFA_FEAT_RXTX_MIN_SZ_64K :: u64 where "FFA_FEAT_RXTX_MIN_SZ_64K = 1"
definition FFA_FEAT_RXTX_MIN_SZ_16K :: u64 where "FFA_FEAT_RXTX_MIN_SZ_16K = 2"
definition FFA_VM_CREATION_MSG :: u32 where "FFA_VM_CREATION_MSG = 0x80000004"
definition FFA_VM_DESTRUCTION_MSG :: u32 where "FFA_VM_DESTRUCTION_MSG = 0x80000006"
definition FFA_PART_VM_AVAIL_MASK :: u32 where "FFA_PART_VM_AVAIL_MASK = 0xC0"
definition FFA_PART_SUPPORTS_VM_AVAIL :: u32 where "FFA_PART_SUPPORTS_VM_AVAIL = 0xC0"
definition FFA_1_0_PARTITON_INFO_SZ :: u32 where "FFA_1_0_PARTITON_INFO_SZ = 8"

text \<open>sizeof of the wire structures of arm_ffa.h.\<close>

definition sizeof_ffa_mem_region :: nat where "sizeof_ffa_mem_region = 48"
definition sizeof_ffa_mem_region_attributes :: nat where "sizeof_ffa_mem_region_attributes = 16"
definition sizeof_ffa_composite_mem_region :: nat where "sizeof_ffa_composite_mem_region = 16"
definition sizeof_ffa_mem_region_addr_range :: nat where "sizeof_ffa_mem_region_addr_range = 16"

lemmas ffa_sizes =
  PAGE_SHIFT_def PAGE_SIZE_def FFA_PAGE_SIZE_def KVM_FFA_MBOX_NR_PAGES_def
  sizeof_ffa_mem_region_def sizeof_ffa_mem_region_attributes_def
  sizeof_ffa_composite_mem_region_def sizeof_ffa_mem_region_addr_range_def

definition FFA_MAJOR_VERSION :: "u32 \<Rightarrow> u32" where
  "FFA_MAJOR_VERSION x = drop_bit 16 x AND 0x7FFF"

definition FFA_MINOR_VERSION :: "u32 \<Rightarrow> u32" where
  "FFA_MINOR_VERSION x = x AND 0xFFFF"

definition PACK_HANDLE :: "u32 \<Rightarrow> u32 \<Rightarrow> u64" where
  "PACK_HANDLE l h = ucast l OR push_bit 32 (ucast h)"

definition HANDLE_LOW :: "u64 \<Rightarrow> u32" where
  "HANDLE_LOW x = ucast x"

definition HANDLE_HIGH :: "u64 \<Rightarrow> u32" where
  "HANDLE_HIGH x = ucast (drop_bit 32 x)"

definition PAGE_ALIGNED :: "u64 \<Rightarrow> bool" where
  "PAGE_ALIGNED x = (unat x mod PAGE_SIZE = 0)"

definition hyp_phys_to_pfn :: "u64 \<Rightarrow> u64" where
  "hyp_phys_to_pfn x = drop_bit PAGE_SHIFT x"

text \<open>
  \<open>is_ffa_call\<close> of nvhe/ffa.h: a fast call of the standard-service owner whose function
  number lies in the FF-A range.
\<close>

definition is_ffa_call :: "u64 \<Rightarrow> bool" where
  "is_ffa_call func_id =
     (bit func_id 31 \<and> drop_bit 24 func_id AND 0x3F = 4 \<and>
      0x60 \<le> (func_id AND 0xFFFF) \<and> (func_id AND 0xFFFF) \<le> 0xFF)"

subsection \<open>Data structures\<close>

record arm_smccc_res =
  a0 :: u64
  a1 :: u64
  a2 :: u64
  a3 :: u64

record ffa_mem_region_addr_range =
  address :: u64
  pg_cnt :: u32

record ffa_translation =
  ipa :: u64
  pa :: u64

record ffa_mem_transfer =
  ffa_handle :: u64
  translation_list :: "ffa_translation list"

text \<open>
  \<open>struct kvm_ffa_buffers\<close>. A buffer pointer is \<open>None\<close> when it is NULL and otherwise
  holds the physical address of the page it points to (the hypervisor's linear map is a
  bijection, so \<open>hyp_phys_to_virt\<close> and \<open>hyp_virt_to_phys\<close> disappear). The intrusive
  lists are lists with the head first: \<open>list_add\<close> is \<open>#\<close>.
\<close>

record kvm_ffa_buffers =
  tx :: "u64 option"
  tx_ipa :: u64
  rx :: "u64 option"
  rx_ipa :: u64
  xfer_list :: "ffa_mem_transfer list"

text \<open>
  The memory-region descriptor an endpoint leaves in its TX buffer, by the fields the
  code reads from it: \<open>ep_count\<close> of the header, \<open>composite_off\<close> of the first
  endpoint access descriptor, and of the composite region found at that offset its two
  counters and the array of constituents that follows them. \<open>frag_ranges\<close> is the same
  buffer read as an array of address ranges from its first byte, as the
  fragment-continuation call reads it.
\<close>

record ffa_mem_region =
  ep_count :: u32
  composite_off :: u32
  total_pg_cnt :: u32
  addr_range_cnt :: u32
  constituents :: "nat \<Rightarrow> ffa_mem_region_addr_range"
  frag_ranges :: "nat \<Rightarrow> ffa_mem_region_addr_range"

record ffa_partition_info =
  part_id :: u16
  properties :: u32

text \<open>
  The secure side (SPMD) is a deterministic oracle over the history of the calls issued
  to it: \<open>smc_res\<close> gives the result registers of the last call of the history, and
  the other fields give what the hypervisor's RX buffer holds after that call:
  \<open>rx_region\<close> the header of the memory-region descriptor by the fields the code reads
  in place (\<open>composite_off\<close> of the first endpoint access descriptor), \<open>rx_bytes\<close> the
  bytes of the buffer, which \<open>memcpy\<close> copies out of it, and \<open>rx_parts\<close> the partition
  array.
\<close>

record secure_side =
  smc_res :: "u64 list list \<Rightarrow> arm_smccc_res"
  rx_region :: "u64 list list \<Rightarrow> ffa_mem_region"
  rx_bytes :: "u64 list list \<Rightarrow> nat \<Rightarrow> u8"
  rx_parts :: "u64 list list \<Rightarrow> nat \<Rightarrow> ffa_partition_info"

text \<open>
  Modelled from the spec: the stage-2 ownership authority (mem_protect.c is not under
  src/). A host page is owned by the host, shared with the secure side, shared with the
  hypervisor, or not the host's. A guest page is mapped at a physical address in one of
  these states, or not resident.
\<close>

datatype page_state = PKVM_PAGE_OWNED | PKVM_PAGE_SHARED_FFA | PKVM_PAGE_SHARED_HYP | PKVM_NOPAGE

text \<open>
  What the helpers outside ffa.c leave for the execution loop of a virtual CPU: a request
  to fault a guest page in, a request to refill the memory cache, a request to donate
  memory to the allocator.
\<close>

datatype vcpu_event =
  MEMSHARE_PAGE_REQ u64
  | EMPTY_MEMCACHE
  | HYP_REQ_MEM nat

record hyp_state =
  endp_buffers :: "nat \<Rightarrow> kvm_ffa_buffers"
  hyp_buffers_tx :: u64
  hyp_buffers_rx :: u64
  ffa_desc_buf :: "nat \<Rightarrow> u8"
  ffa_desc_buf_len :: nat
  hyp_ffa_version :: u32
  has_version_negotiated :: bool
  hyp_buff_refcnt :: u16
  sp_ids :: "nat \<Rightarrow> u16"
  num_registered_sp_ids :: u8
  smc_log :: "u64 list list"
  host_pages :: "u64 \<Rightarrow> page_state"
  guest_pages :: "nat \<Rightarrow> u64 \<Rightarrow> (u64 \<times> page_state) option"
  hyp_pins :: "u64 \<Rightarrow> nat"
  pin_refused :: "u64 \<Rightarrow> bool"
  alloc_free :: nat
  req_slots :: nat
  missing_donations :: nat
  vcpu_events :: "vcpu_event list"
  elr :: u64
  warnings :: nat

text \<open>
  \<open>WARN_ON\<close> reports and goes on: the source itself tests its value
  (\<open>if (WARN_ON(offset > len || ...))\<close>) and handles the error after it.
  The model counts the warnings raised.
\<close>

definition WARN_ON :: "bool \<Rightarrow> hyp_state \<Rightarrow> hyp_state" where
  "WARN_ON c s = (if c then s\<lparr>warnings := warnings s + 1\<rparr> else s)"

subsection \<open>Result registers\<close>

definition ffa_to_smccc_error :: "u64 \<Rightarrow> arm_smccc_res" where
  "ffa_to_smccc_error ffa_errno = \<lparr>a0 = FFA_ERROR, a1 = 0, a2 = ffa_errno, a3 = 0\<rparr>"

definition ffa_to_smccc_res_prop :: "arm_smccc_res \<Rightarrow> s32 \<Rightarrow> u64 \<Rightarrow> arm_smccc_res" where
  "ffa_to_smccc_res_prop res ret prop =
     (if ret = FFA_RET_SUCCESS then \<lparr>a0 = FFA_SUCCESS, a1 = 0, a2 = prop, a3 = 0\<rparr>
      else ffa_to_smccc_error (scast ret))"

definition ffa_to_smccc_res :: "arm_smccc_res \<Rightarrow> s32 \<Rightarrow> arm_smccc_res" where
  "ffa_to_smccc_res res ret = ffa_to_smccc_res_prop res ret 0"

type_synonym kvm_cpu_context = "nat \<Rightarrow> u64"

definition ffa_set_retval :: "kvm_cpu_context \<Rightarrow> arm_smccc_res \<Rightarrow> kvm_cpu_context" where
  "ffa_set_retval ctxt res = ctxt(0 := a0 res, 1 := a1 res, 2 := a2 res, 3 := a3 res)"

subsection \<open>Calls to the secure side\<close>

definition arm_smccc_1_1_smc ::
  "secure_side \<Rightarrow> u64 list \<Rightarrow> hyp_state \<Rightarrow> arm_smccc_res \<times> hyp_state" where
  "arm_smccc_1_1_smc spmd args s =
     (smc_res spmd (smc_log s @ [args]), s\<lparr>smc_log := smc_log s @ [args]\<rparr>)"

text \<open>\<open>hyp_refcount_inc\<close> and \<open>hyp_refcount_dec\<close> change the counter and yield its new value.\<close>

definition ffa_map_hyp_buffers :: "secure_side \<Rightarrow> u64 \<Rightarrow> hyp_state \<Rightarrow> s32 \<times> hyp_state" where
  "ffa_map_hyp_buffers spmd ffa_page_count s =
     (if hyp_buff_refcnt s = USHRT_MAX then (FFA_RET_BUSY, s)
      else if 1 < hyp_buff_refcnt s + 1
        then (FFA_RET_SUCCESS, s\<lparr>hyp_buff_refcnt := hyp_buff_refcnt s + 1\<rparr>)
      else
        (case arm_smccc_1_1_smc spmd
                [FFA_FN64_RXTX_MAP, hyp_buffers_tx s, hyp_buffers_rx s, ffa_page_count, 0, 0, 0, 0]
                (s\<lparr>hyp_buff_refcnt := hyp_buff_refcnt s + 1\<rparr>) of
           (res, s') \<Rightarrow>
             (if a0 res = FFA_SUCCESS then FFA_RET_SUCCESS else ucast (a2 res), s')))"

definition ffa_unmap_hyp_buffers :: "secure_side \<Rightarrow> hyp_state \<Rightarrow> s32 \<times> hyp_state" where
  "ffa_unmap_hyp_buffers spmd s =
     (if hyp_buff_refcnt s - 1 \<noteq> 0
        then (FFA_RET_SUCCESS, s\<lparr>hyp_buff_refcnt := hyp_buff_refcnt s - 1\<rparr>)
      else
        (case arm_smccc_1_1_smc spmd [FFA_RXTX_UNMAP, of_nat HOST_FFA_ID, 0, 0, 0, 0, 0, 0]
                (s\<lparr>hyp_buff_refcnt := hyp_buff_refcnt s - 1\<rparr>) of
           (res, s') \<Rightarrow>
             (if a0 res = FFA_SUCCESS then FFA_RET_SUCCESS else ucast (a2 res), s')))"

definition ffa_mem_frag_tx ::
  "secure_side \<Rightarrow> u32 \<Rightarrow> u32 \<Rightarrow> u32 \<Rightarrow> u32 \<Rightarrow> hyp_state \<Rightarrow> arm_smccc_res \<times> hyp_state" where
  "ffa_mem_frag_tx spmd handle_lo handle_hi fraglen endpoint_id s =
     arm_smccc_1_1_smc spmd
       [FFA_MEM_FRAG_TX, ucast handle_lo, ucast handle_hi, ucast fraglen, ucast endpoint_id, 0, 0, 0] s"

definition ffa_mem_frag_rx ::
  "secure_side \<Rightarrow> u32 \<Rightarrow> u32 \<Rightarrow> u32 \<Rightarrow> hyp_state \<Rightarrow> arm_smccc_res \<times> hyp_state" where
  "ffa_mem_frag_rx spmd handle_lo handle_hi fragoff s =
     arm_smccc_1_1_smc spmd
       [FFA_MEM_FRAG_RX, ucast handle_lo, ucast handle_hi, ucast fragoff, of_nat HOST_FFA_ID, 0, 0, 0] s"

definition ffa_mem_xfer ::
  "secure_side \<Rightarrow> u64 \<Rightarrow> u32 \<Rightarrow> u32 \<Rightarrow> hyp_state \<Rightarrow> arm_smccc_res \<times> hyp_state" where
  "ffa_mem_xfer spmd func_id len fraglen s =
     arm_smccc_1_1_smc spmd [func_id, ucast len, ucast fraglen, 0, 0, 0, 0, 0] s"

definition ffa_mem_reclaim ::
  "secure_side \<Rightarrow> u32 \<Rightarrow> u32 \<Rightarrow> u32 \<Rightarrow> hyp_state \<Rightarrow> arm_smccc_res \<times> hyp_state" where
  "ffa_mem_reclaim spmd handle_lo handle_hi flags s =
     arm_smccc_1_1_smc spmd
       [FFA_MEM_RECLAIM, ucast handle_lo, ucast handle_hi, ucast flags, 0, 0, 0, 0] s"

definition ffa_retrieve_req :: "secure_side \<Rightarrow> u32 \<Rightarrow> hyp_state \<Rightarrow> arm_smccc_res \<times> hyp_state" where
  "ffa_retrieve_req spmd len s =
     arm_smccc_1_1_smc spmd [FFA_FN64_MEM_RETRIEVE_REQ, ucast len, ucast len, 0, 0, 0, 0, 0] s"

definition ffa_rx_release :: "secure_side \<Rightarrow> hyp_state \<Rightarrow> arm_smccc_res \<times> hyp_state" where
  "ffa_rx_release spmd s = arm_smccc_1_1_smc spmd [FFA_RX_RELEASE, 0, 0, 0, 0, 0, 0, 0] s"

subsection \<open>The stage-2 ownership authority and the allocator\<close>

text \<open>
  Modelled from the spec: the ownership-authority interface
  \<open>share(endpoint, page) -> physical_address | error\<close>, \<open>unshare(endpoint, page) -> status\<close>,
  \<open>pin(range) -> status\<close>, \<open>unpin(range)\<close>, each fallible (mem_protect.c, which
  implements it, is not under src/). A share changes an owned page to shared and fails on
  any other page; an unshare is its inverse; a range is changed only if every page of it
  is in the expected state. A pin needs a page shared with the hypervisor and counts;
  the authority may refuse it (\<open>pin_refused\<close>). A page that is pinned cannot be
  unshared from the hypervisor.
\<close>

fun pages_in_state :: "(u64 \<Rightarrow> page_state) \<Rightarrow> page_state \<Rightarrow> u64 \<Rightarrow> nat \<Rightarrow> bool" where
  "pages_in_state m st pfn 0 = True"
| "pages_in_state m st pfn (Suc n) = (m pfn = st \<and> pages_in_state m st (pfn + 1) n)"

fun set_pages :: "(u64 \<Rightarrow> page_state) \<Rightarrow> page_state \<Rightarrow> u64 \<Rightarrow> nat \<Rightarrow> (u64 \<Rightarrow> page_state)" where
  "set_pages m st pfn 0 = m"
| "set_pages m st pfn (Suc n) = set_pages (m(pfn := st)) st (pfn + 1) n"

definition pkvm_host_share_ffa :: "u64 \<Rightarrow> nat \<Rightarrow> hyp_state \<Rightarrow> s32 \<times> hyp_state" where
  "pkvm_host_share_ffa pfn nr_pages s =
     (if pages_in_state (host_pages s) PKVM_PAGE_OWNED pfn nr_pages
      then (0, s\<lparr>host_pages := set_pages (host_pages s) PKVM_PAGE_SHARED_FFA pfn nr_pages\<rparr>)
      else (- EPERM, s))"

definition pkvm_host_unshare_ffa :: "u64 \<Rightarrow> nat \<Rightarrow> hyp_state \<Rightarrow> s32 \<times> hyp_state" where
  "pkvm_host_unshare_ffa pfn nr_pages s =
     (if pages_in_state (host_pages s) PKVM_PAGE_SHARED_FFA pfn nr_pages
      then (0, s\<lparr>host_pages := set_pages (host_pages s) PKVM_PAGE_OWNED pfn nr_pages\<rparr>)
      else (- EPERM, s))"

definition pkvm_host_share_hyp :: "u64 \<Rightarrow> hyp_state \<Rightarrow> s32 \<times> hyp_state" where
  "pkvm_host_share_hyp pfn s =
     (if host_pages s pfn = PKVM_PAGE_OWNED
      then (0, s\<lparr>host_pages := (host_pages s)(pfn := PKVM_PAGE_SHARED_HYP)\<rparr>)
      else (- EPERM, s))"

definition pkvm_host_unshare_hyp :: "u64 \<Rightarrow> hyp_state \<Rightarrow> s32 \<times> hyp_state" where
  "pkvm_host_unshare_hyp pfn s =
     (if host_pages s pfn = PKVM_PAGE_SHARED_HYP
      then (if hyp_pins s pfn = 0
            then (0, s\<lparr>host_pages := (host_pages s)(pfn := PKVM_PAGE_OWNED)\<rparr>)
            else (- EBUSY, s))
      else (- EPERM, s))"

text \<open>The source pins and unpins the one page of \<open>[virt, virt + 1)\<close>.\<close>

definition hyp_pin_shared_mem :: "u64 \<Rightarrow> hyp_state \<Rightarrow> s32 \<times> hyp_state" where
  "hyp_pin_shared_mem from s =
     (if host_pages s (hyp_phys_to_pfn from) = PKVM_PAGE_SHARED_HYP
      then (if pin_refused s (hyp_phys_to_pfn from) then (- EPERM, s)
            else (0, s\<lparr>hyp_pins := (hyp_pins s)
                    (hyp_phys_to_pfn from := hyp_pins s (hyp_phys_to_pfn from) + 1)\<rparr>))
      else (- EPERM, s))"

definition hyp_unpin_shared_mem :: "u64 \<Rightarrow> hyp_state \<Rightarrow> hyp_state" where
  "hyp_unpin_shared_mem from s =
     s\<lparr>hyp_pins := (hyp_pins s)(hyp_phys_to_pfn from := hyp_pins s (hyp_phys_to_pfn from) - 1)\<rparr>"

text \<open>
  The guest side of the authority. A virtual CPU is named by the FF-A handle of its
  virtual machine. A share yields the physical address of the page, which also stands
  for the hypervisor address \<open>__pkvm_guest_share_hyp\<close> maps it at.
\<close>

definition guest_set_state :: "nat \<Rightarrow> u64 \<Rightarrow> page_state \<Rightarrow> hyp_state \<Rightarrow> hyp_state" where
  "guest_set_state vcpu gipa st s =
     (case guest_pages s vcpu (hyp_phys_to_pfn gipa) of
        None \<Rightarrow> s
      | Some (p, old) \<Rightarrow>
          s\<lparr>guest_pages := (guest_pages s)
               (vcpu := (guest_pages s vcpu)(hyp_phys_to_pfn gipa := Some (p, st)))\<rparr>)"

definition guest_share :: "page_state \<Rightarrow> nat \<Rightarrow> u64 \<Rightarrow> hyp_state \<Rightarrow> s32 \<times> u64 \<times> hyp_state" where
  "guest_share st vcpu gipa s =
     (case guest_pages s vcpu (hyp_phys_to_pfn gipa) of
        None \<Rightarrow> (- EFAULT, 0, s)
      | Some (p, old) \<Rightarrow>
          if old = PKVM_PAGE_OWNED then (0, p, guest_set_state vcpu gipa st s)
          else (- EPERM, 0, s))"

definition pkvm_guest_share_hyp :: "nat \<Rightarrow> u64 \<Rightarrow> hyp_state \<Rightarrow> s32 \<times> u64 \<times> hyp_state" where
  "pkvm_guest_share_hyp = guest_share PKVM_PAGE_SHARED_HYP"

definition pkvm_guest_share_ffa :: "nat \<Rightarrow> u64 \<Rightarrow> hyp_state \<Rightarrow> s32 \<times> u64 \<times> hyp_state" where
  "pkvm_guest_share_ffa = guest_share PKVM_PAGE_SHARED_FFA"

definition pkvm_guest_unshare_hyp :: "nat \<Rightarrow> u64 \<Rightarrow> hyp_state \<Rightarrow> s32 \<times> hyp_state" where
  "pkvm_guest_unshare_hyp vcpu gipa s =
     (case guest_pages s vcpu (hyp_phys_to_pfn gipa) of
        None \<Rightarrow> (- EPERM, s)
      | Some (p, old) \<Rightarrow>
          if old = PKVM_PAGE_SHARED_HYP
          then (if hyp_pins s (hyp_phys_to_pfn p) = 0
                then (0, guest_set_state vcpu gipa PKVM_PAGE_OWNED s)
                else (- EBUSY, s))
          else (- EPERM, s))"

definition pkvm_guest_unshare_ffa :: "nat \<Rightarrow> u64 \<Rightarrow> hyp_state \<Rightarrow> s32 \<times> hyp_state" where
  "pkvm_guest_unshare_ffa vcpu gipa s =
     (case guest_pages s vcpu (hyp_phys_to_pfn gipa) of
        None \<Rightarrow> (- EPERM, s)
      | Some (p, old) \<Rightarrow>
          if old = PKVM_PAGE_SHARED_FFA then (0, guest_set_state vcpu gipa PKVM_PAGE_OWNED s)
          else (- EPERM, s))"

definition hyp_pin_shared_guest_page :: "nat \<Rightarrow> u64 \<Rightarrow> u64 \<Rightarrow> hyp_state \<Rightarrow> s32 \<times> hyp_state" where
  "hyp_pin_shared_guest_page vcpu gipa hyp_va s =
     (case guest_pages s vcpu (hyp_phys_to_pfn gipa) of
        None \<Rightarrow> (- EPERM, s)
      | Some (p, old) \<Rightarrow>
          if old = PKVM_PAGE_SHARED_HYP
          then (if pin_refused s (hyp_phys_to_pfn hyp_va) then (- EPERM, s)
                else (0, s\<lparr>hyp_pins := (hyp_pins s)
                        (hyp_phys_to_pfn hyp_va := hyp_pins s (hyp_phys_to_pfn hyp_va) + 1)\<rparr>))
          else (- EPERM, s))"

definition hyp_unpin_shared_guest_page :: "nat \<Rightarrow> u64 \<Rightarrow> hyp_state \<Rightarrow> hyp_state" where
  "hyp_unpin_shared_guest_page vcpu hyp_va s =
     s\<lparr>hyp_pins := (hyp_pins s)(hyp_phys_to_pfn hyp_va := hyp_pins s (hyp_phys_to_pfn hyp_va) - 1)\<rparr>"

text \<open>
  Modelled from the spec: the allocator interface \<open>allocate(size) -> pointer | out_of_memory\<close>
  (alloc.c is not under src/). \<open>alloc_free\<close> counts the objects it can still hand out.
\<close>

definition hyp_alloc :: "hyp_state \<Rightarrow> bool \<times> hyp_state" where
  "hyp_alloc s =
     (if alloc_free s = 0 then (False, s) else (True, s\<lparr>alloc_free := alloc_free s - 1\<rparr>))"

definition hyp_free :: "hyp_state \<Rightarrow> hyp_state" where
  "hyp_free s = s\<lparr>alloc_free := alloc_free s + 1\<rparr>"

subsection \<open>Guest helpers\<close>

definition ffa_guest_share_with_cb ::
  "(nat \<Rightarrow> u64 \<Rightarrow> hyp_state \<Rightarrow> s32 \<times> u64 \<times> hyp_state) \<Rightarrow> nat \<Rightarrow> u64 \<Rightarrow> hyp_state
     \<Rightarrow> s32 \<times> u64 \<times> hyp_state" where
  "ffa_guest_share_with_cb share_cb vcpu guest_ipa s =
     (case share_cb vcpu guest_ipa s of
        (ret, out_addr, s1) \<Rightarrow>
          if ret = - EFAULT
            then (ret, out_addr, s1\<lparr>vcpu_events := vcpu_events s1 @ [MEMSHARE_PAGE_REQ guest_ipa]\<rparr>)
          else if ret = - ENOMEM
            then (ret, out_addr, s1\<lparr>vcpu_events := vcpu_events s1 @ [EMPTY_MEMCACHE]\<rparr>)
          else (ret, out_addr, s1))"

text \<open>
  \<open>ffa_alloc\<close> yields whether it allocated; when it did not, the pointer it returns is
  \<open>ERR_PTR(-ENOMEM)\<close>. A reserved request rewinds the return address and leaves the
  exit code \<open>ARM_EXCEPTION_HYP_REQ\<close>, recorded as the event \<open>HYP_REQ_MEM\<close>.
\<close>

definition ffa_alloc :: "hyp_state \<Rightarrow> bool \<times> hyp_state" where
  "ffa_alloc s =
     (case hyp_alloc s of
        (True, s1) \<Rightarrow> (True, s1)
      | (False, s1) \<Rightarrow>
          if req_slots s1 = 0 then (False, s1)
          else (False, s1\<lparr>req_slots := req_slots s1 - 1,
                           vcpu_events := vcpu_events s1 @ [HYP_REQ_MEM (missing_donations s1)],
                           elr := elr s1 - 4\<rparr>))"

subsection \<open>Mapping the message boxes\<close>

text \<open>The three error labels of \<open>ffa_map_guest_buffers\<close>, each falling through to the next.\<close>

definition guest_err_unpin_tx :: "nat \<Rightarrow> u64 \<Rightarrow> hyp_state \<Rightarrow> hyp_state" where
  "guest_err_unpin_tx vcpu hyp_tx_va s = hyp_unpin_shared_guest_page vcpu hyp_tx_va s"

definition guest_err_unshare_rx :: "nat \<Rightarrow> u64 \<Rightarrow> u64 \<Rightarrow> hyp_state \<Rightarrow> hyp_state" where
  "guest_err_unshare_rx vcpu rx_gipa hyp_tx_va s =
     (case pkvm_guest_unshare_hyp vcpu rx_gipa s of
        (r, s1) \<Rightarrow> guest_err_unpin_tx vcpu hyp_tx_va (WARN_ON (r \<noteq> 0) s1))"

definition guest_err_unshare_tx :: "nat \<Rightarrow> u64 \<Rightarrow> u64 \<Rightarrow> u64 \<Rightarrow> hyp_state \<Rightarrow> hyp_state" where
  "guest_err_unshare_tx vcpu tx_gipa rx_gipa hyp_tx_va s =
     (case pkvm_guest_unshare_hyp vcpu tx_gipa s of
        (r, s1) \<Rightarrow> guest_err_unshare_rx vcpu rx_gipa hyp_tx_va (WARN_ON (r \<noteq> 0) s1))"

definition ffa_map_guest_buffers ::
  "nat \<Rightarrow> kvm_cpu_context \<Rightarrow> hyp_state \<Rightarrow> s32 \<times> u64 \<times> u64 \<times> hyp_state" where
  "ffa_map_guest_buffers vcpu ctxt s =
     (case ffa_guest_share_with_cb pkvm_guest_share_hyp vcpu (ctxt 1) s of
        (ret1, hyp_tx_va, s1) \<Rightarrow>
          if ret1 \<noteq> 0 then (ret1, hyp_tx_va, 0, s1)
          else
            (case ffa_guest_share_with_cb pkvm_guest_share_hyp vcpu (ctxt 2) s1 of
               (ret2, hyp_rx_va, s2) \<Rightarrow>
                 if ret2 \<noteq> 0
                   then (ret2, hyp_tx_va, hyp_rx_va,
                         guest_err_unshare_tx vcpu (ctxt 1) (ctxt 2) hyp_tx_va s2)
                 else
                   (case hyp_pin_shared_guest_page vcpu (ctxt 1) hyp_tx_va s2 of
                      (ret3, s3) \<Rightarrow>
                        if ret3 \<noteq> 0
                          then (ret3, hyp_tx_va, hyp_rx_va,
                                guest_err_unshare_rx vcpu (ctxt 2) hyp_tx_va s3)
                        else
                          (case hyp_pin_shared_guest_page vcpu (ctxt 2) hyp_rx_va s3 of
                             (ret4, s4) \<Rightarrow>
                               if ret4 \<noteq> 0
                                 then (ret4, hyp_tx_va, hyp_rx_va,
                                       guest_err_unpin_tx vcpu hyp_tx_va s4)
                               else (0, hyp_tx_va, hyp_rx_va, s4)))))"

text \<open>The three error labels of \<open>ffa_map_host_buffers\<close>, each falling through to the next.\<close>

definition host_err_unshare_tx :: "u64 \<Rightarrow> hyp_state \<Rightarrow> hyp_state" where
  "host_err_unshare_tx tx_pa s = snd (pkvm_host_unshare_hyp (hyp_phys_to_pfn tx_pa) s)"

definition host_err_unshare_rx :: "u64 \<Rightarrow> u64 \<Rightarrow> hyp_state \<Rightarrow> hyp_state" where
  "host_err_unshare_rx tx_pa rx_pa s =
     host_err_unshare_tx tx_pa (snd (pkvm_host_unshare_hyp (hyp_phys_to_pfn rx_pa) s))"

definition host_err_unpin_tx :: "u64 \<Rightarrow> u64 \<Rightarrow> hyp_state \<Rightarrow> hyp_state" where
  "host_err_unpin_tx tx_pa rx_pa s = host_err_unshare_rx tx_pa rx_pa (hyp_unpin_shared_mem tx_pa s)"

definition ffa_map_host_buffers :: "u64 \<Rightarrow> u64 \<Rightarrow> hyp_state \<Rightarrow> s32 \<times> u64 \<times> u64 \<times> hyp_state" where
  "ffa_map_host_buffers tx_pa rx_pa s =
     (case pkvm_host_share_hyp (hyp_phys_to_pfn tx_pa) s of
        (ret1, s1) \<Rightarrow>
          if ret1 \<noteq> 0 then (FFA_RET_INVALID_PARAMETERS, 0, 0, s1)
          else
            (case pkvm_host_share_hyp (hyp_phys_to_pfn rx_pa) s1 of
               (ret2, s2) \<Rightarrow>
                 if ret2 \<noteq> 0
                   then (FFA_RET_INVALID_PARAMETERS, 0, 0, host_err_unshare_tx tx_pa s2)
                 else
                   (case hyp_pin_shared_mem tx_pa s2 of
                      (ret3, s3) \<Rightarrow>
                        if ret3 \<noteq> 0
                          then (FFA_RET_INVALID_PARAMETERS, tx_pa, 0,
                                host_err_unshare_rx tx_pa rx_pa s3)
                        else
                          (case hyp_pin_shared_mem rx_pa s3 of
                             (ret4, s4) \<Rightarrow>
                               if ret4 \<noteq> 0
                                 then (FFA_RET_INVALID_PARAMETERS, tx_pa, rx_pa,
                                       host_err_unpin_tx tx_pa rx_pa s4)
                               else (0, tx_pa, rx_pa, s4)))))"

text \<open>The loop of \<open>kvm_notify_vm_availability\<close> over the registered partitions.\<close>

fun notify_loop :: "secure_side \<Rightarrow> u16 \<Rightarrow> u32 \<Rightarrow> u16 list \<Rightarrow> hyp_state \<Rightarrow> s32 \<times> hyp_state" where
  "notify_loop spmd vm_handle availability_msg [] s = (FFA_RET_SUCCESS, s)"
| "notify_loop spmd vm_handle availability_msg (sp # sps) s =
     (case arm_smccc_1_1_smc spmd
             [FFA_MSG_SEND_DIRECT_REQ, ucast sp, ucast availability_msg, 0, 0, ucast vm_handle, 0, 0] s of
        (res, s1) \<Rightarrow>
          if a0 res \<noteq> FFA_MSG_SEND_DIRECT_RESP then (FFA_RET_INVALID_PARAMETERS, s1)
          else if a3 res \<noteq> scast FFA_RET_SUCCESS then (ucast (a3 res), s1)
          else notify_loop spmd vm_handle availability_msg sps s1)"

definition kvm_notify_vm_availability ::
  "secure_side \<Rightarrow> u16 \<Rightarrow> u32 \<Rightarrow> hyp_state \<Rightarrow> s32 \<times> hyp_state" where
  "kvm_notify_vm_availability spmd vm_handle availability_msg s =
     (if num_registered_sp_ids s = 0 then (FFA_RET_SUCCESS, s)
      else notify_loop spmd vm_handle availability_msg
             (map (sp_ids s) [0 ..< unat (num_registered_sp_ids s)]) s)"

definition set_endp_buffers :: "nat \<Rightarrow> (kvm_ffa_buffers \<Rightarrow> kvm_ffa_buffers) \<Rightarrow> hyp_state \<Rightarrow> hyp_state" where
  "set_endp_buffers vm_handle f s =
     s\<lparr>endp_buffers := (endp_buffers s)(vm_handle := f (endp_buffers s vm_handle))\<rparr>"

definition do_ffa_rxtx_map ::
  "secure_side \<Rightarrow> arm_smccc_res \<Rightarrow> kvm_cpu_context \<Rightarrow> nat \<Rightarrow> hyp_state
     \<Rightarrow> s32 \<times> arm_smccc_res \<times> hyp_state" where
  "do_ffa_rxtx_map spmd res ctxt vm_handle s =
     (if unat (ucast (ctxt 3) :: u32) \<noteq> (KVM_FFA_MBOX_NR_PAGES * PAGE_SIZE) div FFA_PAGE_SIZE
        then (FFA_RET_INVALID_PARAMETERS, ffa_to_smccc_res res FFA_RET_INVALID_PARAMETERS, s)
      else if \<not> PAGE_ALIGNED (ctxt 1)
        then (FFA_RET_INVALID_PARAMETERS, ffa_to_smccc_res res FFA_RET_INVALID_PARAMETERS, s)
      else if \<not> PAGE_ALIGNED (ctxt 2)
        then (FFA_RET_INVALID_PARAMETERS, ffa_to_smccc_res res FFA_RET_INVALID_PARAMETERS, s)
      else
        (case kvm_notify_vm_availability spmd (of_nat vm_handle) FFA_VM_CREATION_MSG s of
           (ret1, s1) \<Rightarrow>
             if ret1 \<noteq> FFA_RET_SUCCESS then (ret1, ffa_to_smccc_res res ret1, s1)
             else if tx (endp_buffers s1 vm_handle) \<noteq> None
               then (FFA_RET_DENIED, ffa_to_smccc_res res FFA_RET_DENIED, s1)
             else
               (case ffa_map_hyp_buffers spmd (ucast (ucast (ctxt 3) :: u32)) s1 of
                  (ret2, s2) \<Rightarrow>
                    if ret2 \<noteq> 0 then (ret2, ffa_to_smccc_res res ret2, s2)
                    else
                      (case (if vm_handle = 0 then ffa_map_host_buffers (ctxt 1) (ctxt 2) s2
                             else ffa_map_guest_buffers vm_handle ctxt s2) of
                         (ret3, tx_virt, rx_virt, s3) \<Rightarrow>
                           if ret3 \<noteq> 0
                             then (ret3, ffa_to_smccc_res res ret3,
                                   snd (ffa_unmap_hyp_buffers spmd s3))
                           else (0, ffa_to_smccc_res res 0,
                                 set_endp_buffers vm_handle
                                   (\<lambda>b. b\<lparr>tx := Some tx_virt, rx := Some rx_virt,
                                           tx_ipa := ctxt 1, rx_ipa := ctxt 2\<rparr>) s3)))))"

text \<open>
  \<open>do_ffa_rxtx_unmap\<close>. The pointers of a mapped endpoint are not NULL; the model reads
  a NULL \<open>rx\<close> beside a mapped \<open>tx\<close> as the address 0.
\<close>

definition ptr_val :: "u64 option \<Rightarrow> u64" where
  "ptr_val p = (case p of None \<Rightarrow> 0 | Some v \<Rightarrow> v)"

definition unmap_host_endp :: "kvm_ffa_buffers \<Rightarrow> hyp_state \<Rightarrow> hyp_state" where
  "unmap_host_endp b s =
     (case pkvm_host_unshare_hyp (hyp_phys_to_pfn (ptr_val (tx b)))
             (hyp_unpin_shared_mem (ptr_val (tx b)) s) of
        (r1, s1) \<Rightarrow>
          (case pkvm_host_unshare_hyp (hyp_phys_to_pfn (ptr_val (rx b)))
                  (hyp_unpin_shared_mem (ptr_val (rx b)) (WARN_ON (r1 \<noteq> 0) s1)) of
             (r2, s2) \<Rightarrow> WARN_ON (r2 \<noteq> 0) s2))"

definition unmap_guest_endp :: "nat \<Rightarrow> kvm_ffa_buffers \<Rightarrow> hyp_state \<Rightarrow> hyp_state" where
  "unmap_guest_endp vcpu b s =
     (case pkvm_guest_unshare_hyp vcpu (tx_ipa b)
             (hyp_unpin_shared_guest_page vcpu (ptr_val (tx b)) s) of
        (r1, s1) \<Rightarrow>
          (case pkvm_guest_unshare_hyp vcpu (rx_ipa b)
                  (hyp_unpin_shared_guest_page vcpu (ptr_val (rx b)) (WARN_ON (r1 \<noteq> 0) s1)) of
             (r2, s2) \<Rightarrow> WARN_ON (r2 \<noteq> 0) s2))"

definition do_ffa_rxtx_unmap ::
  "secure_side \<Rightarrow> arm_smccc_res \<Rightarrow> kvm_cpu_context \<Rightarrow> nat \<Rightarrow> hyp_state \<Rightarrow> arm_smccc_res \<times> hyp_state" where
  "do_ffa_rxtx_unmap spmd res ctxt vm_handle s =
     (if (ucast (ctxt 1) :: u32) \<noteq> of_nat HOST_FFA_ID
        then (ffa_to_smccc_res res FFA_RET_INVALID_PARAMETERS, s)
      else if tx (endp_buffers s vm_handle) = None
        then (ffa_to_smccc_res res FFA_RET_INVALID_PARAMETERS, s)
      else
        (ffa_to_smccc_res res 0,
         snd (ffa_unmap_hyp_buffers spmd
                (set_endp_buffers vm_handle (\<lambda>b. b\<lparr>rx := None, tx := None\<rparr>)
                   (if vm_handle = HOST_FFA_ID
                    then unmap_host_endp (endp_buffers s vm_handle) s
                    else unmap_guest_endp vm_handle (endp_buffers s vm_handle) s)))))"

subsection \<open>Sharing address ranges with the secure side\<close>

text \<open>
  The functions with two leading underscores lose them (\<open>__do_ffa_mem_xfer\<close> is
  \<open>do_ffa_mem_xfer\<close>, \<open>__pkvm_host_share_ffa\<close> is \<open>pkvm_host_share_ffa\<close>); where
  the plain name is taken too, the inner function ends in \<open>_inner\<close>. A pair
  \<open>(ranges, nranges)\<close> of the source is the list of the first \<open>nranges\<close> entries.
\<close>

definition range_sz :: "ffa_mem_region_addr_range \<Rightarrow> u64" where
  "range_sz r = ucast (pg_cnt r) * of_nat FFA_PAGE_SIZE"

fun ffa_host_share_ranges_inner ::
  "ffa_mem_region_addr_range list \<Rightarrow> hyp_state \<Rightarrow> nat \<times> hyp_state" where
  "ffa_host_share_ranges_inner [] s = (0, s)"
| "ffa_host_share_ranges_inner (r # ranges) s =
     (if \<not> PAGE_ALIGNED (range_sz r) then (0, s)
      else
        (case pkvm_host_share_ffa (hyp_phys_to_pfn (address r)) (unat (range_sz r) div PAGE_SIZE) s of
           (ret, s1) \<Rightarrow>
             if ret \<noteq> 0 then (0, s1)
             else (case ffa_host_share_ranges_inner ranges s1 of (i, s2) \<Rightarrow> (Suc i, s2))))"

fun ffa_host_unshare_ranges_inner ::
  "ffa_mem_region_addr_range list \<Rightarrow> hyp_state \<Rightarrow> nat \<times> hyp_state" where
  "ffa_host_unshare_ranges_inner [] s = (0, s)"
| "ffa_host_unshare_ranges_inner (r # ranges) s =
     (if \<not> PAGE_ALIGNED (range_sz r) then (0, s)
      else
        (case pkvm_host_unshare_ffa (hyp_phys_to_pfn (address r)) (unat (range_sz r) div PAGE_SIZE) s of
           (ret, s1) \<Rightarrow>
             if ret \<noteq> 0 then (0, s1)
             else (case ffa_host_unshare_ranges_inner ranges s1 of (i, s2) \<Rightarrow> (Suc i, s2))))"

definition ffa_host_share_ranges ::
  "ffa_mem_region_addr_range list \<Rightarrow> hyp_state \<Rightarrow> s32 \<times> hyp_state" where
  "ffa_host_share_ranges ranges s =
     (case ffa_host_share_ranges_inner ranges s of
        (nshared, s1) \<Rightarrow>
          if nshared \<noteq> length ranges
          then (case ffa_host_unshare_ranges_inner (take nshared ranges) s1 of
                  (n, s2) \<Rightarrow> (FFA_RET_DENIED, WARN_ON (n \<noteq> nshared) s2))
          else (0, s1))"

definition ffa_host_unshare_ranges ::
  "ffa_mem_region_addr_range list \<Rightarrow> hyp_state \<Rightarrow> s32 \<times> hyp_state" where
  "ffa_host_unshare_ranges ranges s =
     (case ffa_host_unshare_ranges_inner ranges s of
        (nunshared, s1) \<Rightarrow>
          if nunshared \<noteq> length ranges
          then (case ffa_host_share_ranges_inner (take nunshared ranges) s1 of
                  (n, s2) \<Rightarrow> (FFA_RET_DENIED, WARN_ON (n \<noteq> nunshared) s2))
          else (0, s1))"

definition ffa_store_translation ::
  "ffa_mem_transfer \<Rightarrow> u64 \<Rightarrow> u64 \<Rightarrow> hyp_state \<Rightarrow> s32 \<times> ffa_mem_transfer \<times> hyp_state" where
  "ffa_store_translation transfer gipa p s =
     (case ffa_alloc s of
        (False, s1) \<Rightarrow> (- ENOMEM, transfer, s1)
      | (True, s1) \<Rightarrow>
          (0, transfer\<lparr>translation_list := \<lparr>ipa = gipa, pa = p\<rparr> # translation_list transfer\<rparr>, s1))"

definition ffa_find_translation :: "ffa_mem_transfer \<Rightarrow> u64 \<Rightarrow> ffa_translation option" where
  "ffa_find_translation transfer p = find (\<lambda>t. pa t = p) (translation_list transfer)"

text \<open>
  \<open>ffa_guest_unshare_ranges\<close> reads \<open>translation->ipa\<close> after it has only warned that
  the translation is NULL. The result \<open>None\<close> of this and of every function built on it
  says that the call does not return: the hypervisor faults on the NULL pointer.
\<close>

fun ffa_guest_unshare_ranges ::
  "ffa_mem_region_addr_range list \<Rightarrow> nat \<Rightarrow> ffa_mem_transfer \<Rightarrow> hyp_state
     \<Rightarrow> (ffa_mem_transfer \<times> hyp_state) option" where
  "ffa_guest_unshare_ranges [] vcpu transfer s = Some (transfer, s)"
| "ffa_guest_unshare_ranges (r # ranges) vcpu transfer s =
     (case ffa_find_translation transfer (address r) of
        None \<Rightarrow> None
      | Some t \<Rightarrow>
          (case pkvm_guest_unshare_ffa vcpu (ipa t) s of
             (ret, s1) \<Rightarrow>
               ffa_guest_unshare_ranges ranges vcpu
                 (transfer\<lparr>translation_list := remove1 t (translation_list transfer)\<rparr>)
                 (hyp_free (WARN_ON (ret \<noteq> 0) s1))))"

text \<open>
  The inner loop of \<open>ffa_guest_share_ranges\<close> over the pages of one range, from page
  \<open>j\<close> on. \<open>j\<close> is a C \<open>int\<close>, widened with its sign in \<open>PAGE_SIZE * j\<close>. \<open>buf\<close> is the
  painted array written so far; its length is \<open>mem_region_idx\<close>.
\<close>

function ffa_guest_share_pages ::
  "nat \<Rightarrow> ffa_mem_region_addr_range \<Rightarrow> nat \<Rightarrow> ffa_mem_region_addr_range list
     \<Rightarrow> ffa_mem_transfer \<Rightarrow> hyp_state
     \<Rightarrow> s32 \<times> ffa_mem_region_addr_range list \<times> ffa_mem_transfer \<times> hyp_state" where
  "ffa_guest_share_pages vcpu r j buf transfer s =
     (if j < unat (pg_cnt r) then
        (case ffa_guest_share_with_cb pkvm_guest_share_ffa vcpu
                (address r + of_nat PAGE_SIZE * scast (of_nat j :: 32 word)) s of
           (ret, p, s1) \<Rightarrow>
             if ret \<noteq> 0 then (ret, buf, transfer, s1)
             else
               (case ffa_store_translation transfer
                       (address r + of_nat PAGE_SIZE * scast (of_nat j :: 32 word)) p s1 of
                  (ret2, transfer2, s2) \<Rightarrow>
                    if ret2 \<noteq> 0
                    then (case pkvm_guest_unshare_ffa vcpu
                                 (address r + of_nat PAGE_SIZE * scast (of_nat j :: 32 word)) s2 of
                            (ret3, s3) \<Rightarrow> (ret2, buf, transfer2, WARN_ON (ret3 \<noteq> 0) s3))
                    else ffa_guest_share_pages vcpu r (Suc j)
                           (buf @ [\<lparr>address = p, pg_cnt = 1\<rparr>]) transfer2 s2))
      else (0, buf, transfer, s))"
  by pat_completeness auto
termination
  by (relation "measure (\<lambda>(vcpu, r, j, buf, transfer, s). unat (pg_cnt r) - j)") auto

declare ffa_guest_share_pages.simps [simp del]

fun ffa_guest_share_ranges_loop ::
  "nat \<Rightarrow> ffa_mem_region_addr_range list \<Rightarrow> ffa_mem_region_addr_range list
     \<Rightarrow> ffa_mem_transfer \<Rightarrow> hyp_state
     \<Rightarrow> s32 \<times> ffa_mem_region_addr_range list \<times> ffa_mem_transfer \<times> hyp_state" where
  "ffa_guest_share_ranges_loop vcpu [] buf transfer s = (0, buf, transfer, s)"
| "ffa_guest_share_ranges_loop vcpu (r # ranges) buf transfer s =
     (case ffa_guest_share_pages vcpu r 0 buf transfer s of
        (ret, buf1, transfer1, s1) \<Rightarrow>
          if ret \<noteq> 0 then (ret, buf1, transfer1, s1)
          else ffa_guest_share_ranges_loop vcpu ranges buf1 transfer1 s1)"

definition ffa_guest_share_ranges ::
  "ffa_mem_region_addr_range list \<Rightarrow> nat \<Rightarrow> ffa_mem_transfer \<Rightarrow> hyp_state
     \<Rightarrow> (s32 \<times> ffa_mem_region_addr_range list \<times> ffa_mem_transfer \<times> hyp_state) option" where
  "ffa_guest_share_ranges ranges vcpu transfer s =
     (case ffa_guest_share_ranges_loop vcpu ranges [] transfer s of
        (ret, buf, transfer1, s1) \<Rightarrow>
          if ret = 0 then Some (0, buf, transfer1, s1)
          else (case ffa_guest_unshare_ranges buf vcpu transfer1 s1 of
                  None \<Rightarrow> None
                | Some (transfer2, s2) \<Rightarrow> Some (ret, buf, transfer2, s2)))"

subsection \<open>Fragment continuation\<close>

text \<open>
  \<open>txbuf\<close> is what the endpoint's TX buffer holds when the call copies it into the
  hypervisor's buffer under the lock.
\<close>

definition do_ffa_mem_frag_tx ::
  "secure_side \<Rightarrow> ffa_mem_region \<Rightarrow> arm_smccc_res \<Rightarrow> kvm_cpu_context \<Rightarrow> nat \<Rightarrow> hyp_state
     \<Rightarrow> arm_smccc_res \<times> hyp_state" where
  "do_ffa_mem_frag_tx spmd txbuf res ctxt vm_handle s =
     (if KVM_FFA_MBOX_NR_PAGES * PAGE_SIZE < unat (ucast (ctxt 3) :: u32)
        then (ffa_to_smccc_res res FFA_RET_INVALID_PARAMETERS, s)
      else if unat (ucast (ctxt 3) :: u32) mod sizeof_ffa_mem_region_addr_range \<noteq> 0
        then (ffa_to_smccc_res res FFA_RET_INVALID_PARAMETERS, s)
      else if tx (endp_buffers s vm_handle) = None
        then (ffa_to_smccc_res res FFA_RET_INVALID_PARAMETERS, s)
      else
        (case ffa_host_share_ranges
                (map (frag_ranges txbuf)
                   [0 ..< unat (ucast (ctxt 3) :: u32) div sizeof_ffa_mem_region_addr_range]) s of
           (ret, s1) \<Rightarrow>
             if ret \<noteq> 0
             then (case ffa_mem_reclaim spmd (ucast (ctxt 1)) (ucast (ctxt 2)) 0 s1 of
                     (res1, s2) \<Rightarrow>
                       (ffa_to_smccc_res res1 ret, WARN_ON (a0 res1 \<noteq> FFA_SUCCESS) s2))
             else
               (case ffa_mem_frag_tx spmd (ucast (ctxt 1)) (ucast (ctxt 2)) (ucast (ctxt 3))
                       (ucast (ctxt 4)) s1 of
                  (res1, s2) \<Rightarrow>
                    if a0 res1 \<noteq> FFA_SUCCESS \<and> a0 res1 \<noteq> FFA_MEM_FRAG_RX
                    then (case ffa_host_unshare_ranges
                                 (map (frag_ranges txbuf)
                                    [0 ..< unat (ucast (ctxt 3) :: u32)
                                             div sizeof_ffa_mem_region_addr_range]) s2 of
                            (r, s3) \<Rightarrow> (res1, WARN_ON (r \<noteq> 0) s3))
                    else (res1, s2))))"

subsection \<open>Share and lend\<close>

definition is_page_count_valid :: "ffa_mem_region \<Rightarrow> u32 \<Rightarrow> bool" where
  "is_page_count_valid reg nranges =
     (foldl (\<lambda>cnt i. cnt + pg_cnt (constituents reg i)) 0 [0 ..< unat nranges] = total_pg_cnt reg)"

text \<open>The label \<open>out\<close> of \<open>__do_ffa_mem_xfer\<close>; \<open>allocated\<close> says that \<open>transfer\<close> is a record.\<close>

definition mem_xfer_out ::
  "bool \<Rightarrow> s32 \<times> arm_smccc_res \<times> hyp_state \<Rightarrow> s32 \<times> arm_smccc_res \<times> hyp_state" where
  "mem_xfer_out allocated r =
     (case r of
        (ret, res, s) \<Rightarrow>
          if ret \<noteq> 0 then (ret, ffa_to_smccc_res res ret, if allocated then hyp_free s else s)
          else (ret, res, s))"

text \<open>
  The call to the secure side and what follows it, with the ranges shared:
  \<open>reg_constituents\<close> are the first \<open>nr_ranges\<close> entries of \<open>reg->constituents\<close> as they
  stand then. \<open>ffa_guest_unshare_ranges\<close> always returns 0, so its \<open>WARN_ON\<close> is silent.
\<close>

definition mem_xfer_forward ::
  "secure_side \<Rightarrow> u64 \<Rightarrow> u32 \<Rightarrow> u32 \<Rightarrow> nat \<Rightarrow> ffa_mem_region_addr_range list
     \<Rightarrow> ffa_mem_transfer \<Rightarrow> hyp_state \<Rightarrow> (s32 \<times> arm_smccc_res \<times> hyp_state) option" where
  "mem_xfer_forward spmd func_id len fraglen vm_handle reg_constituents transfer s =
     (case ffa_mem_xfer spmd func_id len fraglen s of
        (res1, s1) \<Rightarrow>
          if (if fraglen \<noteq> len
              then (if a0 res1 \<noteq> FFA_MEM_FRAG_RX then True else a3 res1 \<noteq> ucast fraglen)
              else a0 res1 \<noteq> FFA_SUCCESS)
          then (if vm_handle \<noteq> 0
                then (case ffa_guest_unshare_ranges reg_constituents vm_handle transfer s1 of
                        None \<Rightarrow> None
                      | Some (transfer2, s2) \<Rightarrow> Some (0, res1, s2))
                else (case ffa_host_unshare_ranges reg_constituents s1 of
                        (r, s2) \<Rightarrow> Some (0, res1, WARN_ON (r \<noteq> 0) s2)))
          else (if vm_handle \<noteq> 0
                then Some (0, res1,
                       set_endp_buffers vm_handle
                         (\<lambda>b. b\<lparr>xfer_list :=
                                  transfer\<lparr>ffa_handle := PACK_HANDLE (ucast (a2 res1)) (ucast (a3 res1))\<rparr>
                                  # xfer_list b\<rparr>) s1)
                else Some (0, res1, s1)))"

text \<open>
  The guest branch after the two checks on the page counts: the ranges are shared page
  by page and the descriptor is painted with the physical addresses. The painted entries
  overwrite \<open>reg->constituents\<close> from its start; \<open>nr_ranges\<close>, \<open>fraglen\<close> and \<open>len\<close>
  grow only when there are more painted entries than the descriptor's own
  \<open>addr_range_cnt\<close> field says.
\<close>

definition mem_xfer_guest ::
  "secure_side \<Rightarrow> ffa_mem_region \<Rightarrow> u64 \<Rightarrow> arm_smccc_res \<Rightarrow> u32 \<Rightarrow> u32 \<Rightarrow> u32 \<Rightarrow> nat
     \<Rightarrow> ffa_mem_transfer \<Rightarrow> hyp_state \<Rightarrow> (s32 \<times> arm_smccc_res \<times> hyp_state) option" where
  "mem_xfer_guest spmd txbuf func_id res len fraglen nr_ranges vm_handle transfer s =
     (case ffa_guest_share_ranges (map (constituents txbuf) [0 ..< unat nr_ranges])
             vm_handle transfer s of
        None \<Rightarrow> None
      | Some (ret, painted, transfer1, s1) \<Rightarrow>
          if ret \<noteq> 0 then Some (ret, res, s1)
          else if addr_range_cnt txbuf < of_nat (length painted)
          then mem_xfer_forward spmd func_id
                 (len + (of_nat (length painted) - addr_range_cnt txbuf)
                          * of_nat sizeof_ffa_mem_region_addr_range)
                 (fraglen + (of_nat (length painted) - addr_range_cnt txbuf)
                              * of_nat sizeof_ffa_mem_region_addr_range)
                 vm_handle
                 (map (\<lambda>i. if i < length painted then painted ! i else constituents txbuf i)
                    [0 ..< unat (of_nat (length painted) :: u32)])
                 transfer1 s1
          else mem_xfer_forward spmd func_id len fraglen vm_handle
                 (map (\<lambda>i. if i < length painted then painted ! i else constituents txbuf i)
                    [0 ..< unat nr_ranges])
                 transfer1 s1)"

text \<open>The part of \<open>__do_ffa_mem_xfer\<close> that runs under the buffer lock.\<close>

definition mem_xfer_locked ::
  "secure_side \<Rightarrow> ffa_mem_region \<Rightarrow> u64 \<Rightarrow> arm_smccc_res \<Rightarrow> u32 \<Rightarrow> u32 \<Rightarrow> nat
     \<Rightarrow> ffa_mem_transfer \<Rightarrow> hyp_state \<Rightarrow> (s32 \<times> arm_smccc_res \<times> hyp_state) option" where
  "mem_xfer_locked spmd txbuf func_id res len fraglen vm_handle transfer s =
     (if tx (endp_buffers s vm_handle) = None
        then Some (FFA_RET_INVALID_PARAMETERS, res, s)
      else if composite_off txbuf = 0
        then Some (FFA_RET_INVALID_PARAMETERS, res, s)
      else if ep_count txbuf \<noteq> 1
        then Some (FFA_RET_INVALID_PARAMETERS, res, s)
      else if unat fraglen < unat (composite_off txbuf) + sizeof_ffa_composite_mem_region
        then Some (FFA_RET_INVALID_PARAMETERS, res, s)
      else if (unat fraglen - (unat (composite_off txbuf) + sizeof_ffa_composite_mem_region))
                mod sizeof_ffa_mem_region_addr_range \<noteq> 0
        then Some (FFA_RET_INVALID_PARAMETERS, res, s)
      else if vm_handle \<noteq> 0 then
        (if \<not> is_page_count_valid txbuf
                 (of_nat ((unat fraglen - (unat (composite_off txbuf) + sizeof_ffa_composite_mem_region))
                            div sizeof_ffa_mem_region_addr_range))
           then Some (FFA_RET_INVALID_PARAMETERS, res, s)
         else if PAGE_SIZE < unat (total_pg_cnt txbuf) * sizeof_ffa_mem_region_addr_range
                               + unat (composite_off txbuf)
           then Some (FFA_RET_INVALID_PARAMETERS, res, s)
         else mem_xfer_guest spmd txbuf func_id res len fraglen
                (of_nat ((unat fraglen - (unat (composite_off txbuf) + sizeof_ffa_composite_mem_region))
                           div sizeof_ffa_mem_region_addr_range))
                vm_handle transfer s)
      else
        (case ffa_host_share_ranges
                (map (constituents txbuf)
                   [0 ..< (unat fraglen - (unat (composite_off txbuf) + sizeof_ffa_composite_mem_region))
                            div sizeof_ffa_mem_region_addr_range]) s of
           (ret, s1) \<Rightarrow>
             if ret \<noteq> 0 then Some (ret, res, s1)
             else mem_xfer_forward spmd func_id len fraglen vm_handle
                    (map (constituents txbuf)
                       [0 ..< (unat fraglen - (unat (composite_off txbuf) + sizeof_ffa_composite_mem_region))
                                div sizeof_ffa_mem_region_addr_range])
                    \<lparr>ffa_handle = 0, translation_list = []\<rparr> s1))"

text \<open>
  \<open>__do_ffa_mem_xfer\<close>: \<open>len\<close>, \<open>fraglen\<close>, \<open>addr_mbz\<close> and \<open>npages_mbz\<close> are the
  registers 1 to 4. The result is \<open>ret\<close>, the result registers and the state.
\<close>

definition do_ffa_mem_xfer ::
  "secure_side \<Rightarrow> ffa_mem_region \<Rightarrow> u64 \<Rightarrow> arm_smccc_res \<Rightarrow> kvm_cpu_context \<Rightarrow> nat \<Rightarrow> hyp_state
     \<Rightarrow> (s32 \<times> arm_smccc_res \<times> hyp_state) option" where
  "do_ffa_mem_xfer spmd txbuf func_id res ctxt vm_handle s =
     (if ctxt 3 \<noteq> 0
        then Some (mem_xfer_out False (FFA_RET_INVALID_PARAMETERS, res, s))
      else if (ucast (ctxt 4) :: u32) \<noteq> 0
        then Some (mem_xfer_out False (FFA_RET_INVALID_PARAMETERS, res, s))
      else if (ucast (ctxt 1) :: u32) < (ucast (ctxt 2) :: u32)
        then Some (mem_xfer_out False (FFA_RET_INVALID_PARAMETERS, res, s))
      else if KVM_FFA_MBOX_NR_PAGES * PAGE_SIZE < unat (ucast (ctxt 2) :: u32)
        then Some (mem_xfer_out False (FFA_RET_INVALID_PARAMETERS, res, s))
      else if unat (ucast (ctxt 2) :: u32) < sizeof_ffa_mem_region + sizeof_ffa_mem_region_attributes
        then Some (mem_xfer_out False (FFA_RET_INVALID_PARAMETERS, res, s))
      else if vm_handle \<noteq> 0 then
        (if (ucast (ctxt 1) :: u32) \<noteq> (ucast (ctxt 2) :: u32)
           then Some (mem_xfer_out False (FFA_RET_INVALID_PARAMETERS, res, s))
         else
           (case ffa_alloc s of
              (False, s1) \<Rightarrow> Some (mem_xfer_out False (- ENOMEM, res, s1))
            | (True, s1) \<Rightarrow>
                map_option (mem_xfer_out True)
                  (mem_xfer_locked spmd txbuf func_id res (ucast (ctxt 1)) (ucast (ctxt 2))
                     vm_handle \<lparr>ffa_handle = 0, translation_list = []\<rparr> s1)))
      else
        map_option (mem_xfer_out False)
          (mem_xfer_locked spmd txbuf func_id res (ucast (ctxt 1)) (ucast (ctxt 2))
             vm_handle \<lparr>ffa_handle = 0, translation_list = []\<rparr> s))"

subsection \<open>Reclaim\<close>

definition find_transfer_by_handle_locked ::
  "u64 \<Rightarrow> kvm_ffa_buffers \<Rightarrow> ffa_mem_transfer option" where
  "find_transfer_by_handle_locked handle endp = find (\<lambda>t. ffa_handle t = handle) (xfer_list endp)"

text \<open>
  The host's loop over the guests' transfer lists, from index \<open>i\<close> on: the index and
  the transfer it stops at, or \<open>None\<close> when \<open>transfer\<close> is NULL after the loop.
\<close>

function host_find_guest_transfer ::
  "u64 \<Rightarrow> nat \<Rightarrow> hyp_state \<Rightarrow> (nat \<times> ffa_mem_transfer) option" where
  "host_find_guest_transfer handle i s =
     (if i < KVM_MAX_PVMS then
        (if xfer_list (endp_buffers s i) = [] then host_find_guest_transfer handle (Suc i) s
         else (case find_transfer_by_handle_locked handle (endp_buffers s i) of
                 None \<Rightarrow> host_find_guest_transfer handle (Suc i) s
               | Some t \<Rightarrow> Some (i, t)))
      else None)"
  by pat_completeness auto
termination
  by (relation "measure (\<lambda>(handle, i, s). KVM_MAX_PVMS - i)") auto

declare host_find_guest_transfer.simps [simp del]

text \<open>
  The descriptor buffer \<open>ffa_desc_buf.buf\<close> is an array of \<open>ffa_desc_buf.len\<close> bytes,
  which keeps what earlier calls have left in it. \<open>memcpy_desc off src n\<close> is
  \<open>memcpy(ffa_desc_buf.buf + off, hyp_buffers.rx, n)\<close>, with \<open>src\<close> the bytes of the RX
  buffer. A copy that reads past the end of the RX buffer or writes past the end of the
  descriptor buffer has no result that the model can state: it is \<open>None\<close>.
\<close>

definition memcpy_desc :: "nat \<Rightarrow> (nat \<Rightarrow> u8) \<Rightarrow> nat \<Rightarrow> hyp_state \<Rightarrow> hyp_state option" where
  "memcpy_desc off src n s =
     (if n = 0 then Some s
      else if KVM_FFA_MBOX_NR_PAGES * PAGE_SIZE < n \<or> ffa_desc_buf_len s < off + n then None
      else Some (s\<lparr>ffa_desc_buf :=
                     (\<lambda>k. if off \<le> k \<and> k < off + n then src (k - off)
                          else ffa_desc_buf s k)\<rparr>))"

text \<open>
  The loads of the little-endian machine, and with them the two fields that the code
  reads of \<open>reg\<close>, the \<open>struct ffa_composite_mem_region\<close> at \<open>ffa_desc_buf.buf + offset\<close>:
  \<open>addr_range_cnt\<close> is its second 32-bit field, the array \<open>constituents\<close> follows the 16
  bytes of its head, and a constituent is a 64-bit address followed by a 32-bit page
  count. A load past the end of the buffer reads the memory that follows it.
\<close>

definition load_u32 :: "(nat \<Rightarrow> u8) \<Rightarrow> nat \<Rightarrow> u32" where
  "load_u32 buf p =
     ucast (buf p) OR push_bit 8 (ucast (buf (p + 1))) OR push_bit 16 (ucast (buf (p + 2)))
       OR push_bit 24 (ucast (buf (p + 3)))"

definition load_u64 :: "(nat \<Rightarrow> u8) \<Rightarrow> nat \<Rightarrow> u64" where
  "load_u64 buf p = ucast (load_u32 buf p) OR push_bit 32 (ucast (load_u32 buf (p + 4)))"

definition reg_addr_range_cnt :: "u32 \<Rightarrow> hyp_state \<Rightarrow> u32" where
  "reg_addr_range_cnt offset s = load_u32 (ffa_desc_buf s) (unat offset + 4)"

definition reg_constituents :: "u32 \<Rightarrow> hyp_state \<Rightarrow> nat \<Rightarrow> ffa_mem_region_addr_range" where
  "reg_constituents offset s i =
     \<lparr>address = load_u64 (ffa_desc_buf s)
                  (unat offset + sizeof_ffa_composite_mem_region
                     + i * sizeof_ffa_mem_region_addr_range),
      pg_cnt = load_u32 (ffa_desc_buf s)
                 (unat offset + sizeof_ffa_composite_mem_region
                    + i * sizeof_ffa_mem_region_addr_range + 8)\<rparr>"

text \<open>
  The loop that fetches the remaining fragments of the retrieved descriptor and copies
  each behind the last. The secure side chooses the length of each fragment, so the loop
  need not end: \<open>None\<close> is also the loop that runs forever. The flag of the result is
  false when the loop left through its error exit.
\<close>

partial_function (option) reclaim_frag_loop ::
  "secure_side \<Rightarrow> u32 \<Rightarrow> u32 \<Rightarrow> u32 \<Rightarrow> u32 \<Rightarrow> arm_smccc_res \<Rightarrow> hyp_state
     \<Rightarrow> (bool \<times> arm_smccc_res \<times> hyp_state) option" where
  "reclaim_frag_loop spmd handle_lo handle_hi len fragoff res s =
     (if fragoff < len then
        (case ffa_mem_frag_rx spmd handle_lo handle_hi fragoff s of
           (res1, s1) \<Rightarrow>
             if a0 res1 \<noteq> FFA_MEM_FRAG_TX then Some (False, res1, s1)
             else (case memcpy_desc (unat fragoff) (rx_bytes spmd (smc_log s1))
                          (unat (ucast (a3 res1) :: u32)) s1 of
                     None \<Rightarrow> None
                   | Some s1' \<Rightarrow>
                       (case ffa_rx_release spmd s1' of
                          (res2, s2) \<Rightarrow>
                            reclaim_frag_loop spmd handle_lo handle_hi len
                              (fragoff + ucast (a3 res1)) res2 s2)))
      else Some (True, res, s))"

text \<open>
  After the secure side has confirmed the reclaim: the ranges that the code reads from
  the descriptor buffer are unshared and the transfer found at the start, if any, is
  unlinked from the list it is in and freed. \<open>found\<close> is that transfer with the index of
  its endpoint.
\<close>

definition reclaim_unlink :: "(nat \<times> ffa_mem_transfer) option \<Rightarrow> hyp_state \<Rightarrow> hyp_state" where
  "reclaim_unlink found s =
     (case found of
        None \<Rightarrow> s
      | Some (i, t) \<Rightarrow>
          hyp_free (set_endp_buffers i (\<lambda>b. b\<lparr>xfer_list := remove1 t (xfer_list b)\<rparr>) s))"

definition reclaim_unshare ::
  "u32 \<Rightarrow> nat \<Rightarrow> (nat \<times> ffa_mem_transfer) option \<Rightarrow> hyp_state \<Rightarrow> hyp_state option" where
  "reclaim_unshare offset vm_handle found s =
     (if vm_handle \<noteq> 0
      then (case found of
              None \<Rightarrow> None
            | Some (i, t) \<Rightarrow>
                (case ffa_guest_unshare_ranges
                        (map (reg_constituents offset s)
                           [0 ..< unat (reg_addr_range_cnt offset s)]) vm_handle t s of
                   None \<Rightarrow> None
                 | Some (t2, s1) \<Rightarrow> Some (reclaim_unlink found s1)))
      else (case ffa_host_unshare_ranges
                   (map (reg_constituents offset s)
                      [0 ..< unat (reg_addr_range_cnt offset s)]) s of
              (r, s1) \<Rightarrow> Some (reclaim_unlink found (WARN_ON (r \<noteq> 0) s1))))"

text \<open>
  \<open>do_ffa_mem_reclaim\<close> from the retrieve request on. The code reads \<open>composite_off\<close>
  in the RX buffer, copies the \<open>fraglen\<close> bytes of the response and then each further
  fragment into the descriptor buffer, and after the reclaim reads the composite region
  in the descriptor buffer at that offset: where the copies did not reach, it reads what
  the buffer held before.
\<close>

definition reclaim_retrieve ::
  "secure_side \<Rightarrow> kvm_cpu_context \<Rightarrow> nat \<Rightarrow> (nat \<times> ffa_mem_transfer) option \<Rightarrow> hyp_state
     \<Rightarrow> (arm_smccc_res \<times> hyp_state) option" where
  "reclaim_retrieve spmd ctxt vm_handle found s =
     (case ffa_retrieve_req spmd (of_nat sizeof_ffa_mem_region) s of
        (res1, s1) \<Rightarrow>
          if a0 res1 \<noteq> FFA_MEM_RETRIEVE_RESP then Some (res1, s1)
          else if (ucast (a1 res1) :: u32) < composite_off (rx_region spmd (smc_log s1))
            then (case ffa_rx_release spmd (WARN_ON True s1) of
                    (res2, s2) \<Rightarrow> Some (ffa_to_smccc_res res2 FFA_RET_ABORTED, s2))
          else if KVM_FFA_MBOX_NR_PAGES * PAGE_SIZE < unat (ucast (a2 res1) :: u32)
            then (case ffa_rx_release spmd (WARN_ON True s1) of
                    (res2, s2) \<Rightarrow> Some (ffa_to_smccc_res res2 FFA_RET_ABORTED, s2))
          else if ffa_desc_buf_len s1 < unat (ucast (a1 res1) :: u32)
            then (case ffa_rx_release spmd s1 of
                    (res2, s2) \<Rightarrow> Some (ffa_to_smccc_res res2 FFA_RET_NO_MEMORY, s2))
          else
            (case memcpy_desc 0 (rx_bytes spmd (smc_log s1))
                    (unat (ucast (a2 res1) :: u32)) s1 of
               None \<Rightarrow> None
             | Some s1' \<Rightarrow>
                 (case ffa_rx_release spmd s1' of
                    (res2, s2) \<Rightarrow>
                      (case reclaim_frag_loop spmd (ucast (ctxt 1)) (ucast (ctxt 2))
                              (ucast (a1 res1)) (ucast (a2 res1)) res2 s2 of
                         None \<Rightarrow> None
                       | Some (False, res3, s3) \<Rightarrow>
                           Some (ffa_to_smccc_res res3 FFA_RET_INVALID_PARAMETERS, s3)
                       | Some (True, res3, s3) \<Rightarrow>
                           (case ffa_mem_reclaim spmd (ucast (ctxt 1)) (ucast (ctxt 2))
                                   (ucast (ctxt 3)) s3 of
                              (res4, s4) \<Rightarrow>
                                if a0 res4 \<noteq> FFA_SUCCESS then Some (res4, s4)
                                else map_option (Pair res4)
                                       (reclaim_unshare
                                          (composite_off (rx_region spmd (smc_log s1)))
                                          vm_handle found s4))))))"

definition do_ffa_mem_reclaim ::
  "secure_side \<Rightarrow> arm_smccc_res \<Rightarrow> kvm_cpu_context \<Rightarrow> nat \<Rightarrow> hyp_state
     \<Rightarrow> (arm_smccc_res \<times> hyp_state) option" where
  "do_ffa_mem_reclaim spmd res ctxt vm_handle s =
     (if vm_handle \<noteq> 0
      then (case find_transfer_by_handle_locked (PACK_HANDLE (ucast (ctxt 1)) (ucast (ctxt 2)))
                   (endp_buffers s vm_handle) of
              None \<Rightarrow> Some (ffa_to_smccc_res res FFA_RET_INVALID_PARAMETERS, s)
            | Some t \<Rightarrow> reclaim_retrieve spmd ctxt vm_handle (Some (vm_handle, t)) s)
      else reclaim_retrieve spmd ctxt vm_handle
             (host_find_guest_transfer (PACK_HANDLE (ucast (ctxt 1)) (ucast (ctxt 2))) 1 s)
             (WARN_ON (host_find_guest_transfer (PACK_HANDLE (ucast (ctxt 1)) (ucast (ctxt 2))) 1 s
                         \<noteq> None) s))"

subsection \<open>Features, version and partition discovery\<close>

definition ffa_call_supported :: "u64 \<Rightarrow> bool" where
  "ffa_call_supported func_id =
     (func_id \<notin> set [FFA_FN64_MEM_RETRIEVE_REQ, FFA_MEM_RETRIEVE_RESP, FFA_MEM_RELINQUISH,
                       FFA_MEM_OP_PAUSE, FFA_MEM_OP_RESUME, FFA_MEM_FRAG_RX, FFA_FN64_MEM_DONATE,
                       FFA_MSG_SEND, FFA_MSG_POLL, FFA_MSG_WAIT,
                       FFA_MSG_SEND_DIRECT_RESP, FFA_RXTX_MAP, FFA_MEM_DONATE,
                       FFA_MEM_RETRIEVE_REQ])"

text \<open>\<open>do_ffa_features\<close>: whether it handled the call, and the result registers.\<close>

definition do_ffa_features :: "arm_smccc_res \<Rightarrow> kvm_cpu_context \<Rightarrow> bool \<times> arm_smccc_res" where
  "do_ffa_features res ctxt =
     (if \<not> ffa_call_supported (ucast (ucast (ctxt 1) :: u32))
        then (True, ffa_to_smccc_res_prop res FFA_RET_NOT_SUPPORTED 0)
      else if ucast (ucast (ctxt 1) :: u32) \<in>
                set [FFA_MEM_SHARE, FFA_FN64_MEM_SHARE, FFA_MEM_LEND, FFA_FN64_MEM_LEND]
        then (True, ffa_to_smccc_res_prop res FFA_RET_SUCCESS 0)
      else (False, res))"

definition hyp_ffa_post_init :: "secure_side \<Rightarrow> hyp_state \<Rightarrow> s32 \<times> hyp_state" where
  "hyp_ffa_post_init spmd s =
     (case arm_smccc_1_1_smc spmd [FFA_ID_GET, 0, 0, 0, 0, 0, 0, 0] s of
        (res1, s1) \<Rightarrow>
          if a0 res1 \<noteq> FFA_SUCCESS then (- EOPNOTSUPP, s1)
          else if a2 res1 \<noteq> of_nat HOST_FFA_ID then (- EINVAL, s1)
          else
            (case arm_smccc_1_1_smc spmd [FFA_FEATURES, FFA_FN64_RXTX_MAP, 0, 0, 0, 0, 0, 0] s1 of
               (res2, s2) \<Rightarrow>
                 if a0 res2 \<noteq> FFA_SUCCESS then (- EOPNOTSUPP, s2)
                 else if a2 res2 = FFA_FEAT_RXTX_MIN_SZ_4K
                   then (if PAGE_SIZE < 4096 then (- EOPNOTSUPP, s2) else (0, s2))
                 else if a2 res2 = FFA_FEAT_RXTX_MIN_SZ_16K
                   then (if PAGE_SIZE < 16384 then (- EOPNOTSUPP, s2) else (0, s2))
                 else if a2 res2 = FFA_FEAT_RXTX_MIN_SZ_64K
                   then (if PAGE_SIZE < 65536 then (- EOPNOTSUPP, s2) else (0, s2))
                 else (- EINVAL, s2)))"

text \<open>The end of \<open>do_ffa_version\<close>, from the call of \<open>hyp_ffa_post_init\<close> on.\<close>

definition version_post_init ::
  "secure_side \<Rightarrow> arm_smccc_res \<Rightarrow> hyp_state \<Rightarrow> arm_smccc_res \<times> hyp_state" where
  "version_post_init spmd res s =
     (case hyp_ffa_post_init spmd s of
        (r, s1) \<Rightarrow>
          if r \<noteq> 0 then (res\<lparr>a0 := scast FFA_RET_NOT_SUPPORTED\<rparr>, s1)
          else (res\<lparr>a0 := ucast (hyp_ffa_version s1)\<rparr>, s1\<lparr>has_version_negotiated := True\<rparr>))"

definition do_ffa_version ::
  "secure_side \<Rightarrow> arm_smccc_res \<Rightarrow> kvm_cpu_context \<Rightarrow> hyp_state \<Rightarrow> arm_smccc_res \<times> hyp_state" where
  "do_ffa_version spmd res ctxt s =
     (if FFA_MAJOR_VERSION (ucast (ctxt 1)) \<noteq> 1
        then (res\<lparr>a0 := scast FFA_RET_NOT_SUPPORTED\<rparr>, s)
      else if has_version_negotiated s
        then (res\<lparr>a0 := ucast (hyp_ffa_version s)\<rparr>, s)
      else if FFA_MINOR_VERSION (ucast (ctxt 1)) < FFA_MINOR_VERSION (hyp_ffa_version s)
        then (case arm_smccc_1_1_smc spmd
                     [FFA_VERSION, ucast (ucast (ctxt 1) :: u32), 0, 0, 0, 0, 0, 0] s of
                (res1, s1) \<Rightarrow>
                  if a0 res1 = scast FFA_RET_NOT_SUPPORTED then (res1, s1)
                  else version_post_init spmd res1 (s1\<lparr>hyp_ffa_version := ucast (ctxt 1)\<rparr>))
      else version_post_init spmd res s)"

text \<open>
  The loop of \<open>do_ffa_part_get\<close> that registers the partitions asking for the messages
  about the life of virtual machines, over the entries \<open>i, i + 1, ...\<close> below \<open>count\<close>.
\<close>

function part_get_register ::
  "(nat \<Rightarrow> ffa_partition_info) \<Rightarrow> nat \<Rightarrow> nat \<Rightarrow> hyp_state \<Rightarrow> hyp_state" where
  "part_get_register parts count i s =
     (if i < count then
        part_get_register parts count (Suc i)
          (if properties (parts i) AND FFA_PART_VM_AVAIL_MASK = FFA_PART_SUPPORTS_VM_AVAIL
           then s\<lparr>sp_ids := (sp_ids s)(unat (num_registered_sp_ids s) := part_id (parts i)),
                   num_registered_sp_ids := num_registered_sp_ids s + 1\<rparr>
           else s)
      else s)"
  by pat_completeness auto
termination
  by (relation "measure (\<lambda>(parts, count, i, s). count - i)") auto

declare part_get_register.simps [simp del]

text \<open>The copy of the partition array into the endpoint's RX buffer is not part of the state.\<close>

definition part_get_copy ::
  "secure_side \<Rightarrow> arm_smccc_res \<Rightarrow> u32 \<Rightarrow> u32 \<Rightarrow> hyp_state \<Rightarrow> arm_smccc_res \<times> hyp_state" where
  "part_get_copy spmd res count partition_sz s =
     (if KVM_FFA_MBOX_NR_PAGES * PAGE_SIZE < unat (partition_sz * count)
        then (ffa_to_smccc_res res FFA_RET_ABORTED, s)
      else if num_registered_sp_ids s \<noteq> 0 then (res, s)
      else (res, part_get_register (rx_parts spmd (smc_log s))
                   (min (unat count) FFA_MAX_REGISTERED_SP_IDS) 0 s))"

definition do_ffa_part_get ::
  "secure_side \<Rightarrow> arm_smccc_res \<Rightarrow> kvm_cpu_context \<Rightarrow> nat \<Rightarrow> hyp_state \<Rightarrow> arm_smccc_res \<times> hyp_state" where
  "do_ffa_part_get spmd res ctxt vm_handle s =
     (if rx (endp_buffers s vm_handle) = None then (ffa_to_smccc_res res FFA_RET_BUSY, s)
      else
        (case arm_smccc_1_1_smc spmd
                [FFA_PARTITION_INFO_GET, ucast (ucast (ctxt 1) :: u32), ucast (ucast (ctxt 2) :: u32),
                 ucast (ucast (ctxt 3) :: u32), ucast (ucast (ctxt 4) :: u32),
                 ucast (ucast (ctxt 5) :: u32), 0, 0] s of
           (res1, s1) \<Rightarrow>
             if a0 res1 \<noteq> FFA_SUCCESS then (res1, s1)
             else if (ucast (a2 res1) :: u32) = 0 then (res1, s1)
             else if FFA_VERSION_1_0 < hyp_ffa_version s1
               then (if (ucast (ctxt 5) :: u32) AND 1 \<noteq> 0 then (res1, s1)
                     else part_get_copy spmd res1 (ucast (a2 res1)) (ucast (a3 res1)) s1)
             else part_get_copy spmd res1 (ucast (a2 res1)) FFA_1_0_PARTITON_INFO_SZ s1))"

subsection \<open>The two entry points\<close>

text \<open>
  \<open>res\<close> is the handler's local \<open>struct arm_smccc_res\<close>, which C leaves
  uninitialised: whatever it holds is an input. A host handler that returns false leaves
  the call to its caller, which forwards it to the secure side.
\<close>

definition host_ffa_done ::
  "kvm_cpu_context \<Rightarrow> arm_smccc_res \<times> hyp_state \<Rightarrow> bool \<times> kvm_cpu_context \<times> hyp_state" where
  "host_ffa_done ctxt r = (True, ffa_set_retval ctxt (fst r), snd r)"

definition kvm_host_ffa_handler ::
  "secure_side \<Rightarrow> ffa_mem_region \<Rightarrow> arm_smccc_res \<Rightarrow> kvm_cpu_context \<Rightarrow> u32 \<Rightarrow> hyp_state
     \<Rightarrow> (bool \<times> kvm_cpu_context \<times> hyp_state) option" where
  "kvm_host_ffa_handler spmd txbuf res ctxt func_id s =
     (if \<not> is_ffa_call (ucast func_id) then Some (False, ctxt, s)
      else if \<not> has_version_negotiated s \<and> ucast func_id \<noteq> FFA_VERSION
        then Some (True, ctxt, s)
      else if ucast func_id = FFA_FEATURES
        then (case do_ffa_features res ctxt of
                (False, res1) \<Rightarrow> Some (False, ctxt, s)
              | (True, res1) \<Rightarrow> Some (host_ffa_done ctxt (res1, s)))
      else if ucast func_id = FFA_FN64_RXTX_MAP
        then Some (host_ffa_done ctxt (snd (do_ffa_rxtx_map spmd res ctxt HOST_FFA_ID s)))
      else if ucast func_id = FFA_RXTX_UNMAP
        then Some (host_ffa_done ctxt (do_ffa_rxtx_unmap spmd res ctxt HOST_FFA_ID s))
      else if ucast func_id \<in> set [FFA_MEM_SHARE, FFA_FN64_MEM_SHARE]
        then map_option (\<lambda>r. host_ffa_done ctxt (snd r))
               (do_ffa_mem_xfer spmd txbuf FFA_FN64_MEM_SHARE res ctxt HOST_FFA_ID s)
      else if ucast func_id = FFA_MEM_RECLAIM
        then map_option (host_ffa_done ctxt) (do_ffa_mem_reclaim spmd res ctxt HOST_FFA_ID s)
      else if ucast func_id \<in> set [FFA_MEM_LEND, FFA_FN64_MEM_LEND]
        then map_option (\<lambda>r. host_ffa_done ctxt (snd r))
               (do_ffa_mem_xfer spmd txbuf FFA_FN64_MEM_LEND res ctxt HOST_FFA_ID s)
      else if ucast func_id = FFA_MEM_FRAG_TX
        then Some (host_ffa_done ctxt (do_ffa_mem_frag_tx spmd txbuf res ctxt HOST_FFA_ID s))
      else if ucast func_id = FFA_VERSION
        then Some (host_ffa_done ctxt (do_ffa_version spmd res ctxt s))
      else if ucast func_id = FFA_PARTITION_INFO_GET
        then Some (host_ffa_done ctxt (do_ffa_part_get spmd res ctxt HOST_FFA_ID s))
      else if ffa_call_supported (ucast func_id) then Some (False, ctxt, s)
      else Some (host_ffa_done ctxt (ffa_to_smccc_error (scast FFA_RET_NOT_SUPPORTED), s)))"

record pkvm_hyp_vcpu =
  ffa_support :: bool
  pkvm_handle :: u32
  vcpu_ctxt :: kvm_cpu_context

definition VM_FFA_HANDLE_FROM_VCPU :: "pkvm_hyp_vcpu \<Rightarrow> u16" where
  "VM_FFA_HANDLE_FROM_VCPU vcpu = ucast (pkvm_handle vcpu - HANDLE_OFFSET + 1)"

text \<open>
  The label \<open>unhandled\<close> of the guest handler: the client identifier goes into register
  7 and \<open>__kvm_hyp_host_forward_smc\<close> issues the call with the guest's registers; the
  result registers of the secure side go back into the context.
\<close>

definition guest_ffa_unhandled ::
  "secure_side \<Rightarrow> kvm_cpu_context \<Rightarrow> u16 \<Rightarrow> hyp_state \<Rightarrow> bool \<times> kvm_cpu_context \<times> hyp_state" where
  "guest_ffa_unhandled spmd ctxt vm_handle s =
     (case arm_smccc_1_1_smc spmd (map (ctxt(7 := ucast vm_handle)) [0 ..< 8]) s of
        (res1, s1) \<Rightarrow> (True, ffa_set_retval (ctxt(7 := ucast vm_handle)) res1, s1))"

definition guest_ffa_done ::
  "kvm_cpu_context \<Rightarrow> s32 \<times> arm_smccc_res \<times> hyp_state \<Rightarrow> bool \<times> kvm_cpu_context \<times> hyp_state" where
  "guest_ffa_done ctxt r =
     (case r of
        (ret, res, s) \<Rightarrow>
          if 0 \<le> sint ret then (True, ffa_set_retval ctxt res, s) else (False, ctxt, s))"

definition guest_ffa_switch ::
  "secure_side \<Rightarrow> ffa_mem_region \<Rightarrow> arm_smccc_res \<Rightarrow> kvm_cpu_context \<Rightarrow> u16 \<Rightarrow> hyp_state
     \<Rightarrow> (bool \<times> kvm_cpu_context \<times> hyp_state) option" where
  "guest_ffa_switch spmd txbuf res ctxt vm_handle s =
     (if \<not> is_ffa_call (ctxt 0) then Some (guest_ffa_unhandled spmd ctxt vm_handle s)
      else if ctxt 0 = FFA_FEATURES
        then (case do_ffa_features res ctxt of
                (False, res1) \<Rightarrow> Some (guest_ffa_unhandled spmd ctxt vm_handle s)
              | (True, res1) \<Rightarrow> Some (guest_ffa_done ctxt (0, res1, s)))
      else if ctxt 0 = FFA_VERSION
        then (case do_ffa_version spmd res ctxt s of
                (res1, s1) \<Rightarrow> Some (guest_ffa_done ctxt (0, res1, s1)))
      else if ctxt 0 = FFA_FN64_RXTX_MAP
        then Some (guest_ffa_done ctxt (do_ffa_rxtx_map spmd res ctxt (unat vm_handle) s))
      else if ctxt 0 = FFA_RXTX_UNMAP
        then (case do_ffa_rxtx_unmap spmd res ctxt (unat vm_handle) s of
                (res1, s1) \<Rightarrow> Some (guest_ffa_done ctxt (0, res1, s1)))
      else if ctxt 0 \<in> set [FFA_MEM_SHARE, FFA_FN64_MEM_SHARE]
        then map_option (guest_ffa_done ctxt)
               (do_ffa_mem_xfer spmd txbuf FFA_FN64_MEM_SHARE res ctxt (unat vm_handle) s)
      else if ctxt 0 = FFA_MEM_RECLAIM
        then map_option (\<lambda>r. guest_ffa_done ctxt (0, r))
               (do_ffa_mem_reclaim spmd res ctxt (unat vm_handle) s)
      else if ctxt 0 \<in> set [FFA_MEM_LEND, FFA_FN64_MEM_LEND]
        then map_option (guest_ffa_done ctxt)
               (do_ffa_mem_xfer spmd txbuf FFA_FN64_MEM_LEND res ctxt (unat vm_handle) s)
      else if ctxt 0 = FFA_ID_GET
        then Some (guest_ffa_done ctxt
                     (0, ffa_to_smccc_res_prop res FFA_RET_SUCCESS (ucast vm_handle), s))
      else if ctxt 0 = FFA_PARTITION_INFO_GET
        then (case do_ffa_part_get spmd res ctxt (unat vm_handle) s of
                (res1, s1) \<Rightarrow> Some (guest_ffa_done ctxt (0, res1, s1)))
      else if ffa_call_supported (ctxt 0) then Some (guest_ffa_unhandled spmd ctxt vm_handle s)
      else Some (guest_ffa_done ctxt (0, ffa_to_smccc_error (scast FFA_RET_NOT_SUPPORTED), s)))"

definition kvm_guest_ffa_handler ::
  "secure_side \<Rightarrow> ffa_mem_region \<Rightarrow> arm_smccc_res \<Rightarrow> pkvm_hyp_vcpu \<Rightarrow> hyp_state
     \<Rightarrow> (bool \<times> kvm_cpu_context \<times> hyp_state) option" where
  "kvm_guest_ffa_handler spmd txbuf res hyp_vcpu s =
     (if \<not> ffa_support hyp_vcpu then Some (True, vcpu_ctxt hyp_vcpu, s)
      else guest_ffa_switch spmd txbuf res (vcpu_ctxt hyp_vcpu) (VM_FFA_HANDLE_FROM_VCPU hyp_vcpu)
             (WARN_ON (KVM_MAX_PVMS \<le> unat (VM_FFA_HANDLE_FROM_VCPU hyp_vcpu)) s))"

subsection \<open>Teardown of a guest and initialisation\<close>

fun kvm_guest_clear_transfer :: "ffa_translation list \<Rightarrow> nat \<Rightarrow> hyp_state \<Rightarrow> hyp_state" where
  "kvm_guest_clear_transfer [] vcpu s = s"
| "kvm_guest_clear_transfer (t # ts) vcpu s =
     (case pkvm_guest_unshare_ffa vcpu (ipa t) s of
        (r, s1) \<Rightarrow> kvm_guest_clear_transfer ts vcpu (hyp_free (WARN_ON (r \<noteq> 0) s1)))"

text \<open>The loop of \<open>kvm_reclaim_ffa_guest_pages\<close> over the transfers of the guest.\<close>

fun reclaim_guest_transfers ::
  "secure_side \<Rightarrow> ffa_mem_transfer list \<Rightarrow> nat \<Rightarrow> hyp_state \<Rightarrow> s32 \<times> hyp_state" where
  "reclaim_guest_transfers spmd [] vm_handle s = (0, s)"
| "reclaim_guest_transfers spmd (t # ts) vm_handle s =
     (case ffa_mem_reclaim spmd (HANDLE_LOW (ffa_handle t)) (HANDLE_HIGH (ffa_handle t)) 0 s of
        (res, s1) \<Rightarrow>
          if a0 res \<noteq> FFA_SUCCESS then (- 11, s1)
          else reclaim_guest_transfers spmd ts vm_handle
                 (hyp_free
                    (set_endp_buffers vm_handle (\<lambda>b. b\<lparr>xfer_list := remove1 t (xfer_list b)\<rparr>)
                       (kvm_guest_clear_transfer (translation_list t) vm_handle s1))))"

definition reclaim_guest_buffer_tx :: "nat \<Rightarrow> hyp_state \<Rightarrow> hyp_state" where
  "reclaim_guest_buffer_tx vm_handle s =
     (case tx (endp_buffers s vm_handle) of
        None \<Rightarrow> s
      | Some va \<Rightarrow>
          (case pkvm_guest_unshare_hyp vm_handle (tx_ipa (endp_buffers s vm_handle))
                  (hyp_unpin_shared_guest_page vm_handle va s) of
             (r, s1) \<Rightarrow> set_endp_buffers vm_handle (\<lambda>b. b\<lparr>tx := None\<rparr>) (WARN_ON (r \<noteq> 0) s1)))"

definition reclaim_guest_buffer_rx :: "nat \<Rightarrow> hyp_state \<Rightarrow> hyp_state" where
  "reclaim_guest_buffer_rx vm_handle s =
     (case rx (endp_buffers s vm_handle) of
        None \<Rightarrow> s
      | Some va \<Rightarrow>
          (case pkvm_guest_unshare_hyp vm_handle (rx_ipa (endp_buffers s vm_handle))
                  (hyp_unpin_shared_guest_page vm_handle va s) of
             (r, s1) \<Rightarrow> set_endp_buffers vm_handle (\<lambda>b. b\<lparr>rx := None\<rparr>) (WARN_ON (r \<noteq> 0) s1)))"

text \<open>\<open>kvm_reclaim_ffa_guest_pages\<close>, given the first virtual CPU of the machine.\<close>

definition kvm_reclaim_ffa_guest_pages ::
  "secure_side \<Rightarrow> pkvm_hyp_vcpu \<Rightarrow> hyp_state \<Rightarrow> s32 \<times> hyp_state" where
  "kvm_reclaim_ffa_guest_pages spmd hyp_vcpu s0 =
     (if \<not> ffa_support hyp_vcpu then (0, s0)
      else
        (let vm_handle = unat (VM_FFA_HANDLE_FROM_VCPU hyp_vcpu);
             s = WARN_ON (KVM_MAX_PVMS \<le> vm_handle) s0
         in if tx (endp_buffers s vm_handle) = None \<and> rx (endp_buffers s vm_handle) = None
            then (0, s)
            else
              (case kvm_notify_vm_availability spmd (of_nat vm_handle) FFA_VM_DESTRUCTION_MSG s of
                 (ret1, s1) \<Rightarrow>
                   if ret1 \<noteq> FFA_RET_SUCCESS then (ret1, s1)
                   else
                     (case reclaim_guest_transfers spmd (xfer_list (endp_buffers s1 vm_handle))
                             vm_handle s1 of
                        (ret2, s2) \<Rightarrow>
                          if ret2 \<noteq> 0 then (ret2, s2)
                          else (0, reclaim_guest_buffer_rx vm_handle
                                     (reclaim_guest_buffer_tx vm_handle s2))))))"

text \<open>
  \<open>hyp_ffa_init\<close>, given the SMCCC version of the firmware, the physical address of the
  pages handed to the proxy and their number (\<open>hyp_ffa_proxy_pages()\<close>).
\<close>

definition ARM_SMCCC_VERSION_1_1 :: u32 where "ARM_SMCCC_VERSION_1_1 = 0x10001"

definition empty_ffa_buffers :: kvm_ffa_buffers where
  "empty_ffa_buffers = \<lparr>tx = None, tx_ipa = 0, rx = None, rx_ipa = 0, xfer_list = []\<rparr>"

definition hyp_ffa_init :: "secure_side \<Rightarrow> u32 \<Rightarrow> u64 \<Rightarrow> nat \<Rightarrow> hyp_state \<Rightarrow> s32 \<times> hyp_state" where
  "hyp_ffa_init spmd smccc_version pages proxy_pages s =
     (if smccc_version < ARM_SMCCC_VERSION_1_1 then (0, s)
      else
        (case arm_smccc_1_1_smc spmd [FFA_VERSION, ucast FFA_VERSION_1_1, 0, 0, 0, 0, 0, 0] s of
           (res, s1) \<Rightarrow>
             if a0 res = scast FFA_RET_NOT_SUPPORTED then (0, s1)
             else if FFA_MAJOR_VERSION (ucast (a0 res)) \<noteq> 1 then (- EOPNOTSUPP, s1)
             else
               (0, s1\<lparr>hyp_ffa_version :=
                        (if FFA_MINOR_VERSION (ucast (a0 res)) < FFA_MINOR_VERSION FFA_VERSION_1_1
                         then ucast (a0 res) else FFA_VERSION_1_1),
                      hyp_buffers_tx := pages,
                      hyp_buffers_rx := pages + of_nat (KVM_FFA_MBOX_NR_PAGES * PAGE_SIZE),
                      ffa_desc_buf_len := PAGE_SIZE * (proxy_pages - 2 * KVM_FFA_MBOX_NR_PAGES),
                      endp_buffers :=
                        (\<lambda>i. if i < KVM_MAX_PVMS then empty_ffa_buffers else endp_buffers s1 i)\<rparr>)))"

subsection \<open>Concrete states and secure sides\<close>

text \<open>
  The state a boot leaves before \<open>hyp_ffa_init\<close>: the statics of ffa.c are zero, the
  host owns every page, no guest page is resident, nothing is pinned.
\<close>

definition zero_state :: hyp_state where
  "zero_state =
     \<lparr>endp_buffers = (\<lambda>i. empty_ffa_buffers), hyp_buffers_tx = 0, hyp_buffers_rx = 0,
      ffa_desc_buf = (\<lambda>k. 0), ffa_desc_buf_len = 0, hyp_ffa_version = 0,
      has_version_negotiated = False,
      hyp_buff_refcnt = 0, sp_ids = (\<lambda>i. 0), num_registered_sp_ids = 0, smc_log = [],
      host_pages = (\<lambda>p. PKVM_PAGE_OWNED), guest_pages = (\<lambda>vm gfn. None),
      hyp_pins = (\<lambda>p. 0), pin_refused = (\<lambda>p. False), alloc_free = 8, req_slots = 1,
      missing_donations = 1, vcpu_events = [], elr = 0, warnings = 0\<rparr>"

definition empty_region :: ffa_mem_region where
  "empty_region =
     \<lparr>ep_count = 0, composite_off = 0, total_pg_cnt = 0, addr_range_cnt = 0,
      constituents = (\<lambda>i. \<lparr>address = 0, pg_cnt = 0\<rparr>),
      frag_ranges = (\<lambda>i. \<lparr>address = 0, pg_cnt = 0\<rparr>)\<rparr>"

text \<open>
  The bytes of a descriptor in memory, from the composite region on: at \<open>composite_off\<close>
  the two counters and eight reserved bytes, then the constituents, each an address, a
  page count and four reserved bytes. The bytes of the header are left zero.
\<close>

definition byte_of :: "'a::len word \<Rightarrow> nat \<Rightarrow> u8" where
  "byte_of w i = ucast (drop_bit (8 * i) w)"

definition region_bytes :: "ffa_mem_region \<Rightarrow> nat \<Rightarrow> u8" where
  "region_bytes r k =
     (if k < unat (composite_off r) then 0
      else if k < unat (composite_off r) + 4
        then byte_of (total_pg_cnt r) (k - unat (composite_off r))
      else if k < unat (composite_off r) + 8
        then byte_of (addr_range_cnt r) (k - (unat (composite_off r) + 4))
      else if k < unat (composite_off r) + 16 then 0
      else if (k - (unat (composite_off r) + 16)) mod 16 < 8
        then byte_of (address (constituents r ((k - (unat (composite_off r) + 16)) div 16)))
               ((k - (unat (composite_off r) + 16)) mod 16)
      else if (k - (unat (composite_off r) + 16)) mod 16 < 12
        then byte_of (pg_cnt (constituents r ((k - (unat (composite_off r) + 16)) div 16)))
               ((k - (unat (composite_off r) + 16)) mod 16 - 8)
      else 0)"

text \<open>
  A secure side that answers by the function identifier of the call alone, with
  \<open>region\<close> in the RX buffer and no partition.
\<close>

definition last_func_id :: "u64 list list \<Rightarrow> u64" where
  "last_func_id log =
     (case rev log of [] \<Rightarrow> 0 | c # cs \<Rightarrow> (case c of [] \<Rightarrow> 0 | f # args \<Rightarrow> f))"

definition spmd_by_func :: "(u64 \<Rightarrow> arm_smccc_res) \<Rightarrow> ffa_mem_region \<Rightarrow> secure_side" where
  "spmd_by_func answer region =
     \<lparr>smc_res = (\<lambda>log. answer (last_func_id log)), rx_region = (\<lambda>log. region),
      rx_bytes = (\<lambda>log. region_bytes region),
      rx_parts = (\<lambda>log i. \<lparr>part_id = 0, properties = 0\<rparr>)\<rparr>"

text \<open>
  A secure side of version 1.1 that accepts every call: the version call yields the
  version, the retrieve request a one-fragment response of 96 bytes (a descriptor whose
  composite region at offset 64 has one constituent), every other call FFA_SUCCESS
  with zero in the other registers.
\<close>

definition answer_accept :: "u64 \<Rightarrow> arm_smccc_res" where
  "answer_accept f =
     (if f = FFA_VERSION then \<lparr>a0 = 0x10001, a1 = 0, a2 = 0, a3 = 0\<rparr>
      else if f = FFA_FN64_MEM_RETRIEVE_REQ
        then \<lparr>a0 = FFA_MEM_RETRIEVE_RESP, a1 = 96, a2 = 96, a3 = 0\<rparr>
      else \<lparr>a0 = FFA_SUCCESS, a1 = 0, a2 = 0, a3 = 0\<rparr>)"

text \<open>The answer FFA_ERROR with the status DENIED.\<close>

definition ffa_denied :: arm_smccc_res where
  "ffa_denied = \<lparr>a0 = FFA_ERROR, a1 = 0, a2 = scast FFA_RET_DENIED, a3 = 0\<rparr>"

text \<open>The accepting secure side, except for the calls listed in \<open>special\<close> with their answers.\<close>

definition answer_with :: "(u64 \<times> arm_smccc_res) list \<Rightarrow> u64 \<Rightarrow> arm_smccc_res" where
  "answer_with special f = (case map_of special f of None \<Rightarrow> answer_accept f | Some r \<Rightarrow> r)"

text \<open>
  The state after \<open>hyp_ffa_init\<close> and a successful \<open>FFA_VERSION\<close> call of the host;
  the proxy was given the pages at 0x80000000.
\<close>

definition ctxt_of :: "u64 list \<Rightarrow> kvm_cpu_context" where
  "ctxt_of regs = (\<lambda>i. if i < length regs then regs ! i else 0)"

definition zero_res :: arm_smccc_res where
  "zero_res = \<lparr>a0 = 0, a1 = 0, a2 = 0, a3 = 0\<rparr>"

definition init_state :: hyp_state where
  "init_state = snd (hyp_ffa_init (spmd_by_func answer_accept empty_region) 0x10002 0x80000000 4 zero_state)"

definition negotiated_state :: hyp_state where
  "negotiated_state =
     snd (do_ffa_version (spmd_by_func answer_accept empty_region) zero_res
            (ctxt_of [FFA_VERSION, 0x10001]) init_state)"

text \<open>The same state written out; \<open>negotiated_state_eq\<close> below shows that it is the same.\<close>

definition ready_state :: hyp_state where
  "ready_state =
     \<lparr>endp_buffers = (\<lambda>i. empty_ffa_buffers), hyp_buffers_tx = 0x80000000,
      hyp_buffers_rx = 0x80001000, ffa_desc_buf = (\<lambda>k. 0), ffa_desc_buf_len = 8192,
      hyp_ffa_version = 0x10001,
      has_version_negotiated = True, hyp_buff_refcnt = 0, sp_ids = (\<lambda>i. 0),
      num_registered_sp_ids = 0,
      smc_log = [[FFA_VERSION, 0x10001, 0, 0, 0, 0, 0, 0], [FFA_ID_GET, 0, 0, 0, 0, 0, 0, 0],
                 [FFA_FEATURES, FFA_FN64_RXTX_MAP, 0, 0, 0, 0, 0, 0]],
      host_pages = (\<lambda>p. PKVM_PAGE_OWNED), guest_pages = (\<lambda>vm gfn. None),
      hyp_pins = (\<lambda>p. 0), pin_refused = (\<lambda>p. False), alloc_free = 8, req_slots = 1,
      missing_donations = 1, vcpu_events = [], elr = 0, warnings = 0\<rparr>"

text \<open>
  A system with one guest, whose FF-A handle is 1. Four pages of the guest are resident,
  at the guest frames 1, 2, 0x10 and 0x11; the stage-2 tables of the host do not map the
  physical pages behind them.
\<close>

definition guest_state :: hyp_state where
  "guest_state =
     ready_state\<lparr>guest_pages :=
        (\<lambda>vm gfn. if vm = 1 \<and> gfn \<in> set [1, 2, 0x10, 0x11]
                   then Some (0x50000000 + push_bit 12 gfn, PKVM_PAGE_OWNED) else None),
        host_pages :=
          (\<lambda>p. if 0x50000 \<le> p \<and> p < 0x50100 then PKVM_NOPAGE else PKVM_PAGE_OWNED)\<rparr>"

definition guest_vcpu :: "u64 list \<Rightarrow> pkvm_hyp_vcpu" where
  "guest_vcpu regs = \<lparr>ffa_support = True, pkvm_handle = 0x1000, vcpu_ctxt = ctxt_of regs\<rparr>"

text \<open>The guest maps its message boxes at the guest frames 1 (TX) and 2 (RX).\<close>

definition guest_map_ctxt :: kvm_cpu_context where
  "guest_map_ctxt = ctxt_of [FFA_FN64_RXTX_MAP, 0x1000, 0x2000, 1]"

definition guest_mapped_state :: hyp_state where
  "guest_mapped_state =
     guest_state
       \<lparr>endp_buffers := (\<lambda>i. empty_ffa_buffers)
          (1 := \<lparr>tx = Some 0x50001000, tx_ipa = 0x1000, rx = Some 0x50002000, rx_ipa = 0x2000,
                  xfer_list = []\<rparr>),
        hyp_buff_refcnt := 1,
        smc_log := smc_log ready_state
                     @ [[FFA_FN64_RXTX_MAP, 0x80000000, 0x80001000, 1, 0, 0, 0, 0]],
        guest_pages :=
          (\<lambda>vm gfn. if vm = 1 \<and> gfn \<in> set [1, 2]
                       then Some (0x50000000 + push_bit 12 gfn, PKVM_PAGE_SHARED_HYP)
                     else if vm = 1 \<and> gfn \<in> set [0x10, 0x11]
                       then Some (0x50000000 + push_bit 12 gfn, PKVM_PAGE_OWNED)
                     else None),
        hyp_pins := (\<lambda>p. if p = 0x50001 \<or> p = 0x50002 then 1 else 0)\<rparr>"

text \<open>
  The guest lends its page at the guest frame 0x10 with a well-formed descriptor, and the
  secure side names the transfer 7: \<open>lent_state\<close> is the state after that call
  (\<open>lent_state_eq\<close> below).
\<close>

definition lend_region :: ffa_mem_region where
  "lend_region =
     \<lparr>ep_count = 1, composite_off = 64, total_pg_cnt = 1, addr_range_cnt = 1,
      constituents = (\<lambda>i. if i = 0 then \<lparr>address = 0x10000, pg_cnt = 1\<rparr>
                           else \<lparr>address = 0, pg_cnt = 0\<rparr>),
      frag_ranges = (\<lambda>i. \<lparr>address = 0, pg_cnt = 0\<rparr>)\<rparr>"

definition lent_state :: hyp_state where
  "lent_state =
     guest_mapped_state
       \<lparr>endp_buffers := (endp_buffers guest_mapped_state)
          (1 := (endp_buffers guest_mapped_state 1)
                  \<lparr>xfer_list := [\<lparr>ffa_handle = 7,
                                  translation_list = [\<lparr>ipa = 0x10000, pa = 0x50010000\<rparr>]\<rparr>]\<rparr>),
        smc_log := smc_log guest_mapped_state @ [[FFA_FN64_MEM_LEND, 96, 96, 0, 0, 0, 0, 0]],
        guest_pages := (guest_pages guest_mapped_state)
          (1 := (guest_pages guest_mapped_state 1)
                  (0x10 := Some (0x50010000, PKVM_PAGE_SHARED_FFA))),
        alloc_free := 6\<rparr>"

text \<open>What the secure side delivers when that transfer is retrieved: the painted descriptor.\<close>

definition lent_region :: ffa_mem_region where
  "lent_region =
     \<lparr>ep_count = 1, composite_off = 64, total_pg_cnt = 1, addr_range_cnt = 1,
      constituents = (\<lambda>i. if i = 0 then \<lparr>address = 0x50010000, pg_cnt = 1\<rparr>
                           else \<lparr>address = 0, pg_cnt = 0\<rparr>),
      frag_ranges = (\<lambda>i. \<lparr>address = 0, pg_cnt = 0\<rparr>)\<rparr>"

text \<open>
  A descriptor of the guest with one range of two pages whose \<open>addr_range_cnt\<close> field
  says 2, one whose total page count says 3 while its one range has 2 pages, and one
  whose two ranges have \<open>2^32 + 1\<close> pages together while its total page count says 1.
\<close>

definition miscounted_region :: ffa_mem_region where
  "miscounted_region =
     \<lparr>ep_count = 1, composite_off = 64, total_pg_cnt = 2, addr_range_cnt = 2,
      constituents = (\<lambda>i. if i = 0 then \<lparr>address = 0x10000, pg_cnt = 2\<rparr>
                           else \<lparr>address = 0, pg_cnt = 0\<rparr>),
      frag_ranges = (\<lambda>i. \<lparr>address = 0, pg_cnt = 0\<rparr>)\<rparr>"

definition mismatched_region :: ffa_mem_region where
  "mismatched_region =
     \<lparr>ep_count = 1, composite_off = 64, total_pg_cnt = 3, addr_range_cnt = 1,
      constituents = (\<lambda>i. if i = 0 then \<lparr>address = 0x10000, pg_cnt = 2\<rparr>
                           else \<lparr>address = 0, pg_cnt = 0\<rparr>),
      frag_ranges = (\<lambda>i. \<lparr>address = 0, pg_cnt = 0\<rparr>)\<rparr>"

definition wrapping_region :: ffa_mem_region where
  "wrapping_region =
     \<lparr>ep_count = 1, composite_off = 64, total_pg_cnt = 1, addr_range_cnt = 2,
      constituents = (\<lambda>i. if i = 0 then \<lparr>address = 0x10000, pg_cnt = 0xFFFFFFFF\<rparr>
                           else if i = 1 then \<lparr>address = 0x20000, pg_cnt = 2\<rparr>
                           else \<lparr>address = 0, pg_cnt = 0\<rparr>),
      frag_ranges = (\<lambda>i. \<lparr>address = 0, pg_cnt = 0\<rparr>)\<rparr>"

text \<open>
  The host maps its message boxes at 0x90000000 and 0x90001000 and sends the first
  fragment of a lend of two pages, which names the page 0xA0001000; the secure side asks
  for the rest of transfer 7. \<open>fragment_state\<close> is the state then
  (\<open>host_mapped_state_eq\<close> and \<open>fragment_state_eq\<close> below).
\<close>

definition host_map_ctxt :: kvm_cpu_context where
  "host_map_ctxt = ctxt_of [FFA_FN64_RXTX_MAP, 0x90000000, 0x90001000, 1]"

definition host_mapped_state :: hyp_state where
  "host_mapped_state =
     ready_state
       \<lparr>endp_buffers := (\<lambda>i. empty_ffa_buffers)
          (0 := \<lparr>tx = Some 0x90000000, tx_ipa = 0x90000000, rx = Some 0x90001000,
                  rx_ipa = 0x90001000, xfer_list = []\<rparr>),
        hyp_buff_refcnt := 1,
        smc_log := smc_log ready_state
                     @ [[FFA_FN64_RXTX_MAP, 0x80000000, 0x80001000, 1, 0, 0, 0, 0]],
        host_pages := (\<lambda>p. if p = 0x90000 \<or> p = 0x90001 then PKVM_PAGE_SHARED_HYP
                            else PKVM_PAGE_OWNED),
        hyp_pins := (\<lambda>p. if p = 0x90000 \<or> p = 0x90001 then 1 else 0)\<rparr>"

definition first_fragment :: ffa_mem_region where
  "first_fragment =
     \<lparr>ep_count = 1, composite_off = 64, total_pg_cnt = 2, addr_range_cnt = 2,
      constituents = (\<lambda>i. if i = 0 then \<lparr>address = 0xA0001000, pg_cnt = 1\<rparr>
                           else \<lparr>address = 0, pg_cnt = 0\<rparr>),
      frag_ranges = (\<lambda>i. \<lparr>address = 0, pg_cnt = 0\<rparr>)\<rparr>"

definition frag_rx_7 :: arm_smccc_res where
  "frag_rx_7 = \<lparr>a0 = FFA_MEM_FRAG_RX, a1 = 7, a2 = 0, a3 = 96\<rparr>"

definition fragment_state :: hyp_state where
  "fragment_state =
     host_mapped_state
       \<lparr>smc_log := smc_log host_mapped_state @ [[FFA_FN64_MEM_LEND, 112, 96, 0, 0, 0, 0, 0]],
        host_pages := (\<lambda>p. if p = 0x90000 \<or> p = 0x90001 then PKVM_PAGE_SHARED_HYP
                            else if p = 0xA0001 then PKVM_PAGE_SHARED_FFA
                            else PKVM_PAGE_OWNED)\<rparr>"

text \<open>
  Two second fragments of 16 bytes: one names the fresh page 0xA0000000, the other
  names the page of the first fragment again.
\<close>

definition second_fragment :: ffa_mem_region where
  "second_fragment = empty_region\<lparr>frag_ranges := (\<lambda>i. \<lparr>address = 0xA0000000, pg_cnt = 1\<rparr>)\<rparr>"

definition repeated_fragment :: ffa_mem_region where
  "repeated_fragment = empty_region\<lparr>frag_ranges := (\<lambda>i. \<lparr>address = 0xA0001000, pg_cnt = 1\<rparr>)\<rparr>"

definition frag_tx_ctxt :: kvm_cpu_context where
  "frag_tx_ctxt = ctxt_of [FFA_MEM_FRAG_TX, 7, 0, 16, 0]"

text \<open>
  A state in which the reference count of the hypervisor's message-box pair is at its
  maximum and one secure partition, 0x8001, is registered for the VM-availability
  messages; and the answer of a partition that acknowledges such a message.
\<close>

definition direct_resp :: arm_smccc_res where
  "direct_resp = \<lparr>a0 = FFA_MSG_SEND_DIRECT_RESP, a1 = 0, a2 = 0, a3 = 0\<rparr>"

definition saturated_state :: hyp_state where
  "saturated_state =
     ready_state\<lparr>hyp_buff_refcnt := USHRT_MAX, sp_ids := (\<lambda>i. 0x8001),
                 num_registered_sp_ids := 1\<rparr>"

subsection \<open>The pages of address ranges\<close>

text \<open>
  The page frames an address range covers, as the host side of the ownership authority
  walks them; used to state what sharing a list of ranges does.
\<close>

definition range_pfns :: "u64 \<Rightarrow> nat \<Rightarrow> u64 set" where
  "range_pfns pfn n = (\<lambda>k. pfn + of_nat k) ` {..<n}"

definition pfns_of :: "ffa_mem_region_addr_range \<Rightarrow> u64 set" where
  "pfns_of r = range_pfns (hyp_phys_to_pfn (address r)) (unat (pg_cnt r))"

fun ranges_pfns :: "ffa_mem_region_addr_range list \<Rightarrow> u64 set" where
  "ranges_pfns [] = {}"
| "ranges_pfns (r # rs) = pfns_of r \<union> ranges_pfns rs"

fun disjoint_ranges :: "ffa_mem_region_addr_range list \<Rightarrow> bool" where
  "disjoint_ranges [] = True"
| "disjoint_ranges (r # rs) = (pfns_of r \<inter> ranges_pfns rs = {} \<and> disjoint_ranges rs)"

section \<open>Properties\<close>

lemmas example_defs =
  zero_state_def empty_region_def last_func_id_def spmd_by_func_def answer_accept_def
  answer_with_def ffa_denied_def ctxt_of_def zero_res_def empty_ffa_buffers_def
  byte_of_def region_bytes_def

lemmas smc_defs =
  arm_smccc_1_1_smc_def ffa_mem_frag_tx_def ffa_mem_frag_rx_def ffa_mem_xfer_def
  ffa_mem_reclaim_def ffa_retrieve_req_def ffa_rx_release_def

lemmas const_defs =
  ffa_func_ids ffa_ret_codes errno_codes ffa_sizes HOST_FFA_ID_def
  FFA_MAX_REGISTERED_SP_IDS_def KVM_MAX_PVMS_def HANDLE_OFFSET_def USHRT_MAX_def
  FFA_VERSION_1_0_def FFA_VERSION_1_1_def FFA_VM_CREATION_MSG_def
  FFA_VM_DESTRUCTION_MSG_def FFA_MAJOR_VERSION_def FFA_MINOR_VERSION_def PACK_HANDLE_def
  HANDLE_LOW_def HANDLE_HIGH_def PAGE_ALIGNED_def hyp_phys_to_pfn_def is_ffa_call_def

lemmas model_defs =
  WARN_ON_def ffa_to_smccc_error_def ffa_to_smccc_res_prop_def ffa_to_smccc_res_def
  ffa_set_retval_def ffa_map_hyp_buffers_def ffa_unmap_hyp_buffers_def
  pkvm_host_share_ffa_def pkvm_host_unshare_ffa_def pkvm_host_share_hyp_def
  pkvm_host_unshare_hyp_def hyp_pin_shared_mem_def hyp_unpin_shared_mem_def
  guest_set_state_def guest_share_def pkvm_guest_share_hyp_def pkvm_guest_share_ffa_def
  pkvm_guest_unshare_hyp_def pkvm_guest_unshare_ffa_def hyp_pin_shared_guest_page_def
  hyp_unpin_shared_guest_page_def hyp_alloc_def hyp_free_def ffa_guest_share_with_cb_def
  ffa_alloc_def guest_err_unpin_tx_def guest_err_unshare_rx_def guest_err_unshare_tx_def
  ffa_map_guest_buffers_def host_err_unshare_tx_def host_err_unshare_rx_def
  host_err_unpin_tx_def ffa_map_host_buffers_def kvm_notify_vm_availability_def
  set_endp_buffers_def do_ffa_rxtx_map_def ptr_val_def unmap_host_endp_def
  unmap_guest_endp_def do_ffa_rxtx_unmap_def range_sz_def ffa_host_share_ranges_def
  ffa_host_unshare_ranges_def ffa_store_translation_def ffa_find_translation_def
  ffa_guest_share_ranges_def do_ffa_mem_frag_tx_def is_page_count_valid_def
  mem_xfer_out_def mem_xfer_forward_def mem_xfer_guest_def mem_xfer_locked_def
  do_ffa_mem_xfer_def find_transfer_by_handle_locked_def reclaim_unlink_def
  memcpy_desc_def load_u32_def load_u64_def reg_addr_range_cnt_def reg_constituents_def
  reclaim_unshare_def reclaim_retrieve_def do_ffa_mem_reclaim_def ffa_call_supported_def
  do_ffa_features_def hyp_ffa_post_init_def version_post_init_def do_ffa_version_def
  part_get_copy_def do_ffa_part_get_def host_ffa_done_def kvm_host_ffa_handler_def
  VM_FFA_HANDLE_FROM_VCPU_def guest_ffa_unhandled_def guest_ffa_done_def
  guest_ffa_switch_def kvm_guest_ffa_handler_def reclaim_guest_buffer_tx_def
  reclaim_guest_buffer_rx_def kvm_reclaim_ffa_guest_pages_def

subsection \<open>The concrete states are states the code reaches\<close>

lemma negotiated_state_eq: "negotiated_state = ready_state"
  by (simp add: negotiated_state_def ready_state_def init_state_def example_defs
        hyp_ffa_init_def do_ffa_version_def arm_smccc_1_1_smc_def ffa_func_ids ffa_ret_codes
        ffa_sizes FFA_MAJOR_VERSION_def FFA_MINOR_VERSION_def ARM_SMCCC_VERSION_1_1_def
        FFA_VERSION_1_1_def version_post_init_def hyp_ffa_post_init_def HOST_FFA_ID_def
        FFA_FEAT_RXTX_MIN_SZ_4K_def cong: if_cong)

lemma guest_mapped_state_eq:
  "snd (snd (do_ffa_rxtx_map (spmd_by_func answer_accept empty_region) zero_res guest_map_ctxt 1
               guest_state)) = guest_mapped_state"
  by (simp add: guest_mapped_state_def guest_state_def guest_map_ctxt_def ready_state_def
        example_defs model_defs const_defs smc_defs fun_eq_iff)

lemma host_mapped_state_eq:
  "snd (snd (do_ffa_rxtx_map (spmd_by_func answer_accept empty_region) zero_res host_map_ctxt
               HOST_FFA_ID ready_state)) = host_mapped_state"
  by (simp add: host_mapped_state_def host_map_ctxt_def ready_state_def
        example_defs model_defs const_defs smc_defs fun_eq_iff)

lemma lent_state_eq:
  "do_ffa_mem_xfer
     (spmd_by_func (answer_with [(FFA_FN64_MEM_LEND, \<lparr>a0 = FFA_SUCCESS, a1 = 0, a2 = 7, a3 = 0\<rparr>)])
        empty_region)
     lend_region FFA_FN64_MEM_LEND zero_res (ctxt_of [FFA_FN64_MEM_LEND, 96, 96, 0, 0]) 1
     guest_mapped_state
   = Some (0, \<lparr>a0 = FFA_SUCCESS, a1 = 0, a2 = 7, a3 = 0\<rparr>, lent_state)"
  by (simp add: lent_state_def lend_region_def guest_mapped_state_def guest_state_def
        ready_state_def example_defs model_defs const_defs smc_defs
        ffa_guest_share_pages.simps fun_eq_iff)

lemma fragment_state_eq:
  "do_ffa_mem_xfer (spmd_by_func (answer_with [(FFA_FN64_MEM_LEND, frag_rx_7)]) empty_region)
     first_fragment FFA_FN64_MEM_LEND zero_res (ctxt_of [FFA_FN64_MEM_LEND, 112, 96, 0, 0])
     HOST_FFA_ID host_mapped_state
   = Some (0, frag_rx_7, fragment_state)"
  by (simp add: fragment_state_def first_fragment_def frag_rx_7_def host_mapped_state_def
        ready_state_def example_defs model_defs const_defs smc_defs fun_eq_iff)

subsection \<open>Sharing host ranges is all or nothing\<close>

lemma range_pfns_Suc: "range_pfns pfn (Suc n) = insert pfn (range_pfns (pfn + 1) n)"
proof -
  have "{..<Suc n} = insert 0 (Suc ` {..<n})"
    by (auto simp: lessThan_Suc_eq_insert_0)
  then show ?thesis
    by (simp add: range_pfns_def image_image ac_simps)
qed

lemma pages_in_state_iff:
  "pages_in_state m st pfn n \<longleftrightarrow> (\<forall>p \<in> range_pfns pfn n. m p = st)"
  by (induction n arbitrary: pfn) (simp_all add: range_pfns_Suc, simp add: range_pfns_def)

lemma set_pages_eq:
  "set_pages m st pfn n = (\<lambda>p. if p \<in> range_pfns pfn n then st else m p)"
proof (induction n arbitrary: pfn m)
  case 0
  then show ?case by (simp add: range_pfns_def)
next
  case (Suc n)
  show ?case by (auto simp: Suc range_pfns_Suc fun_eq_iff)
qed

lemma unat_ucast_u32_u64: "unat (ucast (x :: u32) :: u64) = unat x"
proof -
  have "unat x < 2 ^ 32" using unsigned_less [of x] by simp
  then have "unat x < 2 ^ 64" by simp
  then show ?thesis by (simp add: unsigned_ucast_eq take_bit_nat_eq_self)
qed

lemma unat_range_sz: "unat (range_sz r) = unat (pg_cnt r) * 4096"
proof -
  have "unat (pg_cnt r) < 2 ^ 32" using unsigned_less [of "pg_cnt r"] by simp
  then have "unat (pg_cnt r) * 4096 < 2 ^ 64" by simp
  then show ?thesis
    by (simp add: range_sz_def ffa_sizes unat_word_ariths unat_ucast_u32_u64)
qed

lemma range_sz_aligned: "PAGE_ALIGNED (range_sz r)"
  by (simp add: PAGE_ALIGNED_def unat_range_sz ffa_sizes)

lemma range_sz_pages: "unat (range_sz r) div PAGE_SIZE = unat (pg_cnt r)"
  by (simp add: unat_range_sz ffa_sizes)

lemma host_share_ffa_eq:
  "pkvm_host_share_ffa (hyp_phys_to_pfn (address r)) (unat (pg_cnt r)) s =
     (if \<forall>p \<in> pfns_of r. host_pages s p = PKVM_PAGE_OWNED
      then (0, s\<lparr>host_pages := (\<lambda>p. if p \<in> pfns_of r then PKVM_PAGE_SHARED_FFA
                                       else host_pages s p)\<rparr>)
      else (- EPERM, s))"
  by (simp add: pkvm_host_share_ffa_def pages_in_state_iff set_pages_eq pfns_of_def)

lemma host_unshare_ffa_eq:
  "pkvm_host_unshare_ffa (hyp_phys_to_pfn (address r)) (unat (pg_cnt r)) s =
     (if \<forall>p \<in> pfns_of r. host_pages s p = PKVM_PAGE_SHARED_FFA
      then (0, s\<lparr>host_pages := (\<lambda>p. if p \<in> pfns_of r then PKVM_PAGE_OWNED
                                       else host_pages s p)\<rparr>)
      else (- EPERM, s))"
  by (simp add: pkvm_host_unshare_ffa_def pages_in_state_iff set_pages_eq pfns_of_def)

lemma EPERM_nonzero: "EPERM \<noteq> 0"
  by (simp add: EPERM_def)

text \<open>
  What \<open>__ffa_host_share_ranges\<close> has done when it stops after \<open>i\<close> ranges: these
  ranges were owned by the host and disjoint, and they are shared now; nothing else
  has changed.
\<close>

lemma share_inner_char:
  "ffa_host_share_ranges_inner rs s = (i, s') \<Longrightarrow>
     i \<le> length rs \<and>
     s' = s\<lparr>host_pages := (\<lambda>p. if p \<in> ranges_pfns (take i rs) then PKVM_PAGE_SHARED_FFA
                                else host_pages s p)\<rparr> \<and>
     (\<forall>p \<in> ranges_pfns (take i rs). host_pages s p = PKVM_PAGE_OWNED) \<and>
     disjoint_ranges (take i rs)"
proof (induction rs arbitrary: s i s')
  case Nil
  then show ?case by simp
next
  case (Cons r rs)
  show ?case
  proof (cases "\<forall>p \<in> pfns_of r. host_pages s p = PKVM_PAGE_OWNED")
    case False
    with Cons.prems show ?thesis
      by (auto simp: range_sz_aligned range_sz_pages host_share_ffa_eq EPERM_nonzero)
  next
    case True
    define s1 where
      "s1 = s\<lparr>host_pages := (\<lambda>p. if p \<in> pfns_of r then PKVM_PAGE_SHARED_FFA
                                  else host_pages s p)\<rparr>"
    obtain j s2 where rec: "ffa_host_share_ranges_inner rs s1 = (j, s2)"
      by (cases "ffa_host_share_ranges_inner rs s1")
    from Cons.prems True rec have i: "i = Suc j" and s': "s' = s2"
      by (simp_all add: range_sz_aligned range_sz_pages host_share_ffa_eq s1_def)
    note ih = Cons.IH [OF rec]
    have disj: "pfns_of r \<inter> ranges_pfns (take j rs) = {}"
      using ih by (auto simp: s1_def)
    have owned: "\<forall>p \<in> ranges_pfns (take j rs). host_pages s p = PKVM_PAGE_OWNED"
      using ih disj by (auto simp: s1_def split: if_splits)
    have st: "s2 = s\<lparr>host_pages := (\<lambda>p. if p \<in> pfns_of r \<union> ranges_pfns (take j rs)
                                         then PKVM_PAGE_SHARED_FFA else host_pages s p)\<rparr>"
      using ih by (auto simp: s1_def fun_eq_iff)
    show ?thesis
      using ih True disj owned st by (auto simp: i s')
  qed
qed

lemma unshare_inner_char:
  "disjoint_ranges rs \<Longrightarrow> \<forall>p \<in> ranges_pfns rs. host_pages s p = PKVM_PAGE_SHARED_FFA \<Longrightarrow>
   ffa_host_unshare_ranges_inner rs s =
     (length rs, s\<lparr>host_pages := (\<lambda>p. if p \<in> ranges_pfns rs then PKVM_PAGE_OWNED
                                        else host_pages s p)\<rparr>)"
proof (induction rs arbitrary: s)
  case Nil
  then show ?case by simp
next
  case (Cons r rs)
  define s1 where
    "s1 = s\<lparr>host_pages := (\<lambda>p. if p \<in> pfns_of r then PKVM_PAGE_OWNED else host_pages s p)\<rparr>"
  have d: "disjoint_ranges rs" and dr: "pfns_of r \<inter> ranges_pfns rs = {}"
    using Cons.prems(1) by simp_all
  have sh: "\<forall>p \<in> ranges_pfns rs. host_pages s1 p = PKVM_PAGE_SHARED_FFA"
    using Cons.prems(2) dr by (auto simp: s1_def)
  have step: "pkvm_host_unshare_ffa (hyp_phys_to_pfn (address r)) (unat (pg_cnt r)) s = (0, s1)"
    using Cons.prems(2) by (simp add: host_unshare_ffa_eq s1_def)
  have "s1\<lparr>host_pages := (\<lambda>p. if p \<in> ranges_pfns rs then PKVM_PAGE_OWNED else host_pages s1 p)\<rparr>
          = s\<lparr>host_pages := (\<lambda>p. if p \<in> ranges_pfns (r # rs) then PKVM_PAGE_OWNED
                                   else host_pages s p)\<rparr>"
    by (auto simp: s1_def fun_eq_iff)
  then show ?case
    using Cons.IH [OF d sh] step by (simp add: range_sz_aligned range_sz_pages)
qed

text \<open>
  \<open>ffa_host_share_ranges\<close> that fails has undone what it had shared: it returns DENIED
  and the state it was given, without a warning.
\<close>

lemma host_share_ranges_fails:
  assumes "ffa_host_share_ranges rs s = (ret, s')" and "ret \<noteq> 0"
  shows "ret = FFA_RET_DENIED \<and> s' = s"
proof -
  obtain i s1 where inner: "ffa_host_share_ranges_inner rs s = (i, s1)"
    by (cases "ffa_host_share_ranges_inner rs s")
  note c = share_inner_char [OF inner]
  have ne: "i \<noteq> length rs"
  proof
    assume "i = length rs"
    with assms(1) inner have "ret = 0"
      by (simp add: ffa_host_share_ranges_def)
    with assms(2) show False by simp
  qed
  have d: "disjoint_ranges (take i rs)" using c by blast
  have s1: "s1 = s\<lparr>host_pages := (\<lambda>p. if p \<in> ranges_pfns (take i rs) then PKVM_PAGE_SHARED_FFA
                                else host_pages s p)\<rparr>" using c by blast
  have own: "\<forall>p \<in> ranges_pfns (take i rs). host_pages s p = PKVM_PAGE_OWNED" using c by blast
  have sh: "\<forall>p \<in> ranges_pfns (take i rs). host_pages s1 p = PKVM_PAGE_SHARED_FFA"
    by (simp add: s1)
  have len: "length (take i rs) = i" using c by simp
  have hp: "(\<lambda>p. if p \<in> ranges_pfns (take i rs) then PKVM_PAGE_OWNED else host_pages s1 p)
            = host_pages s"
    using own by (auto simp: fun_eq_iff s1)
  have restored: "s1\<lparr>host_pages := host_pages s\<rparr> = s"
    by (simp add: s1)
  have "ffa_host_unshare_ranges_inner (take i rs) s1 = (i, s)"
    unfolding unshare_inner_char [OF d sh] hp restored len ..
  with inner ne have "ffa_host_share_ranges rs s = (FFA_RET_DENIED, s)"
    by (simp add: ffa_host_share_ranges_def WARN_ON_def)
  with assms(1) show ?thesis by simp
qed

lemma host_share_ranges_succeeds:
  assumes "ffa_host_share_ranges rs s = (0, s')"
  shows "s' = s\<lparr>host_pages := (\<lambda>p. if p \<in> ranges_pfns rs then PKVM_PAGE_SHARED_FFA
                                    else host_pages s p)\<rparr> \<and>
         (\<forall>p \<in> ranges_pfns rs. host_pages s p = PKVM_PAGE_OWNED) \<and> disjoint_ranges rs"
proof -
  obtain i s1 where inner: "ffa_host_share_ranges_inner rs s = (i, s1)"
    by (cases "ffa_host_share_ranges_inner rs s")
  note c = share_inner_char [OF inner]
  have i: "i = length rs"
  proof (rule ccontr)
    assume "i \<noteq> length rs"
    with inner have "fst (ffa_host_share_ranges rs s) = FFA_RET_DENIED"
      by (simp add: ffa_host_share_ranges_def split: prod.splits)
    with assms show False by (simp add: ffa_ret_codes)
  qed
  with inner assms have "s' = s1"
    by (simp add: ffa_host_share_ranges_def)
  with c i show ?thesis by simp
qed

text \<open>
  Unsharing what a successful share has shared gives the pages their states back,
  whatever else has changed in between.
\<close>

lemma host_unshare_after_share:
  assumes "ffa_host_share_ranges rs s = (0, s1)"
      and "host_pages s2 = host_pages s1"
  shows "ffa_host_unshare_ranges rs s2 = (0, s2\<lparr>host_pages := host_pages s\<rparr>)"
proof -
  note c = host_share_ranges_succeeds [OF assms(1)]
  have d: "disjoint_ranges rs" using c by blast
  have own: "\<forall>p \<in> ranges_pfns rs. host_pages s p = PKVM_PAGE_OWNED" using c by blast
  have hp1: "host_pages s1 = (\<lambda>p. if p \<in> ranges_pfns rs then PKVM_PAGE_SHARED_FFA
                                    else host_pages s p)"
    using c by simp
  have sh: "\<forall>p \<in> ranges_pfns rs. host_pages s2 p = PKVM_PAGE_SHARED_FFA"
    by (simp add: assms(2) hp1)
  have hp: "(\<lambda>p. if p \<in> ranges_pfns rs then PKVM_PAGE_OWNED else host_pages s2 p) = host_pages s"
    using own by (auto simp: fun_eq_iff assms(2) hp1)
  have "ffa_host_unshare_ranges_inner rs s2 = (length rs, s2\<lparr>host_pages := host_pages s\<rparr>)"
    unfolding unshare_inner_char [OF d sh] hp ..
  then show ?thesis by (simp add: ffa_host_unshare_ranges_def)
qed

subsection \<open>Share and lend\<close>

text \<open>
  On the host path a share or lend either leaves every page state as it was, or it has
  shared exactly the ranges of the descriptor and hands the caller the secure side's
  FFA_SUCCESS or FFA_MEM_FRAG_RX.
\<close>

lemma host_mem_xfer_all_or_nothing:
  assumes "do_ffa_mem_xfer spmd txbuf func_id res ctxt 0 s = Some (ret, res', s')"
  shows "host_pages s' = host_pages s \<or>
         (ret = 0 \<and> (a0 res' = FFA_SUCCESS \<or> a0 res' = FFA_MEM_FRAG_RX) \<and>
          host_pages s' =
            (\<lambda>p. if p \<in> ranges_pfns
                          (map (constituents txbuf)
                             [0 ..< (unat (ucast (ctxt 2) :: u32)
                                       - (unat (composite_off txbuf) + sizeof_ffa_composite_mem_region))
                                      div sizeof_ffa_mem_region_addr_range])
                  then PKVM_PAGE_SHARED_FFA else host_pages s p))"
proof -
  define rs where
    "rs = map (constituents txbuf)
            [0 ..< (unat (ucast (ctxt 2) :: u32)
                      - (unat (composite_off txbuf) + sizeof_ffa_composite_mem_region))
                     div sizeof_ffa_mem_region_addr_range]"
  obtain r s1 where sh: "ffa_host_share_ranges rs s = (r, s1)"
    by (cases "ffa_host_share_ranges rs s")
  have out: "snd (snd (mem_xfer_out b (x, y, t))) = (if x \<noteq> 0 \<and> b then hyp_free t else t)"
    for b x y t
    by (simp add: mem_xfer_out_def)
  show ?thesis
  proof (cases "r = 0")
    case False
    from host_share_ranges_fails [OF sh False] have s1: "s1 = s" by simp
    from assms sh False s1 show ?thesis
      unfolding rs_def [symmetric]
      by (auto simp: do_ffa_mem_xfer_def mem_xfer_locked_def mem_xfer_out_def rs_def [symmetric]
            split: if_splits)
  next
    case True
    have sh0: "ffa_host_share_ranges rs s = (0, s1)" using sh True by simp
    note c = host_share_ranges_succeeds [OF sh0]
    have un: "ffa_host_unshare_ranges rs (s1\<lparr>smc_log := L\<rparr>)
                = (0, s1\<lparr>smc_log := L, host_pages := host_pages s\<rparr>)" for L
      using host_unshare_after_share [OF sh0, of "s1\<lparr>smc_log := L\<rparr>"] by simp
    have hp: "host_pages s1 = (\<lambda>p. if p \<in> ranges_pfns rs then PKVM_PAGE_SHARED_FFA
                                    else host_pages s p)"
      using c by simp
    from assms sh0 show ?thesis
      unfolding rs_def [symmetric]
      by (auto simp: do_ffa_mem_xfer_def mem_xfer_locked_def mem_xfer_out_def rs_def [symmetric]
            mem_xfer_forward_def ffa_mem_xfer_def arm_smccc_1_1_smc_def un hp WARN_ON_def
            split: if_splits)
  qed
qed

text \<open>
  C1. The claim says that a share or lend that returns an error status leaves the set
  of pages shared with the secure side as it was. The guest path does not: the guest
  lends two pages by one range, in a descriptor whose \<open>addr_range_cnt\<close> field says 2,
  and the secure side refuses the call. Both pages are owned by the guest before the
  call. The call hands the guest FFA_ERROR, and the second page is still shared with the
  secure side after it: the rollback walks \<open>nr_ranges = 1\<close> painted entries, because
  \<open>nr_ranges\<close> grows only when there are more painted entries than \<open>addr_range_cnt\<close>
  says.
\<close>

theorem guest_share_partial_rollback:
  "(case do_ffa_mem_xfer
           (spmd_by_func (answer_with [(FFA_FN64_MEM_SHARE, ffa_denied)]) empty_region)
           miscounted_region FFA_FN64_MEM_SHARE zero_res
           (ctxt_of [FFA_FN64_MEM_SHARE, 96, 96, 0, 0]) 1 guest_mapped_state of
      None \<Rightarrow> False
    | Some (ret, res, s') \<Rightarrow>
        ret = 0 \<and> res = ffa_denied \<and>
        guest_pages guest_mapped_state 1 0x10 = Some (0x50010000, PKVM_PAGE_OWNED) \<and>
        guest_pages guest_mapped_state 1 0x11 = Some (0x50011000, PKVM_PAGE_OWNED) \<and>
        guest_pages s' 1 0x10 = Some (0x50010000, PKVM_PAGE_OWNED) \<and>
        guest_pages s' 1 0x11 = Some (0x50011000, PKVM_PAGE_SHARED_FFA) \<and>
        xfer_list (endp_buffers s' 1) = [])"
  by (simp add: miscounted_region_def guest_mapped_state_def guest_state_def ready_state_def
        example_defs model_defs const_defs smc_defs ffa_guest_share_pages.simps)

subsection \<open>Reclaim\<close>

text \<open>
  The loads read back what \<open>region_bytes\<close> lays out. A copy into the descriptor buffer
  changes the bytes it covers and no other: a constituent that lies behind the copied
  bytes is read as the buffer held it before, one that lies within them as the secure
  side delivered it.
\<close>

lemma load_u32_bytes:
  assumes "\<And>i. i < 4 \<Longrightarrow> buf (p + i) = byte_of w i"
  shows "load_u32 buf p = w"
proof -
  have b: "buf p = byte_of w 0" "buf (p + 1) = byte_of w 1" "buf (p + 2) = byte_of w 2"
    "buf (p + 3) = byte_of w 3"
    using assms [of 0] assms [of 1] assms [of 2] assms [of 3] by simp_all
  show ?thesis
    unfolding load_u32_def b byte_of_def
  proof (rule bit_word_eqI)
    fix n assume "n < LENGTH(32)"
    then consider "n < 8" | "8 \<le> n" "n < 16" | "16 \<le> n" "n < 24" | "24 \<le> n" "n < 32"
      by fastforce
    then show "bit (ucast (ucast (drop_bit (8 * 0) w) :: u8) OR
                   push_bit 8 (ucast (ucast (drop_bit (8 * 1) w) :: u8)) OR
                   push_bit 16 (ucast (ucast (drop_bit (8 * 2) w) :: u8)) OR
                   push_bit 24 (ucast (ucast (drop_bit (8 * 3) w) :: u8)) :: u32) n = bit w n"
      by cases (auto simp add: bit_simps)
  qed
qed

lemma load_u64_bytes:
  assumes "\<And>i. i < 8 \<Longrightarrow> buf (p + i) = byte_of w i"
  shows "load_u64 buf p = w"
proof -
  have lo: "load_u32 buf p = ucast w"
    by (rule load_u32_bytes)
       (use assms in \<open>auto simp add: byte_of_def bit_simps intro!: bit_word_eqI\<close>)
  have hi: "load_u32 buf (p + 4) = ucast (drop_bit 32 w)"
  proof (rule load_u32_bytes)
    fix i :: nat
    assume i: "i < 4"
    then have "buf (p + (4 + i)) = byte_of w (4 + i)"
      using assms [of "4 + i"] by simp
    moreover have "byte_of w (4 + i) = byte_of (ucast (drop_bit 32 w) :: u32) i"
      using i unfolding byte_of_def
      by (intro bit_word_eqI) (auto simp add: bit_simps ac_simps)
    ultimately show "buf (p + 4 + i) = byte_of (ucast (drop_bit 32 w) :: u32) i"
      by (simp add: add.assoc)
  qed
  show ?thesis
    unfolding load_u64_def lo hi
    by (rule bit_word_eqI) (auto simp add: bit_simps)
qed

lemma slot_arith:
  fixes b i :: nat
  assumes "b < 8"
  shows "(i * 16 + b) mod 16 = b" "(i * 16 + b) div 16 = i"
        "(8 + (i * 16 + b)) mod 16 = 8 + b" "(8 + (i * 16 + b)) div 16 = i"
proof -
  have "(8 + (i * 16 + b)) = i * 16 + (8 + b)"
    by simp
  moreover have "8 + b < 16"
    using assms by simp
  ultimately show "(8 + (i * 16 + b)) mod 16 = 8 + b" "(8 + (i * 16 + b)) div 16 = i"
    by (simp_all only: mod_mult_self3 div_mult_self3 mod_less div_less)
  show "(i * 16 + b) mod 16 = b" "(i * 16 + b) div 16 = i"
    using assms by simp_all
qed

lemma region_bytes_addr_range_cnt:
  "load_u32 (region_bytes r) (unat (composite_off r) + 4) = addr_range_cnt r"
  by (rule load_u32_bytes) (simp add: region_bytes_def)

lemma region_bytes_constituents:
  "load_u64 (region_bytes r)
     (unat (composite_off r) + sizeof_ffa_composite_mem_region
        + i * sizeof_ffa_mem_region_addr_range) = address (constituents r i)"
  "load_u32 (region_bytes r)
     (unat (composite_off r) + sizeof_ffa_composite_mem_region
        + i * sizeof_ffa_mem_region_addr_range + 8) = pg_cnt (constituents r i)"
  by (rule load_u64_bytes, simp add: region_bytes_def ffa_sizes slot_arith)
     (rule load_u32_bytes, simp add: region_bytes_def ffa_sizes slot_arith)

lemma memcpy_desc_outside:
  assumes "memcpy_desc off src n s = Some s'" and "k < off \<or> off + n \<le> k"
  shows "ffa_desc_buf s' k = ffa_desc_buf s k"
  using assms by (auto simp add: memcpy_desc_def split: if_splits)

lemma memcpy_desc_inside:
  assumes "memcpy_desc off src n s = Some s'" and "off \<le> k" and "k < off + n"
  shows "ffa_desc_buf s' k = src (k - off)"
  using assms by (auto simp add: memcpy_desc_def split: if_splits)

lemma reg_constituents_not_copied:
  assumes "memcpy_desc 0 src n s = Some s'"
      and "n \<le> unat offset + sizeof_ffa_composite_mem_region
                 + i * sizeof_ffa_mem_region_addr_range"
  shows "reg_constituents offset s' i = reg_constituents offset s i"
  using assms
  by (simp add: reg_constituents_def load_u64_def load_u32_def
        memcpy_desc_outside [OF assms(1)])

lemma reg_constituents_copied:
  assumes "memcpy_desc 0 (region_bytes r) n s = Some s'"
      and "unat (composite_off r) + sizeof_ffa_composite_mem_region
             + (i + 1) * sizeof_ffa_mem_region_addr_range \<le> n"
  shows "reg_constituents (composite_off r) s' i = constituents r i"
proof -
  have "load_u64 (ffa_desc_buf s') (unat (composite_off r) + sizeof_ffa_composite_mem_region
           + i * sizeof_ffa_mem_region_addr_range) = address (constituents r i)"
    by (rule load_u64_bytes)
       (use assms(2) in \<open>simp add: memcpy_desc_inside [OF assms(1)] region_bytes_def ffa_sizes slot_arith\<close>)
  moreover have "load_u32 (ffa_desc_buf s') (unat (composite_off r)
           + sizeof_ffa_composite_mem_region + i * sizeof_ffa_mem_region_addr_range + 8)
           = pg_cnt (constituents r i)"
    by (rule load_u32_bytes)
       (use assms(2) in \<open>simp add: memcpy_desc_inside [OF assms(1)] region_bytes_def ffa_sizes slot_arith\<close>)
  ultimately show ?thesis
    by (simp add: reg_constituents_def)
qed

text \<open>
  A guest that names a handle which is not in its own transfer list is refused with
  INVALID_PARAMETERS, and nothing changes.
\<close>

lemma guest_reclaim_foreign_handle:
  assumes "vm_handle \<noteq> 0"
      and "find_transfer_by_handle_locked (PACK_HANDLE (ucast (ctxt 1)) (ucast (ctxt 2)))
             (endp_buffers s vm_handle) = None"
  shows "do_ffa_mem_reclaim spmd res ctxt vm_handle s
           = Some (ffa_to_smccc_error (scast FFA_RET_INVALID_PARAMETERS), s)"
  using assms
  by (simp add: do_ffa_mem_reclaim_def ffa_to_smccc_res_def ffa_to_smccc_res_prop_def
        ffa_ret_codes)

text \<open>
  C2. The claim says that a reclaim of the host whose handle matches a live transfer of
  a guest is rejected. The code only warns and goes on: in the state where guest 1 has
  lent a page as transfer 7, the host reclaims handle 7. The retrieve request and the
  reclaim go to the secure side, the host gets FFA_SUCCESS, and the transfer of the guest
  is gone from the guest's list, while the page of the guest is still marked as shared.
  Two warnings are raised: for the handle, and for the ranges that are not the host's.
\<close>

theorem host_reclaims_guest_transfer:
  "xfer_list (endp_buffers lent_state 1)
     = [\<lparr>ffa_handle = 7, translation_list = [\<lparr>ipa = 0x10000, pa = 0x50010000\<rparr>]\<rparr>] \<and>
   (case do_ffa_mem_reclaim (spmd_by_func answer_accept lent_region) zero_res
           (ctxt_of [FFA_MEM_RECLAIM, 7, 0, 0]) HOST_FFA_ID lent_state of
      None \<Rightarrow> False
    | Some (res, s') \<Rightarrow>
        a0 res = FFA_SUCCESS \<and>
        xfer_list (endp_buffers s' 1) = [] \<and>
        guest_pages s' 1 0x10 = Some (0x50010000, PKVM_PAGE_SHARED_FFA) \<and>
        warnings s' = warnings lent_state + 2 \<and>
        smc_log s' = smc_log lent_state @
          [[FFA_FN64_MEM_RETRIEVE_REQ, 48, 48, 0, 0, 0, 0, 0],
           [FFA_RX_RELEASE, 0, 0, 0, 0, 0, 0, 0],
           [FFA_MEM_RECLAIM, 7, 0, 0, 0, 0, 0, 0]])"
  by (simp add: lent_state_def lent_region_def guest_mapped_state_def guest_state_def
        ready_state_def example_defs model_defs const_defs smc_defs
        host_find_guest_transfer.simps reclaim_frag_loop.simps)

text \<open>
  When the response to the same retrieve request announces 80 bytes only, the one
  constituent lies behind the copied bytes: the count 1 comes from the response, the
  range is what the descriptor buffer held, here the zeros of a buffer never written. The
  empty range is unshared without error, so the only warning is the one for the handle.
\<close>

lemma host_reclaim_short_response:
  "ffa_desc_buf lent_state = (\<lambda>k. 0) \<and>
   (case do_ffa_mem_reclaim
           (spmd_by_func
              (answer_with [(FFA_FN64_MEM_RETRIEVE_REQ,
                             \<lparr>a0 = FFA_MEM_RETRIEVE_RESP, a1 = 80, a2 = 80, a3 = 0\<rparr>)])
              lent_region)
           zero_res (ctxt_of [FFA_MEM_RECLAIM, 7, 0, 0]) HOST_FFA_ID lent_state of
      None \<Rightarrow> False
    | Some (res, s') \<Rightarrow>
        a0 res = FFA_SUCCESS \<and>
        reg_addr_range_cnt 64 s' = 1 \<and>
        reg_constituents 64 s' 0 = \<lparr>address = 0, pg_cnt = 0\<rparr> \<and>
        xfer_list (endp_buffers s' 1) = [] \<and>
        warnings s' = warnings lent_state + 1)"
  by (simp add: lent_state_def lent_region_def guest_mapped_state_def guest_state_def
        ready_state_def example_defs model_defs const_defs smc_defs
        host_find_guest_transfer.simps reclaim_frag_loop.simps)

subsection \<open>Calls before the version is negotiated\<close>

text \<open>
  The host handler stops every FF-A call but FFA_VERSION before the negotiation: it
  reports the call as handled and leaves the state and the registers of the caller as
  they were (the error it has prepared is not written back).
\<close>

lemma host_call_before_negotiation:
  assumes "\<not> has_version_negotiated s" and "is_ffa_call (ucast func_id)"
      and "ucast func_id \<noteq> FFA_VERSION"
  shows "kvm_host_ffa_handler spmd txbuf res ctxt func_id s = Some (True, ctxt, s)"
  using assms by (simp add: kvm_host_ffa_handler_def)

text \<open>
  C3. The claim says that before the negotiation every FF-A call but the negotiation,
  of the host or of a guest, is refused with an error. The guest handler has no such
  check: in the state \<open>hyp_ffa_init\<close> leaves, where nothing is negotiated, FFA_ID_GET of
  guest 1 is answered FFA_SUCCESS with the identifier 1, and its FFA_RXTX_MAP is carried
  out, with a map call to the secure side.
\<close>

theorem guest_call_before_negotiation:
  "\<not> has_version_negotiated init_state \<and>
   (case kvm_guest_ffa_handler (spmd_by_func answer_accept empty_region) empty_region zero_res
           (guest_vcpu [FFA_ID_GET]) init_state of
      None \<Rightarrow> False
    | Some (handled, ctxt', s') \<Rightarrow> handled \<and> ctxt' 0 = FFA_SUCCESS \<and> ctxt' 2 = 1) \<and>
   (case kvm_guest_ffa_handler (spmd_by_func answer_accept empty_region) empty_region zero_res
           (guest_vcpu [FFA_FN64_RXTX_MAP, 0x1000, 0x2000, 1])
           (guest_state\<lparr>has_version_negotiated := False\<rparr>) of
      None \<Rightarrow> False
    | Some (handled, ctxt', s') \<Rightarrow>
        handled \<and> ctxt' 0 = FFA_SUCCESS \<and> \<not> has_version_negotiated s' \<and>
        tx (endp_buffers s' 1) = Some 0x50001000 \<and>
        last (smc_log s') = [FFA_FN64_RXTX_MAP, 0x80000000, 0x80001000, 1, 0, 0, 0, 0])"
  by (simp add: init_state_def guest_vcpu_def guest_state_def ready_state_def hyp_ffa_init_def
        ARM_SMCCC_VERSION_1_1_def example_defs model_defs const_defs smc_defs)

subsection \<open>Fragment continuation\<close>

text \<open>
  C4, as the code has it. A fragment-continuation call of the host that passes the size
  checks with the message box mapped has two ways to fail. When the ranges of the
  fragment cannot all be shared locally, one reclaim of the whole transfer goes to the
  secure side and the call returns the DENIED error, whatever the reclaim answers; a
  failed reclaim is a warning. When the secure side rejects the forwarded fragment, no
  reclaim is issued: the ranges of this fragment are unshared again and the answer of
  the secure side is returned. In both cases the state after the call is the state
  before it but for the log of calls (and the warning): every page keeps its state, so
  the pages that earlier fragments have shared stay shared.
\<close>

theorem do_ffa_mem_frag_tx_outcomes:
  assumes "unat (ucast (ctxt 3) :: u32) \<le> KVM_FFA_MBOX_NR_PAGES * PAGE_SIZE"
      and "unat (ucast (ctxt 3) :: u32) mod sizeof_ffa_mem_region_addr_range = 0"
      and "tx (endp_buffers s vm_handle) \<noteq> None"
  shows
    "(let ranges = map (frag_ranges txbuf)
                     [0 ..< unat (ucast (ctxt 3) :: u32) div sizeof_ffa_mem_region_addr_range];
          reclaim_call = [FFA_MEM_RECLAIM, ucast (ucast (ctxt 1) :: u32),
                          ucast (ucast (ctxt 2) :: u32), 0, 0, 0, 0, 0];
          frag_call = [FFA_MEM_FRAG_TX, ucast (ucast (ctxt 1) :: u32),
                       ucast (ucast (ctxt 2) :: u32), ucast (ucast (ctxt 3) :: u32),
                       ucast (ucast (ctxt 4) :: u32), 0, 0, 0];
          answer = smc_res spmd (smc_log s @ [frag_call])
      in (fst (ffa_host_share_ranges ranges s) \<noteq> 0 \<longrightarrow>
            do_ffa_mem_frag_tx spmd txbuf res ctxt vm_handle s =
              (ffa_to_smccc_error (scast FFA_RET_DENIED),
               WARN_ON (a0 (smc_res spmd (smc_log s @ [reclaim_call])) \<noteq> FFA_SUCCESS)
                 (s\<lparr>smc_log := smc_log s @ [reclaim_call]\<rparr>))) \<and>
         (fst (ffa_host_share_ranges ranges s) = 0 \<longrightarrow>
            a0 answer \<noteq> FFA_SUCCESS \<longrightarrow> a0 answer \<noteq> FFA_MEM_FRAG_RX \<longrightarrow>
            do_ffa_mem_frag_tx spmd txbuf res ctxt vm_handle s =
              (answer, s\<lparr>smc_log := smc_log s @ [frag_call]\<rparr>)))"
proof -
  define ranges where
    "ranges = map (frag_ranges txbuf)
                [0 ..< unat (ucast (ctxt 3) :: u32) div sizeof_ffa_mem_region_addr_range]"
  obtain ret s1 where sh: "ffa_host_share_ranges ranges s = (ret, s1)"
    by (cases "ffa_host_share_ranges ranges s")
  have pre: "\<not> KVM_FFA_MBOX_NR_PAGES * PAGE_SIZE < unat (ucast (ctxt 3) :: u32)"
    using assms(1) by simp
  from assms(3) obtain y where mapped: "tx (endp_buffers s vm_handle) = Some y"
    by auto
  show ?thesis
  proof (cases "ret = 0")
    case False
    from host_share_ranges_fails [OF sh False] have r: "ret = FFA_RET_DENIED" and s1: "s1 = s"
      by simp_all
    show ?thesis
      using False sh pre assms(2) mapped unfolding Let_def ranges_def [symmetric]
      by (simp add: do_ffa_mem_frag_tx_def ranges_def [symmetric] r s1 ffa_mem_reclaim_def
            arm_smccc_1_1_smc_def ffa_to_smccc_res_def ffa_to_smccc_res_prop_def ffa_ret_codes)
  next
    case True
    have sh0: "ffa_host_share_ranges ranges s = (0, s1)" using sh True by simp
    have s1: "s1 = s\<lparr>host_pages := host_pages s1\<rparr>"
      using host_share_ranges_succeeds [OF sh0] by simp
    have un: "ffa_host_unshare_ranges ranges (s1\<lparr>smc_log := L\<rparr>) = (0, s\<lparr>smc_log := L\<rparr>)" for L
    proof -
      have "s1\<lparr>smc_log := L, host_pages := host_pages s\<rparr> = s\<lparr>smc_log := L\<rparr>"
        by (subst s1) simp
      moreover have "ffa_host_unshare_ranges ranges (s1\<lparr>smc_log := L\<rparr>)
                       = (0, s1\<lparr>smc_log := L, host_pages := host_pages s\<rparr>)"
        by (rule host_unshare_after_share [OF sh0]) simp
      ultimately show ?thesis by (simp only:)
    qed
    have log: "smc_log s1 = smc_log s"
      by (subst s1) simp
    show ?thesis
      using True sh0 pre assms(2) mapped unfolding Let_def ranges_def [symmetric]
      by (simp add: do_ffa_mem_frag_tx_def ranges_def [symmetric] ffa_mem_frag_tx_def
            arm_smccc_1_1_smc_def un log WARN_ON_def)
  qed
qed

text \<open>
  The two cases at concrete inputs, in the state after the first fragment of transfer 7.
  A second fragment that names the page of the first fragment again cannot be shared:
  the reclaim is issued, the secure side refuses it too, and the call returns DENIED
  with a warning. A second fragment that names a fresh page is forwarded and refused by
  the secure side: the call returns that answer.
\<close>

theorem do_ffa_mem_frag_tx_outcomes_witness:
  "unat (ucast (frag_tx_ctxt 3) :: u32) \<le> KVM_FFA_MBOX_NR_PAGES * PAGE_SIZE \<and>
   unat (ucast (frag_tx_ctxt 3) :: u32) mod sizeof_ffa_mem_region_addr_range = 0 \<and>
   tx (endp_buffers fragment_state HOST_FFA_ID) \<noteq> None \<and>
   fst (ffa_host_share_ranges [\<lparr>address = 0xA0001000, pg_cnt = 1\<rparr>] fragment_state) \<noteq> 0 \<and>
   do_ffa_mem_frag_tx (spmd_by_func (answer_with [(FFA_MEM_RECLAIM, ffa_denied)]) empty_region)
       repeated_fragment zero_res frag_tx_ctxt HOST_FFA_ID fragment_state
     = (ffa_to_smccc_error (scast FFA_RET_DENIED),
        fragment_state\<lparr>smc_log := smc_log fragment_state @ [[FFA_MEM_RECLAIM, 7, 0, 0, 0, 0, 0, 0]],
                       warnings := 1\<rparr>) \<and>
   fst (ffa_host_share_ranges [\<lparr>address = 0xA0000000, pg_cnt = 1\<rparr>] fragment_state) = 0 \<and>
   do_ffa_mem_frag_tx (spmd_by_func (answer_with [(FFA_MEM_FRAG_TX, ffa_denied)]) empty_region)
       second_fragment zero_res frag_tx_ctxt HOST_FFA_ID fragment_state
     = (ffa_denied,
        fragment_state\<lparr>smc_log := smc_log fragment_state
                                     @ [[FFA_MEM_FRAG_TX, 7, 0, 16, 0, 0, 0, 0]]\<rparr>)"
  using do_ffa_mem_frag_tx_outcomes
          [of frag_tx_ctxt fragment_state HOST_FFA_ID repeated_fragment
              "spmd_by_func (answer_with [(FFA_MEM_RECLAIM, ffa_denied)]) empty_region" zero_res]
        do_ffa_mem_frag_tx_outcomes
          [of frag_tx_ctxt fragment_state HOST_FFA_ID second_fragment
              "spmd_by_func (answer_with [(FFA_MEM_FRAG_TX, ffa_denied)]) empty_region" zero_res]
  by (simp add: Let_def frag_tx_ctxt_def fragment_state_def host_mapped_state_def ready_state_def
        repeated_fragment_def second_fragment_def example_defs const_defs
        ffa_host_share_ranges_def range_sz_def pkvm_host_share_ffa_def
        pkvm_host_unshare_ffa_def WARN_ON_def ffa_to_smccc_error_def)

text \<open>
  C4, as the claim states it, fails: the secure side rejects the forwarded second
  fragment of transfer 7, and the only call issued is the fragment itself. No reclaim
  follows; the page 0xA0001 that the first fragment shared stays shared, the page of
  this fragment is the host's again.
\<close>

theorem frag_tx_rejected_counterexample:
  "(case do_ffa_mem_frag_tx
           (spmd_by_func (answer_with [(FFA_MEM_FRAG_TX, ffa_denied)]) empty_region)
           second_fragment zero_res frag_tx_ctxt HOST_FFA_ID fragment_state of
      (res, s') \<Rightarrow>
        a0 res = FFA_ERROR \<and>
        smc_log s' = smc_log fragment_state @ [[FFA_MEM_FRAG_TX, 7, 0, 16, 0, 0, 0, 0]] \<and>
        host_pages s' 0xA0001 = PKVM_PAGE_SHARED_FFA \<and>
        host_pages s' 0xA0000 = PKVM_PAGE_OWNED)"
  by (simp add: frag_tx_ctxt_def fragment_state_def host_mapped_state_def ready_state_def
        second_fragment_def example_defs model_defs const_defs smc_defs)

subsection \<open>Mapping and unmapping the message boxes\<close>

text \<open>
  The host path of the map undoes its steps in the reverse order: when
  \<open>ffa_map_host_buffers\<close> fails on pages that were not pinned before, it returns the
  state it was given.
\<close>

lemma ffa_map_host_buffers_unwinds:
  assumes "hyp_pins s (hyp_phys_to_pfn tx_pa) = 0" and "hyp_pins s (hyp_phys_to_pfn rx_pa) = 0"
      and "ffa_map_host_buffers tx_pa rx_pa s = (ret, tv, rv, s')" and "ret \<noteq> 0"
  shows "s' = s"
proof -
  have upd: "(host_pages s)(p := PKVM_PAGE_OWNED) = host_pages s"
    if "host_pages s p = PKVM_PAGE_OWNED" for p
    using that by (simp add: fun_eq_iff)
  have pin: "(hyp_pins s)(p := 0) = hyp_pins s" if "hyp_pins s p = 0" for p
    using that by (simp add: fun_eq_iff)
  from assms show ?thesis
    by (simp add: ffa_map_host_buffers_def pkvm_host_share_hyp_def pkvm_host_unshare_hyp_def
          hyp_pin_shared_mem_def hyp_unpin_shared_mem_def host_err_unshare_tx_def
          host_err_unshare_rx_def host_err_unpin_tx_def upd pin EPERM_nonzero
          split: if_splits)
qed

text \<open>
  C5. The claim says that a map call that fails after some of its steps has undone the
  shares and pins it made. The guest path takes its error labels in the order of the
  steps, not in the reverse order, and falls through them: when the second pin is
  refused, only the first pin is undone. Guest 1 maps its message boxes at the guest
  frames 1 and 2, both owned by the guest before the call; the authority refuses to pin
  the RX page. The call returns an error and the endpoint has no message box, but both
  pages are still shared with the hypervisor.
\<close>

theorem guest_map_second_pin_fails:
  "guest_pages guest_state 1 1 = Some (0x50001000, PKVM_PAGE_OWNED) \<and>
   guest_pages guest_state 1 2 = Some (0x50002000, PKVM_PAGE_OWNED) \<and>
   (case do_ffa_rxtx_map (spmd_by_func answer_accept empty_region) zero_res guest_map_ctxt 1
           (guest_state\<lparr>pin_refused := (\<lambda>p. p = 0x50002)\<rparr>) of
      (ret, res, s') \<Rightarrow>
        ret = - EPERM \<and> a0 res = FFA_ERROR \<and>
        tx (endp_buffers s' 1) = None \<and> rx (endp_buffers s' 1) = None \<and>
        hyp_pins s' 0x50001 = 0 \<and> hyp_pins s' 0x50002 = 0 \<and>
        guest_pages s' 1 1 = Some (0x50001000, PKVM_PAGE_SHARED_HYP) \<and>
        guest_pages s' 1 2 = Some (0x50002000, PKVM_PAGE_SHARED_HYP))"
  by (simp add: guest_state_def guest_map_ctxt_def ready_state_def example_defs model_defs
        const_defs smc_defs)

text \<open>
  A map for an endpoint that has a mapping is refused with DENIED, and an unmap for an
  endpoint that has none with INVALID_PARAMETERS; neither changes the state. (No
  partition is registered for the messages about virtual machines, so the map sends
  none.)
\<close>

lemma do_ffa_rxtx_map_twice:
  assumes "tx (endp_buffers s vm_handle) \<noteq> None" and "num_registered_sp_ids s = 0"
      and "unat (ucast (ctxt 3) :: u32) = 1" and "PAGE_ALIGNED (ctxt 1)" and "PAGE_ALIGNED (ctxt 2)"
  shows "do_ffa_rxtx_map spmd res ctxt vm_handle s
           = (FFA_RET_DENIED, ffa_to_smccc_error (scast FFA_RET_DENIED), s)"
  using assms
  by (auto simp: do_ffa_rxtx_map_def kvm_notify_vm_availability_def ffa_sizes
        ffa_to_smccc_res_def ffa_to_smccc_res_prop_def ffa_ret_codes)

lemma do_ffa_rxtx_unmap_unmapped:
  assumes "tx (endp_buffers s vm_handle) = None"
  shows "do_ffa_rxtx_unmap spmd res ctxt vm_handle s
           = (ffa_to_smccc_error (scast FFA_RET_INVALID_PARAMETERS), s)"
  using assms
  by (simp add: do_ffa_rxtx_unmap_def ffa_to_smccc_res_def ffa_to_smccc_res_prop_def
        ffa_ret_codes)

text \<open>
  C6. The claim says that the reference count of the hypervisor's message-box pair is
  the number of endpoints that have their message boxes mapped. A map that the secure
  side refuses breaks it: \<open>ffa_map_hyp_buffers\<close> has counted the reference before it
  calls the secure side, and \<open>do_ffa_rxtx_map\<close> leaves without giving it back. After
  such a call of the host in the state \<open>ready_state\<close>, where the count is 0, the call
  has failed, no endpoint is mapped and the count is 1.
\<close>

theorem rxtx_map_refused_keeps_reference:
  "hyp_buff_refcnt ready_state = 0 \<and>
   (case do_ffa_rxtx_map
           (spmd_by_func (answer_with [(FFA_FN64_RXTX_MAP, ffa_denied)]) empty_region)
           zero_res host_map_ctxt HOST_FFA_ID ready_state of
      (ret, res, s') \<Rightarrow>
        ret = FFA_RET_DENIED \<and> res = ffa_denied \<and>
        endp_buffers s' = (\<lambda>i. empty_ffa_buffers) \<and>
        hyp_buff_refcnt s' = 1)"
  by (simp add: host_map_ctxt_def ready_state_def example_defs model_defs const_defs smc_defs)

text \<open>
  The teardown of a guest unmaps its message boxes and keeps the reference: after
  \<open>kvm_reclaim_ffa_guest_pages\<close> for guest 1, the only endpoint that was mapped, no
  endpoint is mapped and the count is still 1.
\<close>

lemma guest_teardown_keeps_reference:
  "hyp_buff_refcnt guest_mapped_state = 1 \<and>
   (case kvm_reclaim_ffa_guest_pages (spmd_by_func answer_accept empty_region) (guest_vcpu [])
           guest_mapped_state of
      (ret, s') \<Rightarrow>
        ret = 0 \<and> (\<forall>i. tx (endp_buffers s' i) = None \<and> rx (endp_buffers s' i) = None) \<and>
        hyp_buff_refcnt s' = 1)"
  by (simp add: guest_mapped_state_def guest_state_def guest_vcpu_def ready_state_def
        example_defs model_defs const_defs smc_defs Let_def)

text \<open>
  C9. An unmap call, of the host or of a guest, whose endpoint identifier (the 32-bit
  value \<open>id\<close> that the call reads from the low half of register 1) is not zero returns
  FFA_ERROR with INVALID_PARAMETERS and the state it was given: no buffer is unpinned or
  unshared, the reference count stays, nothing reaches the secure side.
\<close>

theorem do_ffa_rxtx_unmap_nonzero_id:
  assumes "(ucast (ctxt 1) :: u32) \<noteq> 0"
  shows "do_ffa_rxtx_unmap spmd res ctxt vm_handle s
           = (ffa_to_smccc_error (scast FFA_RET_INVALID_PARAMETERS), s)"
  using assms
  by (simp add: do_ffa_rxtx_unmap_def HOST_FFA_ID_def ffa_to_smccc_res_def
        ffa_to_smccc_res_prop_def ffa_ret_codes)

theorem do_ffa_rxtx_unmap_nonzero_id_witness:
  "(ucast (ctxt_of [FFA_RXTX_UNMAP, 1] 1) :: u32) \<noteq> 0 \<and>
   do_ffa_rxtx_unmap (spmd_by_func answer_accept empty_region) zero_res
       (ctxt_of [FFA_RXTX_UNMAP, 1]) 1 guest_mapped_state
     = (ffa_to_smccc_error (scast FFA_RET_INVALID_PARAMETERS), guest_mapped_state)"
  using do_ffa_rxtx_unmap_nonzero_id
          [of "ctxt_of [FFA_RXTX_UNMAP, 1]" "spmd_by_func answer_accept empty_region" zero_res 1
              guest_mapped_state]
  by (simp add: ctxt_of_def)

subsection \<open>The reference count at its maximum\<close>

text \<open>
  The VM-availability messages are the only thing \<open>kvm_notify_vm_availability\<close> does to
  the state: it appends one FFA_MSG_SEND_DIRECT_REQ for each of the first \<open>k\<close> registered
  partitions to the record of the calls to the secure side, where \<open>k\<close> is the number of
  partitions it gets to. With the count at USHRT_MAX a map call
  is its argument checks, these messages, the check that the caller has no message box
  yet, and the BUSY of \<open>ffa_map_hyp_buffers\<close>.
\<close>

lemma notify_loop_log:
  "\<exists>k \<le> length sps.
     snd (notify_loop spmd h m sps s)
       = s\<lparr>smc_log := smc_log s @
                 map (\<lambda>sp. [FFA_MSG_SEND_DIRECT_REQ, ucast sp, ucast m, 0, 0, ucast h, 0, 0])
                   (take k sps)\<rparr>"
proof (induction sps arbitrary: s)
  case Nil
  show ?case
    by simp
next
  case (Cons sp sps)
  let ?c = "\<lambda>sp. [FFA_MSG_SEND_DIRECT_REQ, ucast sp, ucast m, 0, 0, ucast h, 0, 0]"
  let ?s1 = "s\<lparr>smc_log := smc_log s @ [?c sp]\<rparr>"
  obtain k where k: "k \<le> length sps"
    "snd (notify_loop spmd h m sps ?s1) = ?s1\<lparr>smc_log := smc_log ?s1 @ map ?c (take k sps)\<rparr>"
    using Cons.IH [of ?s1] by blast
  have "snd (notify_loop spmd h m (sp # sps) s) = ?s1
          \<or> snd (notify_loop spmd h m (sp # sps) s) = snd (notify_loop spmd h m sps ?s1)"
    by (simp add: arm_smccc_1_1_smc_def)
  then show ?case
  proof
    assume "snd (notify_loop spmd h m (sp # sps) s) = ?s1"
    then show ?thesis
      by (intro exI [of _ "Suc 0"]) simp
  next
    assume "snd (notify_loop spmd h m (sp # sps) s) = snd (notify_loop spmd h m sps ?s1)"
    then show ?thesis
      using k by (intro exI [of _ "Suc k"]) simp
  qed
qed

lemma kvm_notify_vm_availability_log:
  "\<exists>k \<le> unat (num_registered_sp_ids s).
     snd (kvm_notify_vm_availability spmd h m s)
       = s\<lparr>smc_log := smc_log s @
                 map (\<lambda>i. [FFA_MSG_SEND_DIRECT_REQ, ucast (sp_ids s i), ucast m, 0, 0, ucast h, 0, 0])
                   [0 ..< k]\<rparr>"
proof (cases "num_registered_sp_ids s = 0")
  case True
  then show ?thesis
    by (simp add: kvm_notify_vm_availability_def)
next
  case False
  let ?n = "unat (num_registered_sp_ids s)"
  let ?c = "\<lambda>sp. [FFA_MSG_SEND_DIRECT_REQ, ucast sp, ucast m, 0, 0, ucast h, 0, 0]"
  obtain k where k: "k \<le> ?n"
    "snd (notify_loop spmd h m (map (sp_ids s) [0 ..< ?n]) s)
       = s\<lparr>smc_log := smc_log s @ map ?c (take k (map (sp_ids s) [0 ..< ?n]))\<rparr>"
    using notify_loop_log [of "map (sp_ids s) [0 ..< ?n]" spmd h m s] by auto
  have "take k (map (sp_ids s) [0 ..< ?n]) = map (sp_ids s) [0 ..< k]"
    using k(1) by (simp add: take_map min_def)
  then show ?thesis
    using False k by (intro exI [of _ k]) (simp add: kvm_notify_vm_availability_def comp_def)
qed

lemma rxtx_map_saturated_after_notify:
  assumes "hyp_buff_refcnt s = USHRT_MAX"
  shows "do_ffa_rxtx_map spmd res ctxt vm_handle s =
     (if unat (ucast (ctxt 3) :: u32) \<noteq> (KVM_FFA_MBOX_NR_PAGES * PAGE_SIZE) div FFA_PAGE_SIZE
           \<or> \<not> PAGE_ALIGNED (ctxt 1) \<or> \<not> PAGE_ALIGNED (ctxt 2)
        then (FFA_RET_INVALID_PARAMETERS, ffa_to_smccc_error (scast FFA_RET_INVALID_PARAMETERS), s)
      else
        (case kvm_notify_vm_availability spmd (of_nat vm_handle) FFA_VM_CREATION_MSG s of
           (ret1, s1) \<Rightarrow>
             if ret1 \<noteq> FFA_RET_SUCCESS then (ret1, ffa_to_smccc_error (scast ret1), s1)
             else if tx (endp_buffers s vm_handle) \<noteq> None
               then (FFA_RET_DENIED, ffa_to_smccc_error (scast FFA_RET_DENIED), s1)
             else (FFA_RET_BUSY, ffa_to_smccc_error (scast FFA_RET_BUSY), s1)))"
proof -
  obtain ret1 s1 where n: "kvm_notify_vm_availability spmd (of_nat vm_handle) FFA_VM_CREATION_MSG s
                             = (ret1, s1)"
    by fastforce
  obtain msgs where "s1 = s\<lparr>smc_log := smc_log s @ msgs\<rparr>"
    using kvm_notify_vm_availability_log [of s spmd "of_nat vm_handle" FFA_VM_CREATION_MSG] n
    by auto
  then have s1: "hyp_buff_refcnt s1 = USHRT_MAX" "endp_buffers s1 = endp_buffers s"
    using assms by simp_all
  have busy: "ffa_map_hyp_buffers spmd (ucast (ucast (ctxt 3) :: u32)) s1 = (FFA_RET_BUSY, s1)"
    using s1 by (simp add: ffa_map_hyp_buffers_def)
  have err: "\<And>r. r \<noteq> FFA_RET_SUCCESS \<Longrightarrow> ffa_to_smccc_res res r = ffa_to_smccc_error (scast r)"
    by (simp add: ffa_to_smccc_res_def ffa_to_smccc_res_prop_def)
  have ne: "FFA_RET_INVALID_PARAMETERS \<noteq> FFA_RET_SUCCESS" "FFA_RET_DENIED \<noteq> FFA_RET_SUCCESS"
    "FFA_RET_BUSY \<noteq> FFA_RET_SUCCESS" "FFA_RET_BUSY \<noteq> 0"
    by (simp_all add: ffa_ret_codes)
  show ?thesis
    unfolding do_ffa_rxtx_map_def n
    by (simp add: busy s1 err ne)
qed

text \<open>
  The step of the map that the count guards: at USHRT_MAX \<open>ffa_map_hyp_buffers\<close> answers
  BUSY and returns the state as it found it.
\<close>

lemma ffa_map_hyp_buffers_at_max:
  assumes "hyp_buff_refcnt s = USHRT_MAX"
  shows "ffa_map_hyp_buffers spmd ffa_page_count s = (FFA_RET_BUSY, s)"
  using assms by (simp add: ffa_map_hyp_buffers_def)

text \<open>
  C10, as the code has it. When the reference count of the hypervisor's message-box pair
  is at USHRT_MAX, no map call succeeds: \<open>do_ffa_rxtx_map\<close> ends with a status other than
  success and with FFA_ERROR and that status as its result. It changes nothing in the
  state but the record of the calls to the secure side, so the count is not incremented
  and cannot wrap around; and the only calls it issues are VM-availability messages, one
  to each of the first \<open>k\<close> registered partitions, never the map of the hypervisor's own
  buffers. The status is BUSY when the arguments are valid (one page, both addresses
  page-aligned), every availability message is acknowledged and the caller has no message
  box mapped.
\<close>

theorem do_ffa_rxtx_map_saturated:
  assumes "hyp_buff_refcnt s = USHRT_MAX"
  shows "\<exists>ret k.
           do_ffa_rxtx_map spmd res ctxt vm_handle s
             = (ret, ffa_to_smccc_error (scast ret),
                s\<lparr>smc_log := smc_log s @
                     map (\<lambda>i. [FFA_MSG_SEND_DIRECT_REQ, ucast (sp_ids s i),
                               ucast FFA_VM_CREATION_MSG, 0, 0,
                               ucast (of_nat vm_handle :: u16), 0, 0]) [0 ..< k]\<rparr>) \<and>
           ret \<noteq> FFA_RET_SUCCESS \<and>
           k \<le> unat (num_registered_sp_ids s) \<and>
           (unat (ucast (ctxt 3) :: u32) = (KVM_FFA_MBOX_NR_PAGES * PAGE_SIZE) div FFA_PAGE_SIZE \<and>
            PAGE_ALIGNED (ctxt 1) \<and> PAGE_ALIGNED (ctxt 2) \<and>
            fst (kvm_notify_vm_availability spmd (of_nat vm_handle) FFA_VM_CREATION_MSG s)
              = FFA_RET_SUCCESS \<and>
            tx (endp_buffers s vm_handle) = None
            \<longrightarrow> ret = FFA_RET_BUSY)"
proof -
  let ?msgs = "\<lambda>k. map (\<lambda>i. [FFA_MSG_SEND_DIRECT_REQ, ucast (sp_ids s i),
                               ucast FFA_VM_CREATION_MSG, 0, 0,
                               ucast (of_nat vm_handle :: u16), 0, 0]) [0 ..< k]"
  obtain ret1 s1 where n: "kvm_notify_vm_availability spmd (of_nat vm_handle) FFA_VM_CREATION_MSG s
                             = (ret1, s1)"
    by fastforce
  obtain k where k: "k \<le> unat (num_registered_sp_ids s)"
    "s1 = s\<lparr>smc_log := smc_log s @ ?msgs k\<rparr>"
    using kvm_notify_vm_availability_log [of s spmd "of_nat vm_handle" FFA_VM_CREATION_MSG] n
    by auto
  show ?thesis
  proof (cases "unat (ucast (ctxt 3) :: u32) \<noteq> (KVM_FFA_MBOX_NR_PAGES * PAGE_SIZE) div FFA_PAGE_SIZE
                  \<or> \<not> PAGE_ALIGNED (ctxt 1) \<or> \<not> PAGE_ALIGNED (ctxt 2)")
    case True
    then show ?thesis
      unfolding rxtx_map_saturated_after_notify [OF assms]
      by (intro exI [of _ FFA_RET_INVALID_PARAMETERS] exI [of _ 0])
         (auto simp add: ffa_ret_codes)
  next
    case False
    then have eq: "do_ffa_rxtx_map spmd res ctxt vm_handle s =
             (if ret1 \<noteq> FFA_RET_SUCCESS then (ret1, ffa_to_smccc_error (scast ret1), s1)
              else if tx (endp_buffers s vm_handle) \<noteq> None
                then (FFA_RET_DENIED, ffa_to_smccc_error (scast FFA_RET_DENIED), s1)
              else (FFA_RET_BUSY, ffa_to_smccc_error (scast FFA_RET_BUSY), s1))"
      unfolding rxtx_map_saturated_after_notify [OF assms] n by simp
    show ?thesis
    proof (cases "ret1 \<noteq> FFA_RET_SUCCESS")
      case True
      then show ?thesis
        using k eq n by (intro exI [of _ ret1] exI [of _ k]) simp
    next
      case ok: False
      show ?thesis
      proof (cases "tx (endp_buffers s vm_handle) \<noteq> None")
        case True
        then show ?thesis
          using k eq ok
          by (intro exI [of _ FFA_RET_DENIED] exI [of _ k]) (simp add: ffa_ret_codes)
      next
        case False
        then show ?thesis
          using k eq ok
          by (intro exI [of _ FFA_RET_BUSY] exI [of _ k]) (simp add: ffa_ret_codes)
      qed
    qed
  qed
qed

theorem do_ffa_rxtx_map_saturated_witness:
  "hyp_buff_refcnt saturated_state = USHRT_MAX \<and>
   do_ffa_rxtx_map (spmd_by_func (answer_with [(FFA_MSG_SEND_DIRECT_REQ, direct_resp)]) empty_region)
       zero_res guest_map_ctxt 1 saturated_state
     = (FFA_RET_BUSY, ffa_to_smccc_error (scast FFA_RET_BUSY),
        saturated_state\<lparr>smc_log := smc_log saturated_state
                                      @ [[FFA_MSG_SEND_DIRECT_REQ, 0x8001, 0x80000004, 0, 0, 1, 0, 0]]\<rparr>)"
  using do_ffa_rxtx_map_saturated
          [of saturated_state
              "spmd_by_func (answer_with [(FFA_MSG_SEND_DIRECT_REQ, direct_resp)]) empty_region"
              zero_res guest_map_ctxt 1]
  by (simp add: saturated_state_def direct_resp_def guest_map_ctxt_def ready_state_def
        example_defs model_defs const_defs smc_defs)

text \<open>
  C10, as the claim states it, fails. With one registered partition the host's map call
  is answered BUSY only after a VM-availability message has gone to the secure side; and
  a map call that asks for two pages is answered INVALID_PARAMETERS, not BUSY.
\<close>

theorem map_saturated_counterexample:
  "hyp_buff_refcnt saturated_state = USHRT_MAX \<and>
   (case do_ffa_rxtx_map
           (spmd_by_func (answer_with [(FFA_MSG_SEND_DIRECT_REQ, direct_resp)]) empty_region)
           zero_res host_map_ctxt HOST_FFA_ID saturated_state of
      (ret, res, s') \<Rightarrow>
        ret = FFA_RET_BUSY \<and>
        smc_log s' = smc_log saturated_state
                       @ [[FFA_MSG_SEND_DIRECT_REQ, 0x8001, 0x80000004, 0, 0, 0, 0, 0]]) \<and>
   (case do_ffa_rxtx_map (spmd_by_func answer_accept empty_region) zero_res
           (ctxt_of [FFA_FN64_RXTX_MAP, 0x90000000, 0x90001000, 2]) HOST_FFA_ID
           (ready_state\<lparr>hyp_buff_refcnt := USHRT_MAX\<rparr>) of
      (ret, res, s') \<Rightarrow>
        ret = FFA_RET_INVALID_PARAMETERS \<and> a0 res = FFA_ERROR \<and>
        a2 res = scast FFA_RET_INVALID_PARAMETERS \<and> a2 res \<noteq> scast FFA_RET_BUSY)"
  by (simp add: saturated_state_def direct_resp_def host_map_ctxt_def ready_state_def
        example_defs model_defs const_defs smc_defs)

text \<open>
  What the two entry points make of the BUSY status when no partition is registered: the
  host handler writes FFA_ERROR and BUSY into the registers of the host; the guest
  handler, given a negative status, leaves the registers of the guest as they were and
  reports the call as not handled.
\<close>

lemma host_handler_map_saturated:
  assumes "has_version_negotiated s" and "hyp_buff_refcnt s = USHRT_MAX"
      and "num_registered_sp_ids s = 0"
      and "unat (ucast (ctxt 3) :: u32) = (KVM_FFA_MBOX_NR_PAGES * PAGE_SIZE) div FFA_PAGE_SIZE"
      and "PAGE_ALIGNED (ctxt 1)" and "PAGE_ALIGNED (ctxt 2)"
      and "tx (endp_buffers s HOST_FFA_ID) = None"
  shows "kvm_host_ffa_handler spmd txbuf res ctxt (ucast FFA_FN64_RXTX_MAP) s
           = Some (True, ffa_set_retval ctxt (ffa_to_smccc_error (scast FFA_RET_BUSY)), s)"
  using assms
  by (simp add: kvm_host_ffa_handler_def rxtx_map_saturated_after_notify host_ffa_done_def
        kvm_notify_vm_availability_def is_ffa_call_def ffa_func_ids ffa_ret_codes)

lemma guest_handler_map_saturated:
  assumes "ffa_support hyp_vcpu" and "vcpu_ctxt hyp_vcpu 0 = FFA_FN64_RXTX_MAP"
      and "unat (VM_FFA_HANDLE_FROM_VCPU hyp_vcpu) < KVM_MAX_PVMS"
      and "hyp_buff_refcnt s = USHRT_MAX" and "num_registered_sp_ids s = 0"
      and "unat (ucast (vcpu_ctxt hyp_vcpu 3) :: u32)
             = (KVM_FFA_MBOX_NR_PAGES * PAGE_SIZE) div FFA_PAGE_SIZE"
      and "PAGE_ALIGNED (vcpu_ctxt hyp_vcpu 1)" and "PAGE_ALIGNED (vcpu_ctxt hyp_vcpu 2)"
      and "tx (endp_buffers s (unat (VM_FFA_HANDLE_FROM_VCPU hyp_vcpu))) = None"
  shows "kvm_guest_ffa_handler spmd txbuf res hyp_vcpu s = Some (False, vcpu_ctxt hyp_vcpu, s)"
  using assms
  by (simp add: kvm_guest_ffa_handler_def guest_ffa_switch_def WARN_ON_def
        rxtx_map_saturated_after_notify guest_ffa_done_def kvm_notify_vm_availability_def
        is_ffa_call_def ffa_func_ids ffa_ret_codes)

subsection \<open>Version negotiation\<close>

text \<open>
  C7, as the code has it. After the negotiation has succeeded, a negotiation call that
  asks for major version 1 returns the resolved version, and one that asks for any other
  major version returns NOT_SUPPORTED: the check of the major version comes first. In
  both cases the call changes nothing: the version state stays and nothing reaches the
  secure side. Only register \<open>a0\<close> of the result is written.
\<close>

theorem do_ffa_version_negotiated:
  assumes "has_version_negotiated s"
  shows "do_ffa_version spmd res ctxt s
           = (res\<lparr>a0 := (if FFA_MAJOR_VERSION (ucast (ctxt 1)) = 1
                          then ucast (hyp_ffa_version s)
                          else scast FFA_RET_NOT_SUPPORTED)\<rparr>, s)"
  using assms by (simp add: do_ffa_version_def)

theorem do_ffa_version_negotiated_witness:
  "has_version_negotiated ready_state \<and>
   do_ffa_version (spmd_by_func answer_accept empty_region) zero_res
       (ctxt_of [FFA_VERSION, 0x10000]) ready_state
     = (zero_res\<lparr>a0 := 0x10001\<rparr>, ready_state) \<and>
   do_ffa_version (spmd_by_func answer_accept empty_region) zero_res
       (ctxt_of [FFA_VERSION, 0x20000]) ready_state
     = (zero_res\<lparr>a0 := 0xFFFFFFFFFFFFFFFF\<rparr>, ready_state)"
  using do_ffa_version_negotiated
          [of ready_state "spmd_by_func answer_accept empty_region" zero_res
              "ctxt_of [FFA_VERSION, 0x10000]"]
        do_ffa_version_negotiated
          [of ready_state "spmd_by_func answer_accept empty_region" zero_res
              "ctxt_of [FFA_VERSION, 0x20000]"]
  by (simp add: ready_state_def ctxt_of_def FFA_MAJOR_VERSION_def ffa_ret_codes)

text \<open>
  C7, as the claim states it, fails: after the negotiation has resolved version 1.1, a
  call that asks for version 2.0 does not return the resolved version.
\<close>

theorem do_ffa_version_counterexample:
  "has_version_negotiated ready_state \<and>
   hyp_ffa_version ready_state = 0x10001 \<and>
   a0 (fst (do_ffa_version (spmd_by_func answer_accept empty_region) zero_res
              (ctxt_of [FFA_VERSION, 0x20000]) ready_state))
     \<noteq> ucast (hyp_ffa_version ready_state)"
  by (simp add: do_ffa_version_def ready_state_def ctxt_of_def FFA_MAJOR_VERSION_def
        ffa_ret_codes zero_res_def)

subsection \<open>The page counts of a guest's descriptor\<close>

lemma upt_0_2: "[0 ..< 2] = [0, Suc 0]"
  by (simp add: numeral_2_eq_2)

lemma foldl_pg_cnt:
  "foldl (\<lambda>cnt i. cnt + pg_cnt (c i)) a [0 ..< n]
     = a + (of_nat (\<Sum>i<n. unat (pg_cnt (c i))) :: u32)"
  by (induction n) (simp_all add: add.assoc)

lemma page_count_invalid:
  assumes "n < 2 ^ 32"
      and "(\<Sum>i<n. unat (pg_cnt (constituents reg i))) < 2 ^ 32"
      and "(\<Sum>i<n. unat (pg_cnt (constituents reg i))) \<noteq> unat (total_pg_cnt reg)"
  shows "\<not> is_page_count_valid reg (of_nat n)"
proof
  assume v: "is_page_count_valid reg (of_nat n)"
  define S where "S = (\<Sum>i<n. unat (pg_cnt (constituents reg i)))"
  have n: "unat (of_nat n :: u32) = n"
    using assms(1) by (simp add: unat_of_nat)
  from v have "(of_nat S :: u32) = total_pg_cnt reg"
    unfolding S_def is_page_count_valid_def n foldl_pg_cnt by simp
  then have "unat (of_nat S :: u32) = unat (total_pg_cnt reg)"
    by simp
  moreover have "unat (of_nat S :: u32) = S"
    using assms(2) unfolding S_def [symmetric] by (simp add: unat_of_nat)
  ultimately show False
    using assms(3) unfolding S_def [symmetric] by simp
qed

text \<open>
  C8, as the code has it. A share or lend of a guest for which the transfer record can
  be allocated, and whose \<open>n\<close> address ranges have fewer than \<open>2^32\<close> pages together
  and not as many as the total page count says, is rejected with INVALID_PARAMETERS and
  returns the state it was given: no page is shared, nothing reaches the secure side.
  \<open>n\<close> is the number of ranges that the fragment length leaves room for.
\<close>

theorem guest_page_count_mismatch_rejected:
  assumes "vm_handle \<noteq> 0" and "alloc_free s \<noteq> 0"
      and "n = (unat (ucast (ctxt 2) :: u32)
                  - (unat (composite_off txbuf) + sizeof_ffa_composite_mem_region))
                 div sizeof_ffa_mem_region_addr_range"
      and "(\<Sum>i<n. unat (pg_cnt (constituents txbuf i))) < 2 ^ 32"
      and "(\<Sum>i<n. unat (pg_cnt (constituents txbuf i))) \<noteq> unat (total_pg_cnt txbuf)"
  shows "do_ffa_mem_xfer spmd txbuf func_id res ctxt vm_handle s
           = Some (FFA_RET_INVALID_PARAMETERS,
                   ffa_to_smccc_error (scast FFA_RET_INVALID_PARAMETERS), s)"
proof -
  have out: "mem_xfer_out b (FFA_RET_INVALID_PARAMETERS, r, t)
               = (FFA_RET_INVALID_PARAMETERS, ffa_to_smccc_error (scast FFA_RET_INVALID_PARAMETERS),
                  if b then hyp_free t else t)" for b r t
    by (simp add: mem_xfer_out_def ffa_to_smccc_res_def ffa_to_smccc_res_prop_def ffa_ret_codes)
  have alloc: "ffa_alloc s = (True, s\<lparr>alloc_free := alloc_free s - Suc 0\<rparr>)"
    using assms(2) by (simp add: ffa_alloc_def hyp_alloc_def)
  have free: "hyp_free (s\<lparr>alloc_free := alloc_free s - Suc 0\<rparr>) = s"
    using assms(2) by (simp add: hyp_free_def)
  have n_small: "n < 2 ^ 32"
  proof -
    have "unat (ucast (ctxt 2) :: u32) < 2 ^ 32"
      using unsigned_less [of "ucast (ctxt 2) :: u32"] by simp
    then show ?thesis
      unfolding assms(3) by (simp add: ffa_sizes less_imp_diff_less
                               le_less_trans [OF div_le_dividend])
  qed
  have bad: "\<not> is_page_count_valid txbuf (of_nat n)"
    by (rule page_count_invalid [OF n_small assms(4,5)])
  have locked: "mem_xfer_locked spmd txbuf func_id res len (ucast (ctxt 2)) vm_handle tr
                  (s\<lparr>alloc_free := alloc_free s - Suc 0\<rparr>)
                = Some (FFA_RET_INVALID_PARAMETERS, res, s\<lparr>alloc_free := alloc_free s - Suc 0\<rparr>)"
    for len tr
    using assms(1) bad unfolding assms(3)
    by (simp add: mem_xfer_locked_def)
  show ?thesis
    using assms(1)
    by (simp add: do_ffa_mem_xfer_def out alloc locked free)
qed

text \<open>
  The scenario of the specification: the guest's descriptor says 3 pages in total and
  its one range has 2.
\<close>

theorem guest_page_count_mismatch_rejected_witness:
  "(1 :: nat) \<noteq> 0 \<and> alloc_free guest_mapped_state \<noteq> 0 \<and>
   (1 :: nat) = (unat (ucast (ctxt_of [FFA_FN64_MEM_SHARE, 96, 96, 0, 0] 2) :: u32)
                   - (unat (composite_off mismatched_region) + sizeof_ffa_composite_mem_region))
                  div sizeof_ffa_mem_region_addr_range \<and>
   (\<Sum>i<1. unat (pg_cnt (constituents mismatched_region i))) = 2 \<and>
   unat (total_pg_cnt mismatched_region) = 3 \<and>
   do_ffa_mem_xfer (spmd_by_func answer_accept empty_region) mismatched_region
       FFA_FN64_MEM_SHARE zero_res (ctxt_of [FFA_FN64_MEM_SHARE, 96, 96, 0, 0]) 1
       guest_mapped_state
     = Some (FFA_RET_INVALID_PARAMETERS,
             ffa_to_smccc_error (scast FFA_RET_INVALID_PARAMETERS), guest_mapped_state)"
  using guest_page_count_mismatch_rejected
          [of 1 guest_mapped_state 1 "ctxt_of [FFA_FN64_MEM_SHARE, 96, 96, 0, 0]"
              mismatched_region "spmd_by_func answer_accept empty_region" FFA_FN64_MEM_SHARE
              zero_res]
  by (simp add: mismatched_region_def ctxt_of_def guest_mapped_state_def guest_state_def
        ready_state_def ffa_sizes)

text \<open>
  C8, as the claim states it, fails in two ways. The transfer record is allocated before
  the descriptor is looked at: when the allocator has nothing left, the request of the
  specification's scenario ends with the allocator's error \<open>-ENOMEM\<close> and a request for
  memory to the host, not with INVALID_PARAMETERS. And the page counts are added up in
  32 bits: a descriptor whose two ranges have \<open>2^32 + 1\<close> pages together and whose total
  says 1 passes the check, pages are shared until one is not resident, and the call ends
  with \<open>-EFAULT\<close> and a request to fault the page at 0x12000 in.
\<close>

theorem guest_page_count_mismatch_counterexample:
  "unat (pg_cnt (constituents mismatched_region 0)) = 2 \<and>
   unat (total_pg_cnt mismatched_region) = 3 \<and>
   (case do_ffa_mem_xfer (spmd_by_func answer_accept empty_region) mismatched_region
           FFA_FN64_MEM_SHARE zero_res (ctxt_of [FFA_FN64_MEM_SHARE, 96, 96, 0, 0]) 1
           (guest_mapped_state\<lparr>alloc_free := 0\<rparr>) of
      None \<Rightarrow> False
    | Some (ret, res, s') \<Rightarrow>
        ret = - ENOMEM \<and> ret \<noteq> FFA_RET_INVALID_PARAMETERS \<and>
        a2 res \<noteq> scast FFA_RET_INVALID_PARAMETERS \<and>
        vcpu_events s' = [HYP_REQ_MEM 1]) \<and>
   unat (pg_cnt (constituents wrapping_region 0)) + unat (pg_cnt (constituents wrapping_region 1))
     = 4294967297 \<and>
   unat (total_pg_cnt wrapping_region) = 1 \<and>
   (case do_ffa_mem_xfer (spmd_by_func answer_accept empty_region) wrapping_region
           FFA_FN64_MEM_SHARE zero_res (ctxt_of [FFA_FN64_MEM_SHARE, 112, 112, 0, 0]) 1
           guest_mapped_state of
      None \<Rightarrow> False
    | Some (ret, res, s') \<Rightarrow>
        ret = - EFAULT \<and> ret \<noteq> FFA_RET_INVALID_PARAMETERS \<and>
        a2 res \<noteq> scast FFA_RET_INVALID_PARAMETERS \<and>
        vcpu_events s' = [MEMSHARE_PAGE_REQ 0x12000])"
  by (simp add: mismatched_region_def wrapping_region_def guest_mapped_state_def guest_state_def
        ready_state_def example_defs model_defs const_defs smc_defs
        ffa_guest_share_pages.simps upt_0_2)

end
